theory Spec2Isabelle
  imports Main "HOL-Library.Word"
begin

section \<open>JavaScript strings and JSON values\<close>

text \<open>
  A JavaScript string is a sequence of UTF-16 code units. The regular expression class
  \<^verbatim>\<open>\s\<close> and \<^verbatim>\<open>String.prototype.trim\<close> both look at code units beyond ASCII
  (U+00A0, U+2028, ...), so the code unit is a 16-bit word and not an 8-bit character.
  \<open>js\<close> embeds an ASCII literal.
\<close>

type_synonym jschar = "16 word"
type_synonym jsstring = "jschar list"

definition js :: "string \<Rightarrow> jsstring" where
  "js s = map of_char s"

text \<open>
  The values a parsed JSON request body (and a property read on one) can hold.
  \<open>JUndefined\<close> is what reading an absent property gives. \<open>JNum\<close> covers the
  integer-valued numbers that JavaScript prints in plain decimal (magnitude below
  \<open>10^21\<close>); fractional numbers are outside the model. An object is its list of own
  properties, as \<^verbatim>\<open>JSON.parse\<close> creates them: no property of a parsed object is
  callable.
\<close>

datatype jsval =
    JUndefined
  | JNull
  | JBool bool
  | JNum int
  | JStr jsstring
  | JArr "jsval list"
  | JObj "(jsstring \<times> jsval) list"

text \<open>
  What a step of the handler can throw: a \<^verbatim>\<open>TypeError\<close> raised by the engine, or
  whatever the email provider throws (with its message).
\<close>

datatype js_error = TypeError | ProviderError jsstring

text \<open>\<^verbatim>\<open>ToBoolean\<close>: the falsy values are undefined, null, false, 0 and the empty string.\<close>

fun truthy :: "jsval \<Rightarrow> bool" where
  "truthy JUndefined = False"
| "truthy JNull = False"
| "truthy (JBool b) = b"
| "truthy (JNum n) = (n \<noteq> 0)"
| "truthy (JStr s) = (s \<noteq> [])"
| "truthy (JArr xs) = True"
| "truthy (JObj kvs) = True"

text \<open>
  Reading a property \<^verbatim>\<open>v.k\<close> (also by destructuring): a \<^verbatim>\<open>TypeError\<close> on undefined
  and null, the own property of an object, and undefined on anything else for the
  property names the programs read (none of them is a property of a string, a number,
  a boolean or an array).
\<close>

fun read_prop :: "jsval \<Rightarrow> jsstring \<Rightarrow> jsval" where
  "read_prop (JObj kvs) k = (case map_of kvs k of None \<Rightarrow> JUndefined | Some v \<Rightarrow> v)"
| "read_prop v k = JUndefined"

definition get_prop :: "jsval \<Rightarrow> jsstring \<Rightarrow> js_error + jsval" where
  "get_prop v k =
     (if v = JUndefined \<or> v = JNull then Inl TypeError else Inr (read_prop v k))"

text \<open>\<^verbatim>\<open>Number::toString\<close> on an integer-valued number: plain decimal digits.\<close>

function dec_nat :: "nat \<Rightarrow> jsstring" where
  "dec_nat n =
     (if n < 10 then [0x30 + of_nat n]
      else dec_nat (n div 10) @ [0x30 + of_nat (n mod 10)])"
  by pat_completeness auto
termination
  by (relation "measure id") auto

definition number_to_string :: "int \<Rightarrow> jsstring" where
  "number_to_string i =
     (if i < 0 then [0x2D] @ dec_nat (nat (- i)) else dec_nat (nat i))"

text \<open>
  \<^verbatim>\<open>ToString\<close>, as a template literal \<^verbatim>\<open>${v}\<close> and \<^verbatim>\<open>RegExp.prototype.test\<close>
  apply it. An array is joined with commas, undefined and null elements printing as
  nothing. An object prints as \<^verbatim>\<open>[object Object]\<close> through
  \<^verbatim>\<open>Object.prototype.toString\<close>; when it has an own property \<^verbatim>\<open>toString\<close>, that
  property is not callable, \<^verbatim>\<open>valueOf\<close> gives no primitive either, and the
  conversion throws a \<^verbatim>\<open>TypeError\<close>.
\<close>

fun ToString :: "jsval \<Rightarrow> js_error + jsstring"
  and join_elements :: "jsval list \<Rightarrow> js_error + jsstring"
  and element_string :: "jsval \<Rightarrow> js_error + jsstring"
where
  "ToString JUndefined = Inr (js ''undefined'')"
| "ToString JNull = Inr (js ''null'')"
| "ToString (JBool b) = Inr (if b then js ''true'' else js ''false'')"
| "ToString (JNum n) = Inr (number_to_string n)"
| "ToString (JStr s) = Inr s"
| "ToString (JArr xs) = join_elements xs"
| "ToString (JObj kvs) =
     (if map_of kvs (js ''toString'') = None then Inr (js ''[object Object]'')
      else Inl TypeError)"
| "join_elements [] = Inr []"
| "join_elements [x] = element_string x"
| "join_elements (x # y # ys) =
     (case element_string x of
        Inl e \<Rightarrow> Inl e
      | Inr a \<Rightarrow>
          (case join_elements (y # ys) of
             Inl e \<Rightarrow> Inl e
           | Inr b \<Rightarrow> Inr (a @ [0x2C] @ b)))"
| "element_string JUndefined = Inr []"
| "element_string JNull = Inr []"
| "element_string (JBool b) = ToString (JBool b)"
| "element_string (JNum n) = ToString (JNum n)"
| "element_string (JStr s) = ToString (JStr s)"
| "element_string (JArr xs) = ToString (JArr xs)"
| "element_string (JObj kvs) = ToString (JObj kvs)"

text \<open>\<^verbatim>\<open>String.prototype.includes\<close>: the argument occurs as a substring.\<close>

fun starts_with :: "jsstring \<Rightarrow> jsstring \<Rightarrow> bool" where
  "starts_with s [] = True"
| "starts_with [] (p # ps) = False"
| "starts_with (c # cs) (p # ps) = (c = p \<and> starts_with cs ps)"

fun string_includes :: "jsstring \<Rightarrow> jsstring \<Rightarrow> bool" where
  "string_includes [] sub = (sub = [])"
| "string_includes (c # cs) sub = (starts_with (c # cs) sub \<or> string_includes cs sub)"

text \<open>
  The white space of ECMAScript (\<^verbatim>\<open>WhiteSpace\<close> and \<^verbatim>\<open>LineTerminator\<close>): what
  \<^verbatim>\<open>\s\<close> matches and what \<^verbatim>\<open>trim\<close> strips.
\<close>

definition is_js_space :: "jschar \<Rightarrow> bool" where
  "is_js_space c =
     (c = 0x09 \<or> c = 0x0A \<or> c = 0x0B \<or> c = 0x0C \<or> c = 0x0D \<or> c = 0x20 \<or>
      c = 0xA0 \<or> c = 0x1680 \<or> (0x2000 \<le> c \<and> c \<le> 0x200A) \<or>
      c = 0x2028 \<or> c = 0x2029 \<or> c = 0x202F \<or> c = 0x205F \<or> c = 0x3000 \<or>
      c = 0xFEFF)"

definition trim :: "jsstring \<Rightarrow> jsstring" where
  "trim s = rev (dropWhile is_js_space (rev (dropWhile is_js_space s)))"

section \<open>Regular expressions\<close>

text \<open>
  The fragment of regular expressions the two programs use: character classes,
  sequence and repetition. A pattern anchored with \<^verbatim>\<open>^\<close> and \<^verbatim>\<open>$\<close> (and without
  flags) accepts a string when the whole string matches; \<open>regex_test\<close> decides it by
  derivatives.
\<close>

datatype regex =
    RNone
  | REmpty
  | RClass "jschar \<Rightarrow> bool"
  | RAlt regex regex
  | RSeq regex regex
  | RStar regex

definition OneOrMore :: "regex \<Rightarrow> regex" where
  "OneOrMore r = RSeq r (RStar r)"

fun accepts_empty :: "regex \<Rightarrow> bool" where
  "accepts_empty RNone = False"
| "accepts_empty REmpty = True"
| "accepts_empty (RClass p) = False"
| "accepts_empty (RAlt r s) = (accepts_empty r \<or> accepts_empty s)"
| "accepts_empty (RSeq r s) = (accepts_empty r \<and> accepts_empty s)"
| "accepts_empty (RStar r) = True"

fun deriv :: "jschar \<Rightarrow> regex \<Rightarrow> regex" where
  "deriv c RNone = RNone"
| "deriv c REmpty = RNone"
| "deriv c (RClass p) = (if p c then REmpty else RNone)"
| "deriv c (RAlt r s) = RAlt (deriv c r) (deriv c s)"
| "deriv c (RSeq r s) =
     (if accepts_empty r then RAlt (RSeq (deriv c r) s) (deriv c s)
      else RSeq (deriv c r) s)"
| "deriv c (RStar r) = RSeq (deriv c r) (RStar r)"

fun regex_test :: "regex \<Rightarrow> jsstring \<Rightarrow> bool" where
  "regex_test r [] = accepts_empty r"
| "regex_test r (c # cs) = regex_test (deriv c r) cs"

text \<open>The class \<^verbatim>\<open>[^\s@]\<close>: any code unit but white space and the at sign.\<close>

definition not_space_or_at :: "jschar \<Rightarrow> bool" where
  "not_space_or_at c = (\<not> is_js_space c \<and> c \<noteq> 0x40)"

text \<open>The literal characters \<^verbatim>\<open>@\<close> and \<^verbatim>\<open>\.\<close> of the pattern.\<close>

definition is_at :: "jschar \<Rightarrow> bool" where
  "is_at c = (c = 0x40)"

definition is_dot :: "jschar \<Rightarrow> bool" where
  "is_dot c = (c = 0x2E)"

section \<open>The Submission Handler (api/contact.js)\<close>

subsection \<open>Requests, responses and the email provider\<close>

record request =
  req_method :: jsstring
  req_body :: jsval

text \<open>
  What the handler leaves in \<^verbatim>\<open>res\<close>: the headers it set, the status, and the object
  given to \<^verbatim>\<open>res.json\<close> (\<open>None\<close> after \<^verbatim>\<open>res.end()\<close>). A property of that object
  whose value is undefined is not serialised.
\<close>

record response =
  res_headers :: "(jsstring \<times> jsval) list"
  res_status :: nat
  res_body :: "jsval option"

text \<open>The argument of \<^verbatim>\<open>resend.emails.send\<close>. The auto-reply has no \<^verbatim>\<open>replyTo\<close>.\<close>

record email_msg =
  msg_from :: jsstring
  msg_to :: "jsval list"
  msg_replyTo :: "jsval option"
  msg_subject :: jsstring
  msg_html :: jsstring
  msg_text :: jsstring
  msg_tags :: "(jsstring \<times> jsval) list"

text \<open>
  The email provider is outside the repository: a call either returns a value or
  throws. Its answer may depend on the calls this invocation made before, so the
  provider is a function of those earlier calls and of the call at hand.
\<close>

type_synonym provider = "email_msg list \<Rightarrow> email_msg \<Rightarrow> js_error + jsval"

text \<open>
  What the handler reads from its surroundings: the formatted date
  (\<^verbatim>\<open>new Date().toLocaleDateString(...)\<close>), \<^verbatim>\<open>process.env.NODE_ENV\<close>, and the text
  the engine gives a \<^verbatim>\<open>TypeError\<close> as its message.
\<close>

record env =
  currentDate :: jsstring
  NODE_ENV :: jsval
  type_error_message :: jsstring

text \<open>
  The fields the handler destructures from \<^verbatim>\<open>req.body\<close>. Destructuring throws on
  undefined and null, and reads undefined for every field of a body that is not an
  object.
\<close>

record payload =
  name :: jsval
  email :: jsval
  phone :: jsval
  company :: jsval
  budget :: jsval
  projectType :: jsval
  message :: jsval
  consent :: jsval
  website :: jsval

definition destructure :: "jsval \<Rightarrow> js_error + payload" where
  "destructure body =
     (if body = JUndefined \<or> body = JNull then Inl TypeError
      else Inr \<lparr>name = read_prop body (js ''name''),
                email = read_prop body (js ''email''),
                phone = read_prop body (js ''phone''),
                company = read_prop body (js ''company''),
                budget = read_prop body (js ''budget''),
                projectType = read_prop body (js ''projectType''),
                message = read_prop body (js ''message''),
                consent = read_prop body (js ''consent''),
                website = read_prop body (js ''website'')\<rparr>)"

subsection \<open>Template literals\<close>

text \<open>
  A template literal evaluates its parts from left to right; a part that throws ends
  the evaluation. A fixed stretch of text is \<open>Inr\<close> of its code units.
\<close>

fun template :: "(js_error + jsstring) list \<Rightarrow> js_error + jsstring" where
  "template [] = Inr []"
| "template (Inl e # ps) = Inl e"
| "template (Inr s # ps) = (case template ps of Inl e \<Rightarrow> Inl e | Inr t \<Rightarrow> Inr (s @ t))"

text \<open>\<^verbatim>\<open>a || b\<close> on a value and a string literal.\<close>

definition or_else :: "jsval \<Rightarrow> jsstring \<Rightarrow> jsval" where
  "or_else v d = (if truthy v then v else JStr d)"

text \<open>
  The method call \<^verbatim>\<open>v.includes(s)\<close> with a string argument: the substring test on a
  string, membership on an array, and a \<^verbatim>\<open>TypeError\<close> on every other JSON value
  (no \<^verbatim>\<open>includes\<close> to call).
\<close>

fun includes_call :: "jsval \<Rightarrow> jsstring \<Rightarrow> js_error + bool" where
  "includes_call (JStr s) sub = Inr (string_includes s sub)"
| "includes_call (JArr xs) sub = Inr (JStr sub \<in> set xs)"
| "includes_call v sub = Inl TypeError"

definition NL :: jsstring where
  "NL = [0x0A]"

subsection \<open>The fixed text of the four email documents\<close>

definition html_head :: jsstring where
  \<open>html_head =
     NL @
     js ''      <!DOCTYPE html>'' @ NL @
     js ''      <html>'' @ NL @
     js ''      <head>'' @ NL @
     js ''        <meta charset="UTF-8">'' @ NL @
     js ''        <meta name="viewport" content="width=device-width, initial-scale=1.0">'' @ NL @
     js ''        <title>New Contact Form Submission - DigiLima</title>'' @ NL @
     js ''        <style>'' @ NL @
     js ''          body { font-family: 'Segoe UI', Tahoma, Geneva, Verdana, sans-serif; line-height: 1.6; color: #333; margin: 0; padding: 0; }'' @ NL @
     js ''          .container { max-width: 600px; margin: 0 auto; padding: 20px; }'' @ NL @
     js ''          .header { background: linear-gradient(135deg, #2563EB 0%, #1D4ED8 100%); color: white; padding: 20px; text-align: center; }'' @ NL @
     js ''          .content { background: #f8f9fa; padding: 30px; }'' @ NL @
     js ''          .field { margin-bottom: 20px; }'' @ NL @
     js ''          .field-label { font-weight: bold; color: #2563EB; display: block; margin-bottom: 5px; }'' @ NL @
     js ''          .field-value { background: white; padding: 10px; border-radius: 5px; border-left: 3px solid #2563EB; }'' @ NL @
     js ''          .footer { background: #1f2937; color: white; padding: 20px; text-align: center; font-size: 14px; }'' @ NL @
     js ''          .priority-high { border-left-color: #ef4444; }'' @ NL @
     js ''          .priority-medium { border-left-color: #f59e0b; }'' @ NL @
     js ''        </style>'' @ NL @
     js ''      </head>'' @ NL @
     js ''      <body>'' @ NL @
     js ''        <div class="container">'' @ NL @
     js ''          <div class="header">'' @ NL @
     js ''            <h1>'' @ [0xD83D, 0xDE80] @ js '' New Contact Form Submission</h1>'' @ NL @
     js ''            <p>DigiLima.com - ''\<close>

definition html_before_name :: jsstring where
  \<open>html_before_name =
     js ''</p>'' @ NL @
     js ''          </div>'' @ NL @
     js ''          '' @ NL @
     js ''          <div class="content">'' @ NL @
     js ''            <div class="field">'' @ NL @
     js ''              <label class="field-label">'' @ [0xD83D, 0xDC64] @ js '' Name</label>'' @ NL @
     js ''              <div class="field-value">''\<close>

definition html_before_email :: jsstring where
  \<open>html_before_email =
     js ''</div>'' @ NL @
     js ''            </div>'' @ NL @
     js ''            '' @ NL @
     js ''            <div class="field">'' @ NL @
     js ''              <label class="field-label">'' @ [0xD83D, 0xDCE7] @ js '' Email</label>'' @ NL @
     js ''              <div class="field-value"><a href="mailto:''\<close>

definition html_email_mid :: jsstring where
  \<open>html_email_mid =
     js ''" style="color: #2563EB; text-decoration: none;">''\<close>

definition html_after_email :: jsstring where
  \<open>html_after_email =
     js ''</a></div>'' @ NL @
     js ''            </div>'' @ NL @
     js ''            '' @ NL @
     js ''            ''\<close>

definition html_phone_open :: jsstring where
  \<open>html_phone_open =
     NL @
     js ''            <div class="field">'' @ NL @
     js ''              <label class="field-label">'' @ [0xD83D, 0xDCF1] @ js '' Phone</label>'' @ NL @
     js ''              <div class="field-value"><a href="tel:''\<close>

definition html_phone_mid :: jsstring where
  \<open>html_phone_mid =
     js ''" style="color: #2563EB; text-decoration: none;">''\<close>

definition html_phone_close :: jsstring where
  \<open>html_phone_close =
     js ''</a></div>'' @ NL @
     js ''            </div>'' @ NL @
     js ''            ''\<close>

definition html_gap_phone_company :: jsstring where
  \<open>html_gap_phone_company =
     NL @
     js ''            '' @ NL @
     js ''            ''\<close>

definition html_company_open :: jsstring where
  \<open>html_company_open =
     NL @
     js ''            <div class="field">'' @ NL @
     js ''              <label class="field-label">'' @ [0xD83C, 0xDFE2] @ js '' Company</label>'' @ NL @
     js ''              <div class="field-value">''\<close>

definition html_company_close :: jsstring where
  \<open>html_company_close =
     js ''</div>'' @ NL @
     js ''            </div>'' @ NL @
     js ''            ''\<close>

definition html_gap_company_budget :: jsstring where
  \<open>html_gap_company_budget =
     NL @
     js ''            '' @ NL @
     js ''            ''\<close>

definition html_budget_open :: jsstring where
  \<open>html_budget_open =
     NL @
     js ''            <div class="field">'' @ NL @
     js ''              <label class="field-label">'' @ [0xD83D, 0xDCB0] @ js '' Budget Range</label>'' @ NL @
     js ''              <div class="field-value ''\<close>

definition html_budget_mid :: jsstring where
  \<open>html_budget_mid =
     js ''">''\<close>

definition html_budget_close :: jsstring where
  \<open>html_budget_close =
     js ''</div>'' @ NL @
     js ''            </div>'' @ NL @
     js ''            ''\<close>

definition html_gap_budget_projectType :: jsstring where
  \<open>html_gap_budget_projectType =
     NL @
     js ''            '' @ NL @
     js ''            ''\<close>

definition html_projectType_open :: jsstring where
  \<open>html_projectType_open =
     NL @
     js ''            <div class="field">'' @ NL @
     js ''              <label class="field-label">'' @ [0xD83C, 0xDFAF] @ js '' Project Type</label>'' @ NL @
     js ''              <div class="field-value">''\<close>

definition html_projectType_close :: jsstring where
  \<open>html_projectType_close =
     js ''</div>'' @ NL @
     js ''            </div>'' @ NL @
     js ''            ''\<close>

definition html_before_message :: jsstring where
  \<open>html_before_message =
     NL @
     js ''            '' @ NL @
     js ''            <div class="field">'' @ NL @
     js ''              <label class="field-label">'' @ [0xD83D, 0xDCAC] @ js '' Message</label>'' @ NL @
     js ''              <div class="field-value" style="white-space: pre-wrap;">''\<close>

definition html_tail :: jsstring where
  \<open>html_tail =
     js ''</div>'' @ NL @
     js ''            </div>'' @ NL @
     js ''            '' @ NL @
     js ''            <div class="field">'' @ NL @
     js ''              <label class="field-label">'' @ [0x2705] @ js '' GDPR Consent</label>'' @ NL @
     js ''              <div class="field-value">'' @ [0x2713] @ js '' Customer has provided consent to be contacted</div>'' @ NL @
     js ''            </div>'' @ NL @
     js ''          </div>'' @ NL @
     js ''          '' @ NL @
     js ''          <div class="footer">'' @ NL @
     js ''            <p><strong>Next Steps:</strong></p>'' @ NL @
     js ''            <p>'' @ [0x2022] @ js '' Respond within 2 hours during business hours</p>'' @ NL @
     js ''            <p>'' @ [0x2022] @ js '' Add contact details to CRM system</p>'' @ NL @
     js ''            <p>'' @ [0x2022] @ js '' Schedule follow-up call if budget > '' @ [0x20AC] @ js ''5,000</p>'' @ NL @
     js ''            <hr style="border: 0; border-top: 1px solid #374151; margin: 20px 0;">'' @ NL @
     js ''            <p>DigiLima - Web Development Services<br>'' @ NL @
     js ''            '' @ [0xD83D, 0xDCCD] @ js '' Limassol, Cyprus | '' @ [0xD83D, 0xDCE7] @ js '' hello@digilima.com | '' @ [0xD83D, 0xDCF1] @ js '' +357 99 123 456</p>'' @ NL @
     js ''          </div>'' @ NL @
     js ''        </div>'' @ NL @
     js ''      </body>'' @ NL @
     js ''      </html>'' @ NL @
     js ''    ''\<close>

definition text_head :: jsstring where
  \<open>text_head =
     NL @
     js ''New Contact Form Submission - DigiLima.com'' @ NL @
     NL @
     js ''Submitted: ''\<close>

definition text_before_name :: jsstring where
  \<open>text_before_name =
     NL @
     NL @
     js ''Contact Information:'' @ NL @
     js ''Name: ''\<close>

definition text_before_email :: jsstring where
  \<open>text_before_email =
     NL @
     js ''Email: ''\<close>

definition text_after_email :: jsstring where
  \<open>text_after_email =
     NL\<close>

definition text_phone_label :: jsstring where
  \<open>text_phone_label =
     js ''Phone: ''\<close>

definition text_gap_phone_company :: jsstring where
  \<open>text_gap_phone_company =
     NL\<close>

definition text_company_label :: jsstring where
  \<open>text_company_label =
     js ''Company: ''\<close>

definition text_gap_company_budget :: jsstring where
  \<open>text_gap_company_budget =
     NL @
     NL @
     js ''Project Details:'' @ NL\<close>

definition text_budget_label :: jsstring where
  \<open>text_budget_label =
     js ''Budget: ''\<close>

definition text_gap_budget_projectType :: jsstring where
  \<open>text_gap_budget_projectType =
     NL\<close>

definition text_projectType_label :: jsstring where
  \<open>text_projectType_label =
     js ''Project Type: ''\<close>

definition text_before_message :: jsstring where
  \<open>text_before_message =
     NL @
     NL @
     js ''Message:'' @ NL\<close>

definition text_tail :: jsstring where
  \<open>text_tail =
     NL @
     NL @
     js ''GDPR Consent: '' @ [0x2713] @ js '' Provided'' @ NL @
     NL @
     js ''---'' @ NL @
     js ''DigiLima - Web Development Services'' @ NL @
     js ''Limassol, Cyprus'' @ NL @
     js ''hello@digilima.com | +357 99 123 456'' @ NL @
     js ''    ''\<close>

definition reply_html_head :: jsstring where
  \<open>reply_html_head =
     NL @
     js ''      <!DOCTYPE html>'' @ NL @
     js ''      <html>'' @ NL @
     js ''      <head>'' @ NL @
     js ''        <meta charset="UTF-8">'' @ NL @
     js ''        <meta name="viewport" content="width=device-width, initial-scale=1.0">'' @ NL @
     js ''        <title>Thank you for contacting DigiLima</title>'' @ NL @
     js ''        <style>'' @ NL @
     js ''          body { font-family: 'Segoe UI', Tahoma, Geneva, Verdana, sans-serif; line-height: 1.6; color: #333; margin: 0; padding: 0; }'' @ NL @
     js ''          .container { max-width: 600px; margin: 0 auto; padding: 20px; }'' @ NL @
     js ''          .header { background: linear-gradient(135deg, #2563EB 0%, #1D4ED8 100%); color: white; padding: 20px; text-align: center; }'' @ NL @
     js ''          .content { background: #f8f9fa; padding: 30px; }'' @ NL @
     js ''          .cta-button { display: inline-block; background: #2563EB; color: white; padding: 12px 24px; text-decoration: none; border-radius: 6px; font-weight: bold; margin: 20px 0; }'' @ NL @
     js ''          .footer { background: #1f2937; color: white; padding: 20px; text-align: center; font-size: 14px; }'' @ NL @
     js ''          .contact-info { background: white; padding: 15px; border-radius: 6px; margin: 20px 0; border-left: 3px solid #2563EB; }'' @ NL @
     js ''        </style>'' @ NL @
     js ''      </head>'' @ NL @
     js ''      <body>'' @ NL @
     js ''        <div class="container">'' @ NL @
     js ''          <div class="header">'' @ NL @
     js ''            <h1>Thank you, ''\<close>

definition reply_html_before_dear :: jsstring where
  \<open>reply_html_before_dear =
     js ''!</h1>'' @ NL @
     js ''            <p>We've received your message</p>'' @ NL @
     js ''          </div>'' @ NL @
     js ''          '' @ NL @
     js ''          <div class="content">'' @ NL @
     js ''            <p>Dear ''\<close>

definition reply_html_before_inquiry :: jsstring where
  \<open>reply_html_before_inquiry =
     js '',</p>'' @ NL @
     js ''            '' @ NL @
     js ''            <p>Thank you for reaching out to DigiLima! We've received your inquiry about ''\<close>

definition reply_html_tail :: jsstring where
  \<open>reply_html_tail =
     js '' and we're excited to learn more about how we can help.</p>'' @ NL @
     js ''            '' @ NL @
     js ''            <p><strong>What happens next?</strong></p>'' @ NL @
     js ''            <ul>'' @ NL @
     js ''              <li>We'll review your project details and requirements</li>'' @ NL @
     js ''              <li>You'll receive a personal response from our team within 2-4 hours during business hours</li>'' @ NL @
     js ''              <li>We'll schedule a consultation call to discuss your project in detail</li>'' @ NL @
     js ''              <li>You'll receive a detailed proposal within 24-48 hours</li>'' @ NL @
     js ''            </ul>'' @ NL @
     js ''            '' @ NL @
     js ''            <div class="contact-info">'' @ NL @
     js ''              <p><strong>In the meantime, here are a few things you can do:</strong></p>'' @ NL @
     js ''              <ul>'' @ NL @
     js ''                <li>'' @ [0xD83D, 0xDCC2] @ js '' Check out our <a href="https://digilima.com/portfolio/" style="color: #2563EB;">recent projects</a> for inspiration</li>'' @ NL @
     js ''                <li>'' @ [0xD83D, 0xDCD6] @ js '' Read our <a href="https://digilima.com/blog/" style="color: #2563EB;">blog</a> for web development insights</li>'' @ NL @
     js ''                <li>'' @ [0xD83D, 0xDCF1] @ js '' Connect with us on social media for updates and tips</li>'' @ NL @
     js ''              </ul>'' @ NL @
     js ''            </div>'' @ NL @
     js ''            '' @ NL @
     js ''            <p>If you have any urgent questions, feel free to reach out directly:</p>'' @ NL @
     js ''            <p>'' @ [0xD83D, 0xDCE7] @ js '' <a href="mailto:hello@digilima.com" style="color: #2563EB;">hello@digilima.com</a><br>'' @ NL @
     js ''            '' @ [0xD83D, 0xDCF1] @ js '' <a href="tel:+35799123456" style="color: #2563EB;">+357 99 123 456</a></p>'' @ NL @
     js ''            '' @ NL @
     js ''            <p>We look forward to working with you!</p>'' @ NL @
     js ''            '' @ NL @
     js ''            <p>Best regards,<br>'' @ NL @
     js ''            <strong>DigiLima Team</strong><br>'' @ NL @
     js ''            Web Development Specialists</p>'' @ NL @
     js ''          </div>'' @ NL @
     js ''          '' @ NL @
     js ''          <div class="footer">'' @ NL @
     js ''            <p>DigiLima - Lightning-fast websites for growing businesses</p>'' @ NL @
     js ''            <p>'' @ [0xD83D, 0xDCCD] @ js '' Limassol, Cyprus | '' @ [0xD83C, 0xDF10] @ js '' <a href="https://digilima.com" style="color: white;">digilima.com</a></p>'' @ NL @
     js ''            <p style="font-size: 12px; margin-top: 20px; opacity: 0.8;">'' @ NL @
     js ''              You're receiving this email because you contacted us through our website. '' @ NL @
     js ''              We respect your privacy and follow GDPR guidelines.'' @ NL @
     js ''            </p>'' @ NL @
     js ''          </div>'' @ NL @
     js ''        </div>'' @ NL @
     js ''      </body>'' @ NL @
     js ''      </html>'' @ NL @
     js ''    ''\<close>

definition reply_text_head :: jsstring where
  \<open>reply_text_head =
     NL @
     js ''Dear ''\<close>

definition reply_text_before_inquiry :: jsstring where
  \<open>reply_text_before_inquiry =
     js '','' @ NL @
     NL @
     js ''Thank you for reaching out to DigiLima! We've received your inquiry about ''\<close>

definition reply_text_tail :: jsstring where
  \<open>reply_text_tail =
     js '' and we're excited to learn more about how we can help.'' @ NL @
     NL @
     js ''What happens next?'' @ NL @
     js ''- We'll review your project details and requirements'' @ NL @
     js ''- You'll receive a personal response from our team within 2-4 hours during business hours'' @ NL @
     js ''- We'll schedule a consultation call to discuss your project in detail'' @ NL @
     js ''- You'll receive a detailed proposal within 24-48 hours'' @ NL @
     NL @
     js ''In the meantime, check out our recent projects at https://digilima.com/portfolio/ for inspiration.'' @ NL @
     NL @
     js ''If you have any urgent questions, feel free to reach out directly:'' @ NL @
     [0xD83D, 0xDCE7] @ js '' hello@digilima.com'' @ NL @
     [0xD83D, 0xDCF1] @ js '' +357 99 123 456'' @ NL @
     NL @
     js ''We look forward to working with you!'' @ NL @
     NL @
     js ''Best regards,'' @ NL @
     js ''DigiLima Team'' @ NL @
     js ''Web Development Specialists'' @ NL @
     NL @
     js ''---'' @ NL @
     js ''DigiLima - Lightning-fast websites for growing businesses'' @ NL @
     js ''Limassol, Cyprus | https://digilima.com'' @ NL @
     js ''    ''\<close>

subsection \<open>Email validation\<close>

text \<open>The pattern \<^verbatim>\<open>/^[^\s@]+@[^\s@]+\.[^\s@]+$/\<close> of the handler.\<close>

definition emailRegex :: regex where
  "emailRegex =
     RSeq (OneOrMore (RClass not_space_or_at))
       (RSeq (RClass is_at)
          (RSeq (OneOrMore (RClass not_space_or_at))
             (RSeq (RClass is_dot) (OneOrMore (RClass not_space_or_at)))))"

subsection \<open>Rendering the notification\<close>

definition html_phone_section :: "payload \<Rightarrow> js_error + jsstring" where
  "html_phone_section p =
     (if truthy (phone p)
      then template [Inr html_phone_open, ToString (phone p), Inr html_phone_mid,
                     ToString (phone p), Inr html_phone_close]
      else Inr [])"

definition html_company_section :: "payload \<Rightarrow> js_error + jsstring" where
  "html_company_section p =
     (if truthy (company p)
      then template [Inr html_company_open, ToString (company p), Inr html_company_close]
      else Inr [])"

text \<open>
  The priority marker:
  \<^verbatim>\<open>budget.includes('10000+') ? 'priority-high' : budget.includes('5000') ? 'priority-medium' : ''\<close>.
\<close>

definition budget_priority :: "jsval \<Rightarrow> js_error + jsstring" where
  "budget_priority b =
     (case includes_call b (js ''10000+'') of
        Inl e \<Rightarrow> Inl e
      | Inr True \<Rightarrow> Inr (js ''priority-high'')
      | Inr False \<Rightarrow>
          (case includes_call b (js ''5000'') of
             Inl e \<Rightarrow> Inl e
           | Inr True \<Rightarrow> Inr (js ''priority-medium'')
           | Inr False \<Rightarrow> Inr []))"

definition html_budget_section :: "payload \<Rightarrow> js_error + jsstring" where
  "html_budget_section p =
     (if truthy (budget p)
      then template [Inr html_budget_open, budget_priority (budget p), Inr html_budget_mid,
                     ToString (budget p), Inr html_budget_close]
      else Inr [])"

definition html_projectType_section :: "payload \<Rightarrow> js_error + jsstring" where
  "html_projectType_section p =
     (if truthy (projectType p)
      then template [Inr html_projectType_open, ToString (projectType p),
                     Inr html_projectType_close]
      else Inr [])"

definition htmlContent :: "jsstring \<Rightarrow> payload \<Rightarrow> js_error + jsstring" where
  "htmlContent date p =
     template
       [Inr html_head, Inr date,
        Inr html_before_name, ToString (name p),
        Inr html_before_email, ToString (email p),
        Inr html_email_mid, ToString (email p),
        Inr html_after_email, html_phone_section p,
        Inr html_gap_phone_company, html_company_section p,
        Inr html_gap_company_budget, html_budget_section p,
        Inr html_gap_budget_projectType, html_projectType_section p,
        Inr html_before_message, ToString (message p),
        Inr html_tail]"

definition text_phone_line :: "payload \<Rightarrow> js_error + jsstring" where
  "text_phone_line p =
     (if truthy (phone p) then template [Inr text_phone_label, ToString (phone p)]
      else Inr [])"

definition text_company_line :: "payload \<Rightarrow> js_error + jsstring" where
  "text_company_line p =
     (if truthy (company p) then template [Inr text_company_label, ToString (company p)]
      else Inr [])"

definition text_budget_line :: "payload \<Rightarrow> js_error + jsstring" where
  "text_budget_line p =
     (if truthy (budget p) then template [Inr text_budget_label, ToString (budget p)]
      else Inr [])"

definition text_projectType_line :: "payload \<Rightarrow> js_error + jsstring" where
  "text_projectType_line p =
     (if truthy (projectType p)
      then template [Inr text_projectType_label, ToString (projectType p)]
      else Inr [])"

definition textContent :: "jsstring \<Rightarrow> payload \<Rightarrow> js_error + jsstring" where
  "textContent date p =
     template
       [Inr text_head, Inr date,
        Inr text_before_name, ToString (name p),
        Inr text_before_email, ToString (email p),
        Inr text_after_email, text_phone_line p,
        Inr text_gap_phone_company, text_company_line p,
        Inr text_gap_company_budget, text_budget_line p,
        Inr text_gap_budget_projectType, text_projectType_line p,
        Inr text_before_message, ToString (message p),
        Inr text_tail]"

text \<open>
  \<^verbatim>\<open>`New Contact: ${name} - ${projectType || 'General Inquiry'} ${budget ? `(${budget})` : ''}`\<close>
\<close>

definition notification_subject :: "payload \<Rightarrow> js_error + jsstring" where
  "notification_subject p =
     template
       [Inr (js ''New Contact: ''), ToString (name p),
        Inr (js '' - ''), ToString (or_else (projectType p) (js ''General Inquiry'')),
        Inr (js '' ''),
        (if truthy (budget p)
         then template [Inr (js ''(''), ToString (budget p), Inr (js '')'')]
         else Inr [])]"

definition notification :: "payload \<Rightarrow> jsstring \<Rightarrow> jsstring \<Rightarrow> jsstring \<Rightarrow> email_msg" where
  "notification p subject html txt =
     \<lparr>msg_from = js ''DigiLima Contact Form <noreply@digilima.com>'',
      msg_to = [JStr (js ''hello@digilima.com'')],
      msg_replyTo = Some (email p),
      msg_subject = subject,
      msg_html = html,
      msg_text = txt,
      msg_tags =
        [(js ''source'', JStr (js ''contact_form'')),
         (js ''budget'', or_else (budget p) (js ''not_specified'')),
         (js ''project_type'', or_else (projectType p) (js ''general''))]\<rparr>"

subsection \<open>Rendering the auto-reply\<close>

definition autoReplyHtml :: "payload \<Rightarrow> js_error + jsstring" where
  "autoReplyHtml p =
     template
       [Inr reply_html_head, ToString (name p),
        Inr reply_html_before_dear, ToString (name p),
        Inr reply_html_before_inquiry, ToString (or_else (projectType p) (js ''your project'')),
        Inr reply_html_tail]"

definition autoReplyText :: "payload \<Rightarrow> js_error + jsstring" where
  "autoReplyText p =
     template
       [Inr reply_text_head, ToString (name p),
        Inr reply_text_before_inquiry, ToString (or_else (projectType p) (js ''your project'')),
        Inr reply_text_tail]"

definition autoReply :: "payload \<Rightarrow> jsstring \<Rightarrow> jsstring \<Rightarrow> email_msg" where
  "autoReply p html txt =
     \<lparr>msg_from = js ''DigiLima <hello@digilima.com>'',
      msg_to = [email p],
      msg_replyTo = None,
      msg_subject = js ''Thank you for contacting DigiLima - We'll be in touch soon!'',
      msg_html = html,
      msg_text = txt,
      msg_tags = [(js ''type'', JStr (js ''auto_reply''))]\<rparr>"

subsection \<open>The handler\<close>

definition cors_headers :: "(jsstring \<times> jsval) list" where
  "cors_headers =
     [(js ''Access-Control-Allow-Credentials'', JBool True),
      (js ''Access-Control-Allow-Origin'', JStr (js ''*'')),
      (js ''Access-Control-Allow-Methods'', JStr (js ''GET,OPTIONS,PATCH,DELETE,POST,PUT'')),
      (js ''Access-Control-Allow-Headers'',
       JStr (js ''X-CSRF-Token, X-Requested-With, Accept, Accept-Version, Content-Length, Content-MD5, Content-Type, Date, X-Api-Version''))]"

definition json_response :: "nat \<Rightarrow> (jsstring \<times> jsval) list \<Rightarrow> response" where
  "json_response code obj =
     \<lparr>res_headers = cors_headers, res_status = code, res_body = Some (JObj obj)\<rparr>"

definition end_response :: "nat \<Rightarrow> response" where
  "end_response code = \<lparr>res_headers = cors_headers, res_status = code, res_body = None\<rparr>"

definition missing_fields_response :: response where
  "missing_fields_response =
     json_response 400
       [(js ''error'',
         JStr (js ''Missing required fields. Please fill in all required information.''))]"

definition honeypot_response :: response where
  "honeypot_response =
     json_response 400
       [(js ''error'', JStr (js ''Form submission failed. Please try again.''))]"

definition invalid_email_response :: response where
  "invalid_email_response =
     json_response 400 [(js ''error'', JStr (js ''Please enter a valid email address.''))]"

definition success_response :: "jsval \<Rightarrow> response" where
  "success_response emailId =
     json_response 200
       [(js ''success'', JBool True),
        (js ''message'',
         JStr (js ''Thank you! Your message has been sent successfully. We'll get back to you within 24 hours.'')),
        (js ''emailId'', emailId)]"

definition error_message :: "env \<Rightarrow> js_error \<Rightarrow> jsstring" where
  "error_message ev e =
     (case e of TypeError \<Rightarrow> type_error_message ev | ProviderError m \<Rightarrow> m)"

definition failure_response :: "env \<Rightarrow> js_error \<Rightarrow> response" where
  "failure_response ev e =
     json_response 500
       [(js ''error'',
         JStr (js ''Sorry, there was an error sending your message. Please try again or contact us directly at hello@digilima.com.'')),
        (js ''details'',
         if NODE_ENV ev = JStr (js ''development'') then JStr (error_message ev e)
         else JUndefined)]"

text \<open>
  The result of a stretch of the handler: what it returned or threw, and the calls it
  made to the email provider, in order (a call that throws is a call made).
\<close>

type_synonym 'a outcome = "(js_error + 'a) \<times> email_msg list"

text \<open>
  From "Prepare email content" to the success response: the notification is rendered
  and sent, then the auto-reply is rendered and sent, then \<^verbatim>\<open>emailData.id\<close> is read.
\<close>

definition dispatch :: "env \<Rightarrow> provider \<Rightarrow> payload \<Rightarrow> response outcome" where
  "dispatch ev send p =
     (case htmlContent (currentDate ev) p of
        Inl e \<Rightarrow> (Inl e, [])
      | Inr html \<Rightarrow>
     (case textContent (currentDate ev) p of
        Inl e \<Rightarrow> (Inl e, [])
      | Inr txt \<Rightarrow>
     (case notification_subject p of
        Inl e \<Rightarrow> (Inl e, [])
      | Inr subject \<Rightarrow>
     (let first = notification p subject html txt in
      case send [] first of
        Inl e \<Rightarrow> (Inl e, [first])
      | Inr emailData \<Rightarrow>
     (case autoReplyHtml p of
        Inl e \<Rightarrow> (Inl e, [first])
      | Inr reply_html \<Rightarrow>
     (case autoReplyText p of
        Inl e \<Rightarrow> (Inl e, [first])
      | Inr reply_txt \<Rightarrow>
     (let second = autoReply p reply_html reply_txt in
      case send [first] second of
        Inl e \<Rightarrow> (Inl e, [first, second])
      | Inr reply_data \<Rightarrow>
     (case get_prop emailData (js ''id'') of
        Inl e \<Rightarrow> (Inl e, [first, second])
      | Inr emailId \<Rightarrow> (Inr (success_response emailId), [first, second])))))))))"

text \<open>The body of the \<^verbatim>\<open>try\<close> block.\<close>

definition try_block :: "env \<Rightarrow> provider \<Rightarrow> request \<Rightarrow> response outcome" where
  "try_block ev send req =
     (case destructure (req_body req) of
        Inl e \<Rightarrow> (Inl e, [])
      | Inr p \<Rightarrow>
          if \<not> truthy (name p) \<or> \<not> truthy (email p) \<or> \<not> truthy (message p) \<or>
             \<not> truthy (consent p)
          then (Inr missing_fields_response, [])
          else if truthy (website p) then (Inr honeypot_response, [])
          else
            (case ToString (email p) of
               Inl e \<Rightarrow> (Inl e, [])
             | Inr address \<Rightarrow>
                 if \<not> regex_test emailRegex address then (Inr invalid_email_response, [])
                 else dispatch ev send p))"

text \<open>
  The handler: the response and the calls made to the email provider. An exception
  anywhere in the \<^verbatim>\<open>try\<close> block gives the 500 response.
\<close>

definition handler :: "env \<Rightarrow> provider \<Rightarrow> request \<Rightarrow> response \<times> email_msg list" where
  "handler ev send req =
     (if req_method req = js ''OPTIONS'' then (end_response 200, [])
      else if req_method req \<noteq> js ''POST''
      then (json_response 405 [(js ''error'', JStr (js ''Method not allowed''))], [])
      else
        (case try_block ev send req of
           (Inl e, calls) \<Rightarrow> (failure_response ev e, calls)
         | (Inr res, calls) \<Rightarrow> (res, calls)))"

section \<open>The Client Form Controller (assets/js/main.js)\<close>

subsection \<open>Form fields\<close>

text \<open>
  A form control as the controller sees it: its \<^verbatim>\<open>name\<close>, \<^verbatim>\<open>type\<close> and \<^verbatim>\<open>value\<close>,
  whether it carries the \<^verbatim>\<open>required\<close> attribute, whether it is checked (a checkbox or
  radio button), its \<^verbatim>\<open>classList\<close>, and the identity of its parent node. Two fields
  with the same parent share the parent's first \<^verbatim>\<open>.invalid-feedback\<close> element, so the
  text of those elements is kept in a store of its own, keyed by the parent.
\<close>

record field =
  field_name :: jsstring
  field_type :: jsstring
  field_value :: jsstring
  field_required :: bool
  field_checked :: bool
  field_classList :: "jsstring list"
  field_parentNode :: nat

record form =
  form_fields :: "field list"
  form_feedback :: "nat \<rightharpoonup> jsstring"

definition classList_add :: "jsstring \<Rightarrow> jsstring list \<Rightarrow> jsstring list" where
  "classList_add c cs = (if c \<in> set cs then cs else cs @ [c])"

definition classList_remove :: "jsstring \<Rightarrow> jsstring list \<Rightarrow> jsstring list" where
  "classList_remove c cs = filter (\<lambda>x. x \<noteq> c) cs"

subsection \<open>Field and form validation\<close>

text \<open>The pattern of \<^verbatim>\<open>isValidEmail\<close>: \<^verbatim>\<open>/^[^\s@]+@[^\s@]+\.[^\s@]+$/\<close>.\<close>

definition isValidEmail :: "jsstring \<Rightarrow> bool" where
  "isValidEmail address =
     regex_test
       (RSeq (OneOrMore (RClass not_space_or_at))
          (RSeq (RClass is_at)
             (RSeq (OneOrMore (RClass not_space_or_at))
                (RSeq (RClass is_dot) (OneOrMore (RClass not_space_or_at))))))
       address"

definition required_message_el :: jsstring where
  \<open>required_message_el =
     [0x391, 0x3C5, 0x3C4, 0x3CC] @ js '' '' @ [0x3C4, 0x3BF] @ js '' '' @
     [0x3C0, 0x3B5, 0x3B4, 0x3AF, 0x3BF] @ js '' '' @ [0x3B5, 0x3AF, 0x3BD, 0x3B1, 0x3B9] @ js '' '' @
     [0x3C5, 0x3C0, 0x3BF, 0x3C7, 0x3C1, 0x3B5, 0x3C9, 0x3C4, 0x3B9, 0x3BA, 0x3CC]\<close>

definition required_message_en :: jsstring where
  \<open>required_message_en = js ''This field is required''\<close>

definition email_message_el :: jsstring where
  \<open>email_message_el =
     [0x3A0, 0x3B1, 0x3C1, 0x3B1, 0x3BA, 0x3B1, 0x3BB, 0x3CE] @ js '' '' @
     [0x3B5, 0x3B9, 0x3C3, 0x3AC, 0x3B3, 0x3B5, 0x3C4, 0x3B5] @ js '' '' @
     [0x3AD, 0x3B3, 0x3BA, 0x3C5, 0x3C1, 0x3B7] @ js '' '' @
     [0x3B4, 0x3B9, 0x3B5, 0x3CD, 0x3B8, 0x3C5, 0x3BD, 0x3C3, 0x3B7] @ js '' email''\<close>

definition email_message_en :: jsstring where
  \<open>email_message_en = js ''Please enter a valid email address''\<close>

text \<open>
  \<^verbatim>\<open>showFieldError(field, isValid, message)\<close>: the two validation classes are toggled,
  and on an invalid field the message is written to the feedback element, when the
  parent has one and the message is not empty.
\<close>

definition showFieldError ::
  "field \<Rightarrow> (nat \<rightharpoonup> jsstring) \<Rightarrow> bool \<Rightarrow> jsstring \<Rightarrow> field \<times> (nat \<rightharpoonup> jsstring)" where
  "showFieldError f fb isValid msg =
     (if isValid
      then (f\<lparr>field_classList :=
                classList_add (js ''is-valid'')
                  (classList_remove (js ''is-invalid'') (field_classList f))\<rparr>, fb)
      else (f\<lparr>field_classList :=
                classList_add (js ''is-invalid'')
                  (classList_remove (js ''is-valid'') (field_classList f))\<rparr>,
            if fb (field_parentNode f) \<noteq> None \<and> msg \<noteq> []
            then fb(field_parentNode f \<mapsto> msg) else fb))"

text \<open>
  \<^verbatim>\<open>validateField\<close> on the field of the event, in the language \<open>lang\<close>
  (\<^verbatim>\<open>currentLang\<close>): the verdict, the field and the feedback store after it.
\<close>

definition validateField ::
  "jsstring \<Rightarrow> field \<Rightarrow> (nat \<rightharpoonup> jsstring) \<Rightarrow> bool \<times> field \<times> (nat \<rightharpoonup> jsstring)" where
  "validateField lang f fb =
     (let v = trim (field_value f) in
      if field_required f \<and> v = []
      then (False,
            showFieldError f fb False
              (if lang = js ''el'' then required_message_el else required_message_en))
      else if field_type f = js ''email'' \<and> v \<noteq> [] \<and> \<not> isValidEmail v
      then (False,
            showFieldError f fb False
              (if lang = js ''el'' then email_message_el else email_message_en))
      else (True, showFieldError f fb True []))"

text \<open>
  The \<^verbatim>\<open>forEach\<close> of \<^verbatim>\<open>validateForm\<close> over the fields with the \<^verbatim>\<open>required\<close>
  attribute, in document order; \<open>isValid\<close> is the variable the callback assigns.
\<close>

fun validate_each ::
  "jsstring \<Rightarrow> field list \<Rightarrow> (nat \<rightharpoonup> jsstring) \<Rightarrow> bool \<Rightarrow>
   bool \<times> field list \<times> (nat \<rightharpoonup> jsstring)" where
  "validate_each lang [] fb isValid = (isValid, [], fb)"
| "validate_each lang (f # fs) fb isValid =
     (if field_required f
      then (case validateField lang f fb of
              (ok, f', fb') \<Rightarrow>
                (case validate_each lang fs fb' (if \<not> ok then False else isValid) of
                   (r, fs', fb'') \<Rightarrow> (r, f' # fs', fb'')))
      else (case validate_each lang fs fb isValid of
              (r, fs', fb'') \<Rightarrow> (r, f # fs', fb'')))"

definition validateForm :: "jsstring \<Rightarrow> form \<Rightarrow> bool \<times> form" where
  "validateForm lang fm =
     (case validate_each lang (form_fields fm) (form_feedback fm) True of
        (r, fs, fb) \<Rightarrow> (r, \<lparr>form_fields = fs, form_feedback = fb\<rparr>))"

subsection \<open>Submission\<close>

text \<open>
  \<^verbatim>\<open>new FormData(form).get(k)\<close>: the value of the first control named \<open>k\<close> that the
  form submits (a checkbox or radio button only when checked), and null when there is
  none. The controls of the model are text inputs, selects, text areas, checkboxes and
  radio buttons, none of them disabled.
\<close>

definition submits :: "field \<Rightarrow> bool" where
  "submits f =
     (if field_type f = js ''checkbox'' \<or> field_type f = js ''radio'' then field_checked f
      else True)"

definition formData_get :: "field list \<Rightarrow> jsstring \<Rightarrow> jsval" where
  "formData_get fs k =
     (case find (\<lambda>f. field_name f = k \<and> submits f) fs of
        None \<Rightarrow> JNull
      | Some f \<Rightarrow> JStr (field_value f))"

definition submissionData :: "field list \<Rightarrow> jsval" where
  "submissionData fs =
     JObj [(js ''name'', formData_get fs (js ''name'')),
           (js ''email'', formData_get fs (js ''email'')),
           (js ''phone'', formData_get fs (js ''phone'')),
           (js ''company'', formData_get fs (js ''company'')),
           (js ''budget'', formData_get fs (js ''budget'')),
           (js ''projectType'', formData_get fs (js ''project-type'')),
           (js ''message'', formData_get fs (js ''message'')),
           (js ''consent'', JBool (formData_get fs (js ''consent'') = JStr (js ''on''))),
           (js ''website'', formData_get fs (js ''website''))]"

text \<open>
  \<^verbatim>\<open>handleFormSubmit\<close> up to its request: the JSON body it posts to
  \<^verbatim>\<open>/api/contact\<close>, or \<open>None\<close> when it returns without a request (the form is
  invalid, or the honeypot is filled).
\<close>

definition handleFormSubmit_body :: "jsstring \<Rightarrow> form \<Rightarrow> jsval option" where
  "handleFormSubmit_body lang fm =
     (if \<not> fst (validateForm lang fm) then None
      else if truthy (formData_get (form_fields fm) (js ''website'')) then None
      else Some (submissionData (form_fields fm)))"

subsection \<open>Language switching\<close>

text \<open>
  The document as the language functions see it: a tree of elements and texts. An element
  has its tag name, its attributes, the property \<^verbatim>\<open>placeholder\<close>, its class list, and
  its child nodes in document order.
\<close>

record props =
  el_tagName :: jsstring
  el_attributes :: "(jsstring \<times> jsstring) list"
  el_placeholder :: jsstring
  el_classList :: "jsstring list"

datatype node = Text jsstring | Element props "node list"

text \<open>
  The page: the variable \<^verbatim>\<open>currentLang\<close>, the root element \<^verbatim>\<open>document.documentElement\<close>
  (its own properties and its child nodes), the browser-local storage, and the \<^verbatim>\<open>lang\<close>
  parameter of the address.
\<close>

record page =
  currentLang :: jsstring
  html_props :: props
  html_childNodes :: "node list"
  localStorage :: "(jsstring \<times> jsstring) list"
  url_lang :: "jsstring option"

definition documentElement :: "page \<Rightarrow> node" where
  "documentElement pg = Element (html_props pg) (html_childNodes pg)"

text \<open>
  The page with the document a step has left. Every step leaves an element where there
  was one, so that the root stays an element.
\<close>

fun with_documentElement :: "node \<Rightarrow> page \<Rightarrow> page" where
  "with_documentElement (Element p cs) pg = pg\<lparr>html_props := p, html_childNodes := cs\<rparr>"
| "with_documentElement (Text s) pg = pg"

text \<open>A text has no tag name, no attribute and no class.\<close>

fun props_of :: "node \<Rightarrow> props" where
  "props_of (Element p cs) = p"
| "props_of (Text s) =
     \<lparr>el_tagName = [], el_attributes = [], el_placeholder = [], el_classList = []\<rparr>"

definition tagName :: "node \<Rightarrow> jsstring" where
  "tagName n = el_tagName (props_of n)"

definition getAttribute :: "node \<Rightarrow> jsstring \<Rightarrow> jsstring option" where
  "getAttribute n k = map_of (el_attributes (props_of n)) k"

definition classList :: "node \<Rightarrow> jsstring list" where
  "classList n = el_classList (props_of n)"

definition placeholder :: "node \<Rightarrow> jsstring" where
  "placeholder n = el_placeholder (props_of n)"

fun set_entry :: "jsstring \<Rightarrow> jsstring \<Rightarrow> (jsstring \<times> jsstring) list \<Rightarrow> (jsstring \<times> jsstring) list" where
  "set_entry k v [] = [(k, v)]"
| "set_entry k v ((k', v') # kvs) =
     (if k' = k then (k, v) # kvs else (k', v') # set_entry k v kvs)"

definition set_attribute :: "jsstring \<Rightarrow> jsstring \<Rightarrow> props \<Rightarrow> props" where
  "set_attribute k v p = p\<lparr>el_attributes := set_entry k v (el_attributes p)\<rparr>"

fun setAttribute :: "jsstring \<Rightarrow> jsstring \<Rightarrow> node \<Rightarrow> node" where
  "setAttribute k v (Element p cs) = Element (set_attribute k v p) cs"
| "setAttribute k v (Text s) = Text s"

text \<open>
  The getter \<^verbatim>\<open>textContent\<close>: the texts below a node, in document order. The setter
  replaces all the children of an element by one text, or by nothing when the text is
  empty: the elements that were below it leave the document.
\<close>

fun node_textContent :: "node \<Rightarrow> jsstring" where
  "node_textContent (Text s) = s"
| "node_textContent (Element p cs) = concat (map node_textContent cs)"

fun set_textContent :: "jsstring \<Rightarrow> node \<Rightarrow> node" where
  "set_textContent v (Element p cs) = Element p (if v = [] then [] else [Text v])"
| "set_textContent v (Text s) = Text v"

text \<open>
  The elements of a subtree in document order, the root of the subtree first: what
  \<^verbatim>\<open>querySelectorAll\<close> filters, and of which \<^verbatim>\<open>querySelector\<close> takes the first match.
\<close>

fun elements_of :: "node \<Rightarrow> node list" where
  "elements_of (Text s) = []"
| "elements_of (Element p cs) = Element p cs # concat (map elements_of cs)"

definition all_elements :: "page \<Rightarrow> node list" where
  "all_elements pg = elements_of (documentElement pg)"

text \<open>
  The helper \<^verbatim>\<open>$(selector)\<close>: the element itself when exactly one matches, the
  collection otherwise. Only a collection has \<^verbatim>\<open>forEach\<close>.
\<close>

datatype selection = Single node | Collection "node list"

definition dollar :: "node list \<Rightarrow> selection" where
  "dollar matches = (case matches of [e] \<Rightarrow> Single e | _ \<Rightarrow> Collection matches)"

definition is_form_text :: "node \<Rightarrow> bool" where
  "is_form_text e = (tagName e = js ''INPUT'' \<or> tagName e = js ''TEXTAREA'')"

text \<open>
  The \<^verbatim>\<open>forEach\<close> of \<^verbatim>\<open>updateTranslatableElements\<close> visits the elements that carry the
  attribute in document order, an element before the elements below it. Once the text of
  an element is set, the elements below it are out of the document, and what the loop
  still does to them is not seen; below an element that is left as it is, or that gets a
  placeholder, the loop goes on.
\<close>

fun translate_node :: "jsstring \<Rightarrow> node \<Rightarrow> node" where
  "translate_node attr (Text s) = Text s"
| "translate_node attr (Element p cs) =
     (case map_of (el_attributes p) attr of
        None \<Rightarrow> Element p (map (translate_node attr) cs)
      | Some translation \<Rightarrow>
          if translation \<noteq> []
          then (if is_form_text (Element p cs)
                then Element (p\<lparr>el_placeholder := translation\<rparr>) (map (translate_node attr) cs)
                else set_textContent translation (Element p cs))
          else Element p (map (translate_node attr) cs))"

text \<open>
  A change made to the first element, in document order, that satisfies \<open>P\<close>: to the
  root of the subtree if it satisfies \<open>P\<close>, otherwise inside the first child that
  contains such an element. Without such an element nothing changes.
\<close>

fun update_first :: "(node \<Rightarrow> bool) \<Rightarrow> (node \<Rightarrow> node) \<Rightarrow> node \<Rightarrow> node"
  and update_first_in :: "(node \<Rightarrow> bool) \<Rightarrow> (node \<Rightarrow> node) \<Rightarrow> node list \<Rightarrow> node list" where
  "update_first P f (Text s) = Text s"
| "update_first P f (Element p cs) =
     (if P (Element p cs) then f (Element p cs) else Element p (update_first_in P f cs))"
| "update_first_in P f [] = []"
| "update_first_in P f (c # cs) =
     (if list_ex P (elements_of c) then update_first P f c # cs
      else c # update_first_in P f cs)"

text \<open>
  \<^verbatim>\<open>document.title = v\<close> sets the text of the first title element of the document;
  \<^verbatim>\<open>metaDesc.setAttribute('content', \<dots>)\<close> acts on the first element that matches
  \<^verbatim>\<open>meta[name="description"][data-\<dots>]\<close>.
\<close>

definition set_document_title :: "jsstring \<Rightarrow> node \<Rightarrow> node" where
  "set_document_title v html =
     update_first (\<lambda>e. tagName e = js ''TITLE'') (set_textContent v) html"

definition is_meta_description :: "jsstring \<Rightarrow> node \<Rightarrow> bool" where
  "is_meta_description attr e \<longleftrightarrow>
     tagName e = js ''META'' \<and> getAttribute e (js ''name'') = Some (js ''description'') \<and>
     getAttribute e attr \<noteq> None"

definition set_meta_description :: "jsstring \<Rightarrow> node \<Rightarrow> node" where
  "set_meta_description attr html =
     update_first (is_meta_description attr)
       (\<lambda>e. setAttribute (js ''content'')
               (case getAttribute e attr of Some v \<Rightarrow> v | None \<Rightarrow> []) e) html"

text \<open>
  The body of \<^verbatim>\<open>updateTranslatableElements\<close> after its selection: the \<^verbatim>\<open>forEach\<close>, then
  the title and the description.
\<close>

definition translate_all :: "jsstring \<Rightarrow> node \<Rightarrow> node" where
  "translate_all attr html =
     (let html1 = translate_node attr html;
          html2 = (case find (\<lambda>e. tagName e = js ''TITLE'' \<and> getAttribute e attr \<noteq> None)
                          (elements_of html1) of
                     None \<Rightarrow> html1
                   | Some t \<Rightarrow>
                       set_document_title
                         (case getAttribute t attr of Some v \<Rightarrow> v | None \<Rightarrow> []) html1)
      in set_meta_description attr html2)"

text \<open>
  The three update functions return the exception they threw, if any, and the page
  they left.
\<close>

definition updateTranslatableElements :: "jsstring \<Rightarrow> page \<Rightarrow> js_error option \<times> page" where
  "updateTranslatableElements lang pg =
     (let attr = js ''data-'' @ lang in
      case dollar (filter (\<lambda>e. getAttribute e attr \<noteq> None) (all_elements pg)) of
        Single e \<Rightarrow> (Some TypeError, pg)
      | Collection es \<Rightarrow>
          (None, with_documentElement (translate_all attr (documentElement pg)) pg))"

definition update_toggle :: "jsstring \<Rightarrow> props \<Rightarrow> props" where
  "update_toggle cur p =
     (if js ''lang-toggle'' \<in> set (el_classList p)
      then (if map_of (el_attributes p) (js ''data-lang'') = Some cur
            then p\<lparr>el_classList :=
                    classList_add (js ''btn-primary'')
                      (classList_remove (js ''btn-outline-secondary'')
                         (classList_add (js ''active'') (el_classList p)))\<rparr>
            else p\<lparr>el_classList :=
                    classList_add (js ''btn-outline-secondary'')
                      (classList_remove (js ''btn-primary'')
                         (classList_remove (js ''active'') (el_classList p)))\<rparr>)
      else p)"

text \<open>A change of the properties of every element of a subtree.\<close>

fun map_node :: "(props \<Rightarrow> props) \<Rightarrow> node \<Rightarrow> node" where
  "map_node g (Text s) = Text s"
| "map_node g (Element p cs) = Element (g p) (map (map_node g) cs)"

definition updateLanguageToggles :: "page \<Rightarrow> js_error option \<times> page" where
  "updateLanguageToggles pg =
     (case dollar (filter (\<lambda>e. js ''lang-toggle'' \<in> set (classList e)) (all_elements pg)) of
        Single e \<Rightarrow> (Some TypeError, pg)
      | Collection es \<Rightarrow>
          (None,
           with_documentElement
             (map_node (update_toggle (currentLang pg)) (documentElement pg)) pg))"

definition update_placeholder :: "jsstring \<Rightarrow> props \<Rightarrow> props" where
  "update_placeholder attr p =
     (case map_of (el_attributes p) attr of
        None \<Rightarrow> p
      | Some q \<Rightarrow> if q \<noteq> [] then p\<lparr>el_placeholder := q\<rparr> else p)"

definition updateFormPlaceholders :: "jsstring \<Rightarrow> page \<Rightarrow> js_error option \<times> page" where
  "updateFormPlaceholders lang pg =
     (let attr = js ''data-placeholder-'' @ lang in
      case dollar (filter (\<lambda>e. getAttribute e attr \<noteq> None) (all_elements pg)) of
        Single e \<Rightarrow> (Some TypeError, pg)
      | Collection es \<Rightarrow>
          (None,
           with_documentElement (map_node (update_placeholder attr) (documentElement pg)) pg))"

definition switchLanguage :: "jsstring \<Rightarrow> page \<Rightarrow> js_error option \<times> page" where
  "switchLanguage lang pg =
     (let pg1 = pg\<lparr>currentLang := lang,
                    html_props :=
                      set_attribute (js ''data-lang'') lang
                        (set_attribute (js ''lang'') lang (html_props pg))\<rparr>
      in case updateTranslatableElements lang pg1 of
           (Some err, pg2) \<Rightarrow> (Some err, pg2)
         | (None, pg2) \<Rightarrow>
        (case updateLanguageToggles pg2 of
           (Some err, pg3) \<Rightarrow> (Some err, pg3)
         | (None, pg3) \<Rightarrow>
        (case updateFormPlaceholders lang pg3 of
           (Some err, pg4) \<Rightarrow> (Some err, pg4)
         | (None, pg4) \<Rightarrow>
             (None,
              pg4\<lparr>localStorage := set_entry (js ''digilima_lang'') lang (localStorage pg4),
                   url_lang := (if lang = js ''en'' then None else Some lang)\<rparr>))))"

definition is_site_language :: "jsstring \<Rightarrow> bool" where
  "is_site_language l = (l \<in> set [js ''en'', js ''el''])"

definition initLanguageFromURL :: "page \<Rightarrow> js_error option \<times> page" where
  "initLanguageFromURL pg =
     (case url_lang pg of
        Some langParam \<Rightarrow>
          if langParam \<noteq> [] \<and> is_site_language langParam then switchLanguage langParam pg
          else (case map_of (localStorage pg) (js ''digilima_lang'') of
                  Some storedLang \<Rightarrow>
                    if storedLang \<noteq> [] \<and> is_site_language storedLang
                    then switchLanguage storedLang pg else (None, pg)
                | None \<Rightarrow> (None, pg))
      | None \<Rightarrow>
          (case map_of (localStorage pg) (js ''digilima_lang'') of
             Some storedLang \<Rightarrow>
               if storedLang \<noteq> [] \<and> is_site_language storedLang
               then switchLanguage storedLang pg else (None, pg)
           | None \<Rightarrow> (None, pg)))"

text \<open>
  \<^verbatim>\<open>initLanguageSwitcher\<close>: \<^verbatim>\<open>currentLang\<close> is read from the root element
  (\<^verbatim>\<open>html.getAttribute('data-lang') || 'en'\<close>) and the toggles are updated. The click
  listeners it installs change nothing until a click.
\<close>

definition initLanguageSwitcher :: "page \<Rightarrow> js_error option \<times> page" where
  "initLanguageSwitcher pg =
     updateLanguageToggles
       (pg\<lparr>currentLang :=
             (case getAttribute (documentElement pg) (js ''data-lang'') of
                Some l \<Rightarrow> if l \<noteq> [] then l else js ''en''
              | None \<Rightarrow> js ''en'')\<rparr>)"

text \<open>
  The first two calls of \<^verbatim>\<open>init\<close>, which settle the language of a freshly loaded
  page; an exception in the first ends \<^verbatim>\<open>init\<close>.
\<close>

definition init_language :: "page \<Rightarrow> js_error option \<times> page" where
  "init_language pg =
     (case initLanguageFromURL pg of
        (Some err, pg1) \<Rightarrow> (Some err, pg1)
      | (None, pg1) \<Rightarrow> initLanguageSwitcher pg1)"

section \<open>Notions for stating the properties\<close>

text \<open>
  The strings a regular expression denotes, to state what the derivative matcher
  decides.
\<close>

inductive_set repeat :: "jsstring set \<Rightarrow> jsstring set" for A :: "jsstring set" where
  repeat_none: "[] \<in> repeat A"
| repeat_more: "u \<in> A \<Longrightarrow> v \<in> repeat A \<Longrightarrow> u @ v \<in> repeat A"

fun strings_of :: "regex \<Rightarrow> jsstring set" where
  "strings_of RNone = {}"
| "strings_of REmpty = {[]}"
| "strings_of (RClass p) = {[c] | c. p c}"
| "strings_of (RAlt r s) = strings_of r \<union> strings_of s"
| "strings_of (RSeq r s) = {u @ v | u v. u \<in> strings_of r \<and> v \<in> strings_of s}"
| "strings_of (RStar r) = repeat (strings_of r)"

text \<open>
  The shape \<^verbatim>\<open>local@domain.tld\<close> in the specification's words: a local part, an at
  sign, a domain, a dot and a top-level part, the three parts not empty and free of
  white space and of further at signs.
\<close>

definition email_shape :: "jsstring \<Rightarrow> bool" where
  "email_shape s \<longleftrightarrow>
     (\<exists>local domain tld.
        s = local @ [0x40] @ domain @ [0x2E] @ tld \<and>
        local \<noteq> [] \<and> domain \<noteq> [] \<and> tld \<noteq> [] \<and>
        (\<forall>c \<in> set (local @ domain @ tld). \<not> is_js_space c \<and> c \<noteq> 0x40))"

text \<open>
  An optional field of a submission is free text: absent (undefined, or the null the
  client sends for a control the form does not have) or a string.
\<close>

fun optional_text :: "jsval \<Rightarrow> bool" where
  "optional_text JUndefined = True"
| "optional_text JNull = True"
| "optional_text (JStr s) = True"
| "optional_text v = False"

text \<open>
  One document is another with a stretch of text cut out: \<open>rest\<close> is \<open>full\<close> without
  one occurrence of \<open>part\<close>.
\<close>

definition cut_out :: "jsstring \<Rightarrow> jsstring \<Rightarrow> jsstring \<Rightarrow> bool" where
  "cut_out part full rest \<longleftrightarrow> (\<exists>a b. full = a @ part @ b \<and> rest = a @ b)"

text \<open>
  None of the three selectors of \<^verbatim>\<open>switchLanguage\<close> matches exactly one element of the
  page, so that each \<^verbatim>\<open>$(selector)\<close> is a collection.
\<close>

definition no_single_match :: "jsstring \<Rightarrow> page \<Rightarrow> bool" where
  "no_single_match lang pg \<longleftrightarrow>
     length (filter (\<lambda>e. getAttribute e (js ''data-'' @ lang) \<noteq> None) (all_elements pg)) \<noteq> 1 \<and>
     length (filter (\<lambda>e. js ''lang-toggle'' \<in> set (classList e)) (all_elements pg)) \<noteq> 1 \<and>
     length (filter (\<lambda>e. getAttribute e (js ''data-placeholder-'' @ lang) \<noteq> None) (all_elements pg)) \<noteq> 1"

text \<open>An element that contains no element: its children are texts.\<close>

fun is_text :: "node \<Rightarrow> bool" where
  "is_text (Text s) = True"
| "is_text (Element p cs) = False"

fun leaf :: "node \<Rightarrow> bool" where
  "leaf (Element p cs) = list_all is_text cs"
| "leaf (Text s) = True"

text \<open>
  No element that carries the translation attribute, and no title element, contains
  another element.
\<close>

definition translation_leaves :: "jsstring \<Rightarrow> node \<Rightarrow> bool" where
  "translation_leaves attr html \<longleftrightarrow>
     (\<forall>e \<in> set (elements_of html).
        getAttribute e attr \<noteq> None \<or> tagName e = js ''TITLE'' \<longrightarrow> leaf e)"

definition leaf_translations :: "jsstring \<Rightarrow> page \<Rightarrow> bool" where
  "leaf_translations lang pg = translation_leaves (js ''data-'' @ lang) (documentElement pg)"

text \<open>
  The elements of a subtree in document order, each seen through \<open>h\<close> and with the mark
  of a leaf.
\<close>

definition outline :: "(props \<Rightarrow> 'a) \<Rightarrow> node \<Rightarrow> ('a \<times> bool) list" where
  "outline h n = map (\<lambda>e. (h (props_of e), leaf e)) (elements_of n)"

text \<open>
  Every element of a subtree that carries a non-empty translation shows it: a form text
  as its placeholder, any other element as its only child.
\<close>

definition shows_text :: "jsstring \<Rightarrow> node \<Rightarrow> bool" where
  "shows_text attr n \<longleftrightarrow>
     (\<forall>p cs t. Element p cs \<in> set (elements_of n) \<and> map_of (el_attributes p) attr = Some t \<and>
        t \<noteq> [] \<longrightarrow>
        (if is_form_text (Element p cs) then el_placeholder p = t else cs = [Text t]))"

text \<open>
  The document that \<^verbatim>\<open>switchLanguage\<close> leaves when none of its steps throws: the root
  attributes are set, the translations, the title and the description are written, then
  the toggles and the placeholders are updated.
\<close>

definition switched :: "jsstring \<Rightarrow> node \<Rightarrow> node" where
  "switched lang html =
     map_node (update_placeholder (js ''data-placeholder-'' @ lang))
       (map_node (update_toggle lang)
          (translate_all (js ''data-'' @ lang)
             (setAttribute (js ''data-lang'') lang (setAttribute (js ''lang'') lang html))))"

section \<open>Example inputs\<close>

definition example_env :: env where
  "example_env =
     \<lparr>currentDate = js ''1 January 2025 at 10:00'',
      NODE_ENV = JStr (js ''production''),
      type_error_message = js ''Cannot read properties of undefined''\<rparr>"

text \<open>A provider that accepts every call, and one that accepts only the first.\<close>

definition accepting_provider :: provider where
  "accepting_provider earlier msg = Inr (JObj [(js ''id'', JStr (js ''re_123''))])"

definition first_only_provider :: provider where
  "first_only_provider earlier msg =
     (if earlier = [] then Inr (JObj [(js ''id'', JStr (js ''re_123''))])
      else Inl (ProviderError (js ''rate limit exceeded'')))"

definition post :: "jsval \<Rightarrow> request" where
  "post body = \<lparr>req_method = js ''POST'', req_body = body\<rparr>"

text \<open>The valid payload of the specification.\<close>

definition jane_body :: jsval where
  "jane_body =
     JObj [(js ''name'', JStr (js ''Jane'')),
           (js ''email'', JStr (js ''jane@x.com'')),
           (js ''message'', JStr (js ''Hi'')),
           (js ''consent'', JBool True),
           (js ''website'', JStr [])]"

definition jane_payload :: payload where
  "jane_payload =
     \<lparr>name = JStr (js ''Jane''), email = JStr (js ''jane@x.com''),
      phone = JUndefined, company = JUndefined, budget = JUndefined,
      projectType = JUndefined, message = JStr (js ''Hi''),
      consent = JBool True, website = JStr []\<rparr>"

text \<open>The same payload with the string \<^verbatim>\<open>"yes"\<close> as consent.\<close>

definition consent_yes_body :: jsval where
  "consent_yes_body =
     JObj [(js ''name'', JStr (js ''Jane'')),
           (js ''email'', JStr (js ''jane@x.com'')),
           (js ''message'', JStr (js ''Hi'')),
           (js ''consent'', JStr (js ''yes'')),
           (js ''website'', JStr [])]"

text \<open>A payload without a message, one with the honeypot filled, one with a bad address.\<close>

definition no_message_body :: jsval where
  "no_message_body =
     JObj [(js ''name'', JStr (js ''Jane'')),
           (js ''email'', JStr (js ''jane@x.com'')),
           (js ''consent'', JBool True)]"

definition honeypot_body :: jsval where
  "honeypot_body =
     JObj [(js ''name'', JStr (js ''Jane'')),
           (js ''email'', JStr (js ''jane@x.com'')),
           (js ''message'', JStr (js ''Hi'')),
           (js ''consent'', JBool True),
           (js ''website'', JStr (js ''http://spam.example''))]"

definition bad_email_body :: jsval where
  "bad_email_body =
     JObj [(js ''name'', JStr (js ''Jane'')),
           (js ''email'', JStr (js ''jane@x'')),
           (js ''message'', JStr (js ''Hi'')),
           (js ''consent'', JBool True),
           (js ''website'', JStr [])]"

text \<open>Form controls, and a contact form whose email starts with a no-break space.\<close>

definition control :: "jsstring \<Rightarrow> jsstring \<Rightarrow> jsstring \<Rightarrow> bool \<Rightarrow> nat \<Rightarrow> field" where
  "control nm ty v req parent =
     \<lparr>field_name = nm, field_type = ty, field_value = v, field_required = req,
      field_checked = (ty = js ''checkbox''), field_classList = [js ''form-control''],
      field_parentNode = parent\<rparr>"

definition nbsp_email :: jsstring where
  "nbsp_email = [0xA0] @ js ''jane@x.com''"

definition nbsp_form :: form where
  "nbsp_form =
     \<lparr>form_fields =
        [control (js ''name'') (js ''text'') (js ''Jane'') True 0,
         control (js ''email'') (js ''email'') nbsp_email True 1,
         control (js ''message'') (js ''textarea'') (js ''Hi'') True 2,
         control (js ''consent'') (js ''checkbox'') (js ''on'') True 3,
         control (js ''website'') (js ''text'') [] False 4],
      form_feedback = Map.empty\<rparr>"

definition nbsp_body :: jsval where
  "nbsp_body =
     JObj [(js ''name'', JStr (js ''Jane'')),
           (js ''email'', JStr nbsp_email),
           (js ''phone'', JNull),
           (js ''company'', JNull),
           (js ''budget'', JNull),
           (js ''projectType'', JNull),
           (js ''message'', JStr (js ''Hi'')),
           (js ''consent'', JBool True),
           (js ''website'', JStr [])]"

text \<open>A form whose first required field is blank and whose second is a valid email.\<close>

definition blank_name_form :: form where
  "blank_name_form =
     \<lparr>form_fields =
        [control (js ''name'') (js ''text'') (js ''  '') True 0,
         control (js ''email'') (js ''email'') (js ''jane@x.com'') True 1],
      form_feedback = [0 \<mapsto> [], 1 \<mapsto> []]\<rparr>"

text \<open>
  A page with a heading and a paragraph that carry \<^verbatim>\<open>data-el\<close> (the paragraph's is
  empty) and the two language toggles; a page on which a single element carries
  \<^verbatim>\<open>data-el\<close>; and a page on which one of the toggles is inside an element that
  carries \<^verbatim>\<open>data-el\<close>.
\<close>

definition tag :: "jsstring \<Rightarrow> (jsstring \<times> jsstring) list \<Rightarrow> jsstring list \<Rightarrow> props" where
  "tag tn attrs classes =
     \<lparr>el_tagName = tn, el_attributes = attrs, el_placeholder = [], el_classList = classes\<rparr>"

definition greek_hello :: jsstring where
  "greek_hello = [0x393, 0x3B5, 0x3B9, 0x3AC]"

definition toggle_en :: node where
  "toggle_en =
     Element (tag (js ''A'') [(js ''data-lang'', js ''en'')]
                [js ''lang-toggle'', js ''btn-primary'', js ''active''])
       [Text (js ''EN'')]"

definition toggle_el :: node where
  "toggle_el =
     Element (tag (js ''A'') [(js ''data-lang'', js ''el'')]
                [js ''lang-toggle'', js ''btn-outline-secondary''])
       [Text (js ''EL'')]"

definition heading :: node where
  "heading =
     Element (tag (js ''H1'') [(js ''data-en'', js ''Hello''), (js ''data-el'', greek_hello)] [])
       [Text (js ''Hello'')]"

definition welcome_text :: node where
  "welcome_text =
     Element (tag (js ''P'') [(js ''data-en'', js ''Welcome''), (js ''data-el'', [])] [])
       [Text (js ''Welcome'')]"

definition english_root :: props where
  "english_root = tag (js ''HTML'') [(js ''lang'', js ''en''), (js ''data-lang'', js ''en'')] []"

definition home_page :: page where
  "home_page =
     \<lparr>currentLang = js ''en'',
      html_props = english_root,
      html_childNodes =
        [Element (tag (js ''BODY'') [] []) [heading, welcome_text, toggle_en, toggle_el]],
      localStorage = [],
      url_lang = None\<rparr>"

definition single_page :: page where
  "single_page =
     \<lparr>currentLang = js ''en'',
      html_props = english_root,
      html_childNodes = [Element (tag (js ''BODY'') [] []) [heading, toggle_en, toggle_el]],
      localStorage = [],
      url_lang = None\<rparr>"

definition nested_page :: page where
  "nested_page =
     \<lparr>currentLang = js ''en'',
      html_props = english_root,
      html_childNodes =
        [Element (tag (js ''BODY'') [] [])
           [heading,
            Element (tag (js ''DIV'') [(js ''data-en'', js ''Menu''), (js ''data-el'', greek_hello)] [])
              [toggle_en],
            toggle_el]],
      localStorage = [],
      url_lang = None\<rparr>"

text \<open>The valid payload with the number 5000 as budget.\<close>

definition numeric_budget_body :: jsval where
  "numeric_budget_body =
     JObj [(js ''name'', JStr (js ''Jane'')),
           (js ''email'', JStr (js ''jane@x.com'')),
           (js ''budget'', JNum 5000),
           (js ''message'', JStr (js ''Hi'')),
           (js ''consent'', JBool True),
           (js ''website'', JStr [])]"

section \<open>Properties\<close>

subsection \<open>String literals\<close>

lemma of_char_word_eq_iff: "(of_char c :: jschar) = of_char d \<longleftrightarrow> c = d"
proof
  assume eq: "(of_char c :: jschar) = of_char d"
  have lt: "(of_char x :: nat) < 65536" for x
  proof -
    have "(of_char x :: nat) mod 256 = of_char x" by simp
    then have "(of_char x :: nat) < 256"
      by (metis mod_less_divisor zero_less_numeral)
    also have "(256 :: nat) < 65536" by simp
    finally show ?thesis .
  qed
  have "unat (of_nat (of_char x) :: jschar) = of_char x" for x
    using lt [of x] by (simp add: unat_of_nat)
  then have "(of_char c :: nat) = of_char d"
    using eq by (metis of_nat_of_char)
  then show "c = d" by simp
qed simp

lemma js_eq_iff: "js a = js b \<longleftrightarrow> a = b"
  unfolding js_def by (rule inj_map_eq_map) (simp add: inj_def of_char_word_eq_iff)

lemma js_Nil: "js [] = []" by (simp add: js_def)
lemma js_eq_Nil: "js a = [] \<longleftrightarrow> a = []" by (simp add: js_def)


subsection \<open>The regular expression matcher decides the language\<close>

lemma accepts_empty_strings: "accepts_empty r \<longleftrightarrow> [] \<in> strings_of r"
  by (induction r) (auto intro: repeat.intros)

lemma repeat_cons:
  "c # w \<in> repeat A \<longleftrightarrow> (\<exists>u v. w = u @ v \<and> c # u \<in> A \<and> v \<in> repeat A)"
proof
  assume "c # w \<in> repeat A"
  then show "\<exists>u v. w = u @ v \<and> c # u \<in> A \<and> v \<in> repeat A"
  proof (induction "c # w" arbitrary: w rule: repeat.induct)
    case (repeat_more u v)
    then show ?case by (cases u) auto
  qed
next
  assume "\<exists>u v. w = u @ v \<and> c # u \<in> A \<and> v \<in> repeat A"
  then obtain u v where "w = u @ v" "c # u \<in> A" "v \<in> repeat A" by blast
  then show "c # w \<in> repeat A"
    using repeat_more [of "c # u" A v] by simp
qed

lemma cons_in_concat:
  "c # w \<in> {u @ v | u v. u \<in> A \<and> v \<in> B} \<longleftrightarrow>
     ([] \<in> A \<and> c # w \<in> B) \<or> (\<exists>u v. w = u @ v \<and> c # u \<in> A \<and> v \<in> B)"
proof
  assume "c # w \<in> {u @ v | u v. u \<in> A \<and> v \<in> B}"
  then obtain u v where uv: "c # w = u @ v" "u \<in> A" "v \<in> B" by blast
  show "([] \<in> A \<and> c # w \<in> B) \<or> (\<exists>u v. w = u @ v \<and> c # u \<in> A \<and> v \<in> B)"
  proof (cases u)
    case Nil
    with uv show ?thesis by simp
  next
    case (Cons a u')
    with uv have "w = u' @ v" "c # u' \<in> A" by simp_all
    with uv(3) show ?thesis by blast
  qed
next
  assume "([] \<in> A \<and> c # w \<in> B) \<or> (\<exists>u v. w = u @ v \<and> c # u \<in> A \<and> v \<in> B)"
  then show "c # w \<in> {u @ v | u v. u \<in> A \<and> v \<in> B}"
  proof
    assume "[] \<in> A \<and> c # w \<in> B"
    then have "c # w = [] @ (c # w) \<and> [] \<in> A \<and> c # w \<in> B" by simp
    then show ?thesis by blast
  next
    assume "\<exists>u v. w = u @ v \<and> c # u \<in> A \<and> v \<in> B"
    then obtain u v where "w = u @ v" "c # u \<in> A" "v \<in> B" by blast
    then have "c # w = (c # u) @ v \<and> c # u \<in> A \<and> v \<in> B" by simp
    then show ?thesis by blast
  qed
qed

lemma deriv_strings: "w \<in> strings_of (deriv c r) \<longleftrightarrow> c # w \<in> strings_of r"
proof (induction r arbitrary: w)
  case (RSeq r s)
  have "c # w \<in> strings_of (RSeq r s) \<longleftrightarrow>
      ([] \<in> strings_of r \<and> c # w \<in> strings_of s) \<or>
      (\<exists>u v. w = u @ v \<and> c # u \<in> strings_of r \<and> v \<in> strings_of s)"
    using cons_in_concat [of c w "strings_of r" "strings_of s"] by simp
  also have "\<dots> \<longleftrightarrow> w \<in> strings_of (deriv c (RSeq r s))"
    using RSeq by (auto simp: accepts_empty_strings)
  finally show ?case by simp
next
  case (RStar r)
  then show ?case by (auto simp: repeat_cons)
qed auto

lemma regex_test_strings: "regex_test r w \<longleftrightarrow> w \<in> strings_of r"
  by (induction w arbitrary: r) (simp_all add: accepts_empty_strings deriv_strings)

lemma repeat_class: "w \<in> repeat {[c] | c. p c} \<longleftrightarrow> (\<forall>c \<in> set w. p c)"
proof
  assume "w \<in> repeat {[c] | c. p c}"
  then show "\<forall>c \<in> set w. p c" by (induction rule: repeat.induct) auto
next
  assume "\<forall>c \<in> set w. p c"
  then show "w \<in> repeat {[c] | c. p c}"
  proof (induction w)
    case Nil
    then show ?case by (rule_tac repeat_none)
  next
    case (Cons a w)
    then show ?case using repeat_more [of "[a]" "{[c] | c. p c}" w] by simp
  qed
qed

lemma strings_of_OneOrMore_class:
  "w \<in> strings_of (OneOrMore (RClass p)) \<longleftrightarrow> w \<noteq> [] \<and> (\<forall>c \<in> set w. p c)"
proof (cases w)
  case Nil
  then show ?thesis by (simp add: OneOrMore_def)
next
  case (Cons a w')
  have "a # w' \<in> strings_of (OneOrMore (RClass p)) \<longleftrightarrow> w' \<in> strings_of (deriv a (OneOrMore (RClass p)))"
    by (simp only: deriv_strings)
  also have "\<dots> \<longleftrightarrow> p a \<and> w' \<in> repeat {[c] | c. p c}"
    by (auto simp: OneOrMore_def)
  also have "\<dots> \<longleftrightarrow> (\<forall>c \<in> set (a # w'). p c)"
    by (simp add: repeat_class)
  finally show ?thesis using Cons by simp
qed

lemma strings_of_seq: "w \<in> strings_of (RSeq r s) \<longleftrightarrow> (\<exists>u v. w = u @ v \<and> u \<in> strings_of r \<and> v \<in> strings_of s)"
  by auto

lemma strings_of_is_at: "w \<in> strings_of (RClass is_at) \<longleftrightarrow> w = [0x40]"
  by (auto simp: is_at_def)

lemma strings_of_is_dot: "w \<in> strings_of (RClass is_dot) \<longleftrightarrow> w = [0x2E]"
  by (auto simp: is_dot_def)

lemma emailRegex_shape: "regex_test emailRegex s \<longleftrightarrow> email_shape s"
proof -
  let ?ok = "\<lambda>w. w \<noteq> [] \<and> (\<forall>c \<in> set w. not_space_or_at c)"
  have "regex_test emailRegex s \<longleftrightarrow>
      (\<exists>l r1. s = l @ r1 \<and> ?ok l \<and>
        (\<exists>a r2. r1 = a @ r2 \<and> a = [0x40] \<and>
          (\<exists>d r3. r2 = d @ r3 \<and> ?ok d \<and>
            (\<exists>p t. r3 = p @ t \<and> p = [0x2E] \<and> ?ok t))))"
    unfolding regex_test_strings emailRegex_def
    by (simp only: strings_of_seq strings_of_OneOrMore_class strings_of_is_at strings_of_is_dot)
  also have "\<dots> \<longleftrightarrow>
      (\<exists>l d t. s = l @ [0x40] @ d @ [0x2E] @ t \<and> ?ok l \<and> ?ok d \<and> ?ok t)"
    by blast
  also have "\<dots> \<longleftrightarrow> email_shape s"
    unfolding email_shape_def not_space_or_at_def by (simp add: ball_Un) blast
  finally show ?thesis .
qed


subsection \<open>Steps of the handler\<close>

lemma handler_post:
  "req_method req = js ''POST'' \<Longrightarrow>
   handler ev send req =
     (case try_block ev send req of
        (Inl e, calls) \<Rightarrow> (failure_response ev e, calls)
      | (Inr res, calls) \<Rightarrow> (res, calls))"
  by (simp add: handler_def js_eq_iff)

lemma status_simps:
  "res_status missing_fields_response = 400"
  "res_status honeypot_response = 400"
  "res_status invalid_email_response = 400"
  "res_status (success_response i) = 200"
  "res_status (failure_response ev e) = 500"
  "res_status (json_response c obj) = c"
  "res_status (end_response c) = c"
  by (simp_all add: missing_fields_response_def honeypot_response_def invalid_email_response_def
      success_response_def failure_response_def json_response_def end_response_def)

lemma dispatch_cases:
  "(\<exists>e calls. dispatch ev send p = (Inl e, calls)) \<or>
   (\<exists>i calls. dispatch ev send p = (Inr (success_response i), calls))"
  unfolding dispatch_def Let_def by (auto split: sum.splits)

lemma try_block_rejects_without_calls:
  assumes "try_block ev send req = (Inr res, calls)" and "res_status res = 400"
  shows "calls = []"
proof -
  consider e cs where "dispatch ev send (projr (destructure (req_body req))) = (Inl e, cs)"
    | i cs where "dispatch ev send (projr (destructure (req_body req))) = (Inr (success_response i), cs)"
    using dispatch_cases by blast
  then show ?thesis
    using assms unfolding try_block_def
    by cases (auto split: sum.splits if_splits simp: status_simps)
qed

lemma template_Inr_Cons: "template (Inr s # ps) = (case template ps of Inl e \<Rightarrow> Inl e | Inr t \<Rightarrow> Inr (s @ t))"
  by simp

lemma budget_priority_text: "\<exists>a. budget_priority (JStr s) = Inr a"
  by (simp add: budget_priority_def split: bool.splits)

lemma optional_text_cases:
  "optional_text v \<Longrightarrow> v = JUndefined \<or> v = JNull \<or> (\<exists>s. v = JStr s)"
  by (cases v) simp_all

lemma or_else_text: "optional_text v \<Longrightarrow> \<exists>s. ToString (or_else v d) = Inr s"
  by (cases v) (simp_all add: or_else_def)

lemma html_sections_render:
  "optional_text (phone p) \<Longrightarrow> \<exists>a. html_phone_section p = Inr a"
  "optional_text (company p) \<Longrightarrow> \<exists>a. html_company_section p = Inr a"
  "optional_text (budget p) \<Longrightarrow> \<exists>a. html_budget_section p = Inr a"
  "optional_text (projectType p) \<Longrightarrow> \<exists>a. html_projectType_section p = Inr a"
proof -
  show "optional_text (phone p) \<Longrightarrow> \<exists>a. html_phone_section p = Inr a"
    by (cases "phone p") (simp_all add: html_phone_section_def)
  show "optional_text (company p) \<Longrightarrow> \<exists>a. html_company_section p = Inr a"
    by (cases "company p") (simp_all add: html_company_section_def)
  show "optional_text (projectType p) \<Longrightarrow> \<exists>a. html_projectType_section p = Inr a"
    by (cases "projectType p") (simp_all add: html_projectType_section_def)
  show "optional_text (budget p) \<Longrightarrow> \<exists>a. html_budget_section p = Inr a"
  proof (cases "budget p")
    case (JStr s)
    obtain a where "budget_priority (JStr s) = Inr a" using budget_priority_text by blast
    with JStr show ?thesis by (simp add: html_budget_section_def)
  qed (simp_all add: html_budget_section_def)
qed

lemma text_lines_render:
  "optional_text (phone p) \<Longrightarrow> \<exists>a. text_phone_line p = Inr a"
  "optional_text (company p) \<Longrightarrow> \<exists>a. text_company_line p = Inr a"
  "optional_text (budget p) \<Longrightarrow> \<exists>a. text_budget_line p = Inr a"
  "optional_text (projectType p) \<Longrightarrow> \<exists>a. text_projectType_line p = Inr a"
proof -
  show "optional_text (phone p) \<Longrightarrow> \<exists>a. text_phone_line p = Inr a"
    by (cases "phone p") (simp_all add: text_phone_line_def)
  show "optional_text (company p) \<Longrightarrow> \<exists>a. text_company_line p = Inr a"
    by (cases "company p") (simp_all add: text_company_line_def)
  show "optional_text (budget p) \<Longrightarrow> \<exists>a. text_budget_line p = Inr a"
    by (cases "budget p") (simp_all add: text_budget_line_def)
  show "optional_text (projectType p) \<Longrightarrow> \<exists>a. text_projectType_line p = Inr a"
    by (cases "projectType p") (simp_all add: text_projectType_line_def)
qed

text \<open>A submission of texts renders: none of the five documents throws.\<close>

lemma text_submission_renders:
  assumes "name p = JStr n" and "email p = JStr e" and "message p = JStr m"
    and "optional_text (phone p)" and "optional_text (company p)"
    and "optional_text (budget p)" and "optional_text (projectType p)"
  shows "\<exists>html txt subject reply_html reply_txt.
           htmlContent date p = Inr html \<and> textContent date p = Inr txt \<and>
           notification_subject p = Inr subject \<and>
           autoReplyHtml p = Inr reply_html \<and> autoReplyText p = Inr reply_txt"
proof -
  obtain h1 h2 h3 h4 where h:
    "html_phone_section p = Inr h1" "html_company_section p = Inr h2"
    "html_budget_section p = Inr h3" "html_projectType_section p = Inr h4"
    using html_sections_render assms(4-7) by blast
  obtain t1 t2 t3 t4 where t:
    "text_phone_line p = Inr t1" "text_company_line p = Inr t2"
    "text_budget_line p = Inr t3" "text_projectType_line p = Inr t4"
    using text_lines_render assms(4-7) by blast
  obtain g where g: "ToString (or_else (projectType p) (js ''General Inquiry'')) = Inr g"
    using or_else_text assms(7) by blast
  obtain y where y: "ToString (or_else (projectType p) (js ''your project'')) = Inr y"
    using or_else_text assms(7) by blast
  have b: "\<exists>a. (if truthy (budget p)
         then template [Inr (js ''(''), ToString (budget p), Inr (js '')'')]
         else Inr []) = Inr a"
    using assms(6) by (cases "budget p") simp_all
  have "\<exists>html. htmlContent date p = Inr html"
    by (simp add: htmlContent_def assms(1-3) h)
  moreover have "\<exists>txt. textContent date p = Inr txt"
    by (simp add: textContent_def assms(1-3) t)
  moreover have "\<exists>subject. notification_subject p = Inr subject"
    using b by (auto simp add: notification_subject_def assms(1-3) g)
  moreover have "\<exists>reply_html. autoReplyHtml p = Inr reply_html"
    by (simp add: autoReplyHtml_def assms(1-3) y)
  moreover have "\<exists>reply_txt. autoReplyText p = Inr reply_txt"
    by (simp add: autoReplyText_def assms(1-3) y)
  ultimately show ?thesis by blast
qed

lemma dispatch_both_accepted:
  assumes "htmlContent (currentDate ev) p = Inr html"
    and "textContent (currentDate ev) p = Inr txt"
    and "notification_subject p = Inr subject"
    and "autoReplyHtml p = Inr reply_html"
    and "autoReplyText p = Inr reply_txt"
    and "send [] (notification p subject html txt) = Inr d"
    and "send [notification p subject html txt] (autoReply p reply_html reply_txt) = Inr d'"
    and "get_prop d (js ''id'') = Inr i"
  shows "dispatch ev send p =
           (Inr (success_response i),
            [notification p subject html txt, autoReply p reply_html reply_txt])"
  by (simp add: dispatch_def Let_def assms)

lemma dispatch_reply_thrown:
  assumes "htmlContent (currentDate ev) p = Inr html"
    and "textContent (currentDate ev) p = Inr txt"
    and "notification_subject p = Inr subject"
    and "autoReplyHtml p = Inr reply_html"
    and "autoReplyText p = Inr reply_txt"
    and "send [] (notification p subject html txt) = Inr d"
    and "send [notification p subject html txt] (autoReply p reply_html reply_txt) = Inl err"
  shows "dispatch ev send p =
           (Inl err, [notification p subject html txt, autoReply p reply_html reply_txt])"
  by (simp add: dispatch_def Let_def assms)

lemma try_block_accepted:
  assumes "destructure (req_body req) = Inr p"
    and "truthy (name p)" and "truthy (email p)" and "truthy (message p)"
    and "truthy (consent p)" and "\<not> truthy (website p)"
    and "ToString (email p) = Inr address" and "regex_test emailRegex address"
  shows "try_block ev send req = dispatch ev send p"
  by (simp add: try_block_def assms)


subsection \<open>Runs of the handler\<close>

lemma regex_jane: "regex_test emailRegex (js ''jane@x.com'')"
  by (simp add: emailRegex_def OneOrMore_def js_def not_space_or_at_def is_js_space_def is_at_def is_dot_def)

lemma regex_jane_x: "\<not> regex_test emailRegex (js ''jane@x'')"
  by (simp add: emailRegex_def OneOrMore_def js_def not_space_or_at_def is_js_space_def is_at_def is_dot_def)

lemma destructure_jane: "destructure jane_body = Inr jane_payload"
  by (simp add: destructure_def jane_body_def jane_payload_def js_eq_iff)

lemma destructure_object:
  "destructure (JObj kvs) =
     Inr \<lparr>name = read_prop (JObj kvs) (js ''name''),
          email = read_prop (JObj kvs) (js ''email''),
          phone = read_prop (JObj kvs) (js ''phone''),
          company = read_prop (JObj kvs) (js ''company''),
          budget = read_prop (JObj kvs) (js ''budget''),
          projectType = read_prop (JObj kvs) (js ''projectType''),
          message = read_prop (JObj kvs) (js ''message''),
          consent = read_prop (JObj kvs) (js ''consent''),
          website = read_prop (JObj kvs) (js ''website'')\<rparr>"
  by (simp add: destructure_def)

lemma emailRegex_not_empty: "regex_test emailRegex e \<Longrightarrow> e \<noteq> []"
  by (auto simp add: emailRegex_def OneOrMore_def)


lemma truthy_nonempty_text: "s \<noteq> [] \<Longrightarrow> truthy (JStr s)"
  by simp

text \<open>
  A submission of texts that passes the three checks, under a provider that accepts
  both calls: two calls, and the success response with the \<^verbatim>\<open>id\<close> of the first answer.
\<close>

lemma accepted_run:
  assumes "req_method req = js ''POST''"
    and "destructure (req_body req) = Inr p"
    and "name p = JStr n" and "n \<noteq> []"
    and "email p = JStr e" and "regex_test emailRegex e"
    and "message p = JStr m" and "m \<noteq> []"
    and "truthy (consent p)" and "\<not> truthy (website p)"
    and "optional_text (phone p)" and "optional_text (company p)"
    and "optional_text (budget p)" and "optional_text (projectType p)"
    and "\<And>earlier msg. \<exists>d i. send earlier msg = Inr d \<and> get_prop d (js ''id'') = Inr i"
  shows "\<exists>subject html plain reply_html reply_plain d i.
           send [] (notification p subject html plain) = Inr d \<and>
           get_prop d (js ''id'') = Inr i \<and>
           handler ev send req =
             (success_response i,
              [notification p subject html plain, autoReply p reply_html reply_plain])"
proof -
  obtain html plain subject reply_html reply_plain where r:
    "htmlContent (currentDate ev) p = Inr html" "textContent (currentDate ev) p = Inr plain"
    "notification_subject p = Inr subject"
    "autoReplyHtml p = Inr reply_html" "autoReplyText p = Inr reply_plain"
    using text_submission_renders [OF assms(3,5,7,11-14)] by blast
  obtain d i where d: "send [] (notification p subject html plain) = Inr d"
    "get_prop d (js ''id'') = Inr i"
    using assms(15) by blast
  obtain d' where d': "send [notification p subject html plain] (autoReply p reply_html reply_plain) = Inr d'"
    using assms(15) by blast
  have "dispatch ev send p =
      (Inr (success_response i), [notification p subject html plain, autoReply p reply_html reply_plain])"
    using dispatch_both_accepted [OF r d(1) d' d(2)] .
  moreover have "try_block ev send req = dispatch ev send p"
    by (rule try_block_accepted [where address = e])
       (use assms emailRegex_not_empty in auto)
  ultimately have "handler ev send req =
      (success_response i, [notification p subject html plain, autoReply p reply_html reply_plain])"
    using assms(1) by (simp add: handler_post)
  with d show ?thesis by blast
qed

text \<open>The same submission when the provider accepts the first call and throws on the second.\<close>

lemma reply_thrown_run:
  assumes "req_method req = js ''POST''"
    and "destructure (req_body req) = Inr p"
    and "name p = JStr n" and "n \<noteq> []"
    and "email p = JStr e" and "regex_test emailRegex e"
    and "message p = JStr m" and "m \<noteq> []"
    and "truthy (consent p)" and "\<not> truthy (website p)"
    and "optional_text (phone p)" and "optional_text (company p)"
    and "optional_text (budget p)" and "optional_text (projectType p)"
    and "\<And>msg. \<exists>d. send [] msg = Inr d"
    and "\<And>first msg. send [first] msg = Inl err"
  shows "\<exists>first second d.
           send [] first = Inr d \<and> send [first] second = Inl err \<and>
           handler ev send req = (failure_response ev err, [first, second])"
proof -
  obtain html plain subject reply_html reply_plain where r:
    "htmlContent (currentDate ev) p = Inr html" "textContent (currentDate ev) p = Inr plain"
    "notification_subject p = Inr subject"
    "autoReplyHtml p = Inr reply_html" "autoReplyText p = Inr reply_plain"
    using text_submission_renders [OF assms(3,5,7,11-14)] by blast
  obtain d where d: "send [] (notification p subject html plain) = Inr d"
    using assms(15) by blast
  have d': "send [notification p subject html plain] (autoReply p reply_html reply_plain) = Inl err"
    using assms(16) by blast
  have "dispatch ev send p =
      (Inl err, [notification p subject html plain, autoReply p reply_html reply_plain])"
    using dispatch_reply_thrown [OF r d d'] .
  moreover have "try_block ev send req = dispatch ev send p"
    by (rule try_block_accepted [where address = e])
       (use assms emailRegex_not_empty in auto)
  ultimately have "handler ev send req =
      (failure_response ev err, [notification p subject html plain, autoReply p reply_html reply_plain])"
    using assms(1) by (simp add: handler_post)
  with d d' show ?thesis by blast
qed

lemma dispatch_second_thrown:
  assumes "dispatch ev send p = (r, [first, second])" and "send [first] second = Inl err"
  shows "r = Inl err"
  using assms unfolding dispatch_def Let_def
  by (auto split: sum.splits)

lemma try_block_calls:
  assumes "try_block ev send req = (r, calls)" and "calls \<noteq> []"
  shows "\<exists>p. dispatch ev send p = (r, calls)"
  using assms unfolding try_block_def
  by (auto split: sum.splits if_splits)

lemma post_simps:
  "req_method (post body) = js ''POST''" "req_body (post body) = body"
  by (simp_all add: post_def)

lemma example_payloads:
  "destructure jane_body = Inr jane_payload"
  "destructure consent_yes_body = Inr (jane_payload\<lparr>consent := JStr (js ''yes'')\<rparr>)"
  by (simp_all add: destructure_def jane_body_def consent_yes_body_def jane_payload_def js_eq_iff)

lemma accepting_provider_answers:
  "\<exists>d i. accepting_provider earlier msg = Inr d \<and> get_prop d (js ''id'') = Inr i"
  by (simp add: accepting_provider_def get_prop_def)


subsection \<open>Optional sections of the notification\<close>

lemma template_append:
  "template (xs @ ys) =
     (case template xs of
        Inl e \<Rightarrow> Inl e
      | Inr a \<Rightarrow> (case template ys of Inl e \<Rightarrow> Inl e | Inr b \<Rightarrow> Inr (a @ b)))"
proof (induction xs)
  case Nil
  show ?case by (simp split: sum.splits)
next
  case (Cons x xs)
  then show ?case by (cases x) (simp_all split: sum.splits)
qed

text \<open>
  A template with a part that renders as nothing: the same template with text in that
  place renders the same document with the text inserted.
\<close>

lemma template_hole:
  assumes "template (front @ Inr [] # rear) = Inr doc"
  shows "\<exists>doc'. template (front @ Inr s # rear) = Inr doc' \<and> cut_out s doc' doc"
proof -
  from assms obtain a b where ab: "template front = Inr a" "template rear = Inr b" "doc = a @ b"
    by (auto simp add: template_append split: sum.splits)
  then have "template (front @ Inr s # rear) = Inr (a @ s @ b)"
    by (simp add: template_append)
  with ab(3) show ?thesis
    unfolding cut_out_def by blast
qed

lemma section_other_field:
  "html_company_section (p\<lparr>phone := x\<rparr>) = html_company_section p"
  "text_company_line (p\<lparr>phone := x\<rparr>) = text_company_line p"
  "html_budget_section (p\<lparr>phone := x\<rparr>) = html_budget_section p"
  "text_budget_line (p\<lparr>phone := x\<rparr>) = text_budget_line p"
  "html_projectType_section (p\<lparr>phone := x\<rparr>) = html_projectType_section p"
  "text_projectType_line (p\<lparr>phone := x\<rparr>) = text_projectType_line p"
  "html_phone_section (p\<lparr>company := x\<rparr>) = html_phone_section p"
  "text_phone_line (p\<lparr>company := x\<rparr>) = text_phone_line p"
  "html_budget_section (p\<lparr>company := x\<rparr>) = html_budget_section p"
  "text_budget_line (p\<lparr>company := x\<rparr>) = text_budget_line p"
  "html_projectType_section (p\<lparr>company := x\<rparr>) = html_projectType_section p"
  "text_projectType_line (p\<lparr>company := x\<rparr>) = text_projectType_line p"
  "html_phone_section (p\<lparr>budget := x\<rparr>) = html_phone_section p"
  "text_phone_line (p\<lparr>budget := x\<rparr>) = text_phone_line p"
  "html_company_section (p\<lparr>budget := x\<rparr>) = html_company_section p"
  "text_company_line (p\<lparr>budget := x\<rparr>) = text_company_line p"
  "html_projectType_section (p\<lparr>budget := x\<rparr>) = html_projectType_section p"
  "text_projectType_line (p\<lparr>budget := x\<rparr>) = text_projectType_line p"
  "html_phone_section (p\<lparr>projectType := x\<rparr>) = html_phone_section p"
  "text_phone_line (p\<lparr>projectType := x\<rparr>) = text_phone_line p"
  "html_company_section (p\<lparr>projectType := x\<rparr>) = html_company_section p"
  "text_company_line (p\<lparr>projectType := x\<rparr>) = text_company_line p"
  "html_budget_section (p\<lparr>projectType := x\<rparr>) = html_budget_section p"
  "text_budget_line (p\<lparr>projectType := x\<rparr>) = text_budget_line p"
  by (simp_all add: html_phone_section_def html_company_section_def html_budget_section_def html_projectType_section_def text_phone_line_def text_company_line_def text_budget_line_def text_projectType_line_def)

lemma section_absent:
  "\<not> truthy (phone p) \<Longrightarrow> html_phone_section p = Inr []"
  "\<not> truthy (phone p) \<Longrightarrow> text_phone_line p = Inr []"
  "\<not> truthy (company p) \<Longrightarrow> html_company_section p = Inr []"
  "\<not> truthy (company p) \<Longrightarrow> text_company_line p = Inr []"
  "\<not> truthy (budget p) \<Longrightarrow> html_budget_section p = Inr []"
  "\<not> truthy (budget p) \<Longrightarrow> text_budget_line p = Inr []"
  "\<not> truthy (projectType p) \<Longrightarrow> html_projectType_section p = Inr []"
  "\<not> truthy (projectType p) \<Longrightarrow> text_projectType_line p = Inr []"
  by (simp_all add: html_phone_section_def html_company_section_def html_budget_section_def html_projectType_section_def text_phone_line_def text_company_line_def text_budget_line_def text_projectType_line_def)

lemma section_present:
  "v \<noteq> [] \<Longrightarrow> html_phone_section (p\<lparr>phone := JStr v\<rparr>) = Inr (html_phone_open @ v @ html_phone_mid @ v @ html_phone_close)"
  "v \<noteq> [] \<Longrightarrow> text_phone_line (p\<lparr>phone := JStr v\<rparr>) = Inr (text_phone_label @ v)"
  "v \<noteq> [] \<Longrightarrow> html_company_section (p\<lparr>company := JStr v\<rparr>) = Inr (html_company_open @ v @ html_company_close)"
  "v \<noteq> [] \<Longrightarrow> text_company_line (p\<lparr>company := JStr v\<rparr>) = Inr (text_company_label @ v)"
  "v \<noteq> [] \<Longrightarrow> budget_priority (JStr v) = Inr marker \<Longrightarrow> html_budget_section (p\<lparr>budget := JStr v\<rparr>) = Inr (html_budget_open @ marker @ html_budget_mid @ v @ html_budget_close)"
  "v \<noteq> [] \<Longrightarrow> text_budget_line (p\<lparr>budget := JStr v\<rparr>) = Inr (text_budget_label @ v)"
  "v \<noteq> [] \<Longrightarrow> html_projectType_section (p\<lparr>projectType := JStr v\<rparr>) = Inr (html_projectType_open @ v @ html_projectType_close)"
  "v \<noteq> [] \<Longrightarrow> text_projectType_line (p\<lparr>projectType := JStr v\<rparr>) = Inr (text_projectType_label @ v)"
  by (simp_all add: html_phone_section_def html_company_section_def html_budget_section_def html_projectType_section_def text_phone_line_def text_company_line_def text_budget_line_def text_projectType_line_def)

lemma html_phone_omitted:
  assumes "htmlContent date p = Inr doc" and "\<not> truthy (phone p)" and "v \<noteq> []"
  shows "\<exists>doc'. htmlContent date (p\<lparr>phone := JStr v\<rparr>) = Inr doc' \<and>
           cut_out (html_phone_open @ v @ html_phone_mid @ v @ html_phone_close) doc' doc"
proof -
  let ?front = "[Inr html_head, Inr date, Inr html_before_name, ToString (name p), Inr html_before_email, ToString (email p), Inr html_email_mid, ToString (email p), Inr html_after_email]"
  let ?rear = "[Inr html_gap_phone_company, html_company_section p, Inr html_gap_company_budget, html_budget_section p, Inr html_gap_budget_projectType, html_projectType_section p, Inr html_before_message, ToString (message p), Inr html_tail]"
  have "template (?front @ Inr [] # ?rear) = Inr doc"
    using assms(1,2) by (simp add: htmlContent_def section_absent del: template.simps)
  from template_hole [OF this, of "html_phone_open @ v @ html_phone_mid @ v @ html_phone_close"]
  show ?thesis
    using assms by (simp add: htmlContent_def section_other_field section_present del: template.simps)
qed

lemma html_company_omitted:
  assumes "htmlContent date p = Inr doc" and "\<not> truthy (company p)" and "v \<noteq> []"
  shows "\<exists>doc'. htmlContent date (p\<lparr>company := JStr v\<rparr>) = Inr doc' \<and>
           cut_out (html_company_open @ v @ html_company_close) doc' doc"
proof -
  let ?front = "[Inr html_head, Inr date, Inr html_before_name, ToString (name p), Inr html_before_email, ToString (email p), Inr html_email_mid, ToString (email p), Inr html_after_email, html_phone_section p, Inr html_gap_phone_company]"
  let ?rear = "[Inr html_gap_company_budget, html_budget_section p, Inr html_gap_budget_projectType, html_projectType_section p, Inr html_before_message, ToString (message p), Inr html_tail]"
  have "template (?front @ Inr [] # ?rear) = Inr doc"
    using assms(1,2) by (simp add: htmlContent_def section_absent del: template.simps)
  from template_hole [OF this, of "html_company_open @ v @ html_company_close"]
  show ?thesis
    using assms by (simp add: htmlContent_def section_other_field section_present del: template.simps)
qed

lemma html_budget_omitted:
  assumes "htmlContent date p = Inr doc" and "\<not> truthy (budget p)" and "v \<noteq> []" and "budget_priority (JStr v) = Inr marker"
  shows "\<exists>doc'. htmlContent date (p\<lparr>budget := JStr v\<rparr>) = Inr doc' \<and>
           cut_out (html_budget_open @ marker @ html_budget_mid @ v @ html_budget_close) doc' doc"
proof -
  let ?front = "[Inr html_head, Inr date, Inr html_before_name, ToString (name p), Inr html_before_email, ToString (email p), Inr html_email_mid, ToString (email p), Inr html_after_email, html_phone_section p, Inr html_gap_phone_company, html_company_section p, Inr html_gap_company_budget]"
  let ?rear = "[Inr html_gap_budget_projectType, html_projectType_section p, Inr html_before_message, ToString (message p), Inr html_tail]"
  have "template (?front @ Inr [] # ?rear) = Inr doc"
    using assms(1,2) by (simp add: htmlContent_def section_absent del: template.simps)
  from template_hole [OF this, of "html_budget_open @ marker @ html_budget_mid @ v @ html_budget_close"]
  show ?thesis
    using assms by (simp add: htmlContent_def section_other_field section_present del: template.simps)
qed

lemma html_projectType_omitted:
  assumes "htmlContent date p = Inr doc" and "\<not> truthy (projectType p)" and "v \<noteq> []"
  shows "\<exists>doc'. htmlContent date (p\<lparr>projectType := JStr v\<rparr>) = Inr doc' \<and>
           cut_out (html_projectType_open @ v @ html_projectType_close) doc' doc"
proof -
  let ?front = "[Inr html_head, Inr date, Inr html_before_name, ToString (name p), Inr html_before_email, ToString (email p), Inr html_email_mid, ToString (email p), Inr html_after_email, html_phone_section p, Inr html_gap_phone_company, html_company_section p, Inr html_gap_company_budget, html_budget_section p, Inr html_gap_budget_projectType]"
  let ?rear = "[Inr html_before_message, ToString (message p), Inr html_tail]"
  have "template (?front @ Inr [] # ?rear) = Inr doc"
    using assms(1,2) by (simp add: htmlContent_def section_absent del: template.simps)
  from template_hole [OF this, of "html_projectType_open @ v @ html_projectType_close"]
  show ?thesis
    using assms by (simp add: htmlContent_def section_other_field section_present del: template.simps)
qed

lemma text_phone_omitted:
  assumes "textContent date p = Inr doc" and "\<not> truthy (phone p)" and "v \<noteq> []"
  shows "\<exists>doc'. textContent date (p\<lparr>phone := JStr v\<rparr>) = Inr doc' \<and>
           cut_out (text_phone_label @ v) doc' doc"
proof -
  let ?front = "[Inr text_head, Inr date, Inr text_before_name, ToString (name p), Inr text_before_email, ToString (email p), Inr text_after_email]"
  let ?rear = "[Inr text_gap_phone_company, text_company_line p, Inr text_gap_company_budget, text_budget_line p, Inr text_gap_budget_projectType, text_projectType_line p, Inr text_before_message, ToString (message p), Inr text_tail]"
  have "template (?front @ Inr [] # ?rear) = Inr doc"
    using assms(1,2) by (simp add: textContent_def section_absent del: template.simps)
  from template_hole [OF this, of "text_phone_label @ v"]
  show ?thesis
    using assms by (simp add: textContent_def section_other_field section_present del: template.simps)
qed

lemma text_company_omitted:
  assumes "textContent date p = Inr doc" and "\<not> truthy (company p)" and "v \<noteq> []"
  shows "\<exists>doc'. textContent date (p\<lparr>company := JStr v\<rparr>) = Inr doc' \<and>
           cut_out (text_company_label @ v) doc' doc"
proof -
  let ?front = "[Inr text_head, Inr date, Inr text_before_name, ToString (name p), Inr text_before_email, ToString (email p), Inr text_after_email, text_phone_line p, Inr text_gap_phone_company]"
  let ?rear = "[Inr text_gap_company_budget, text_budget_line p, Inr text_gap_budget_projectType, text_projectType_line p, Inr text_before_message, ToString (message p), Inr text_tail]"
  have "template (?front @ Inr [] # ?rear) = Inr doc"
    using assms(1,2) by (simp add: textContent_def section_absent del: template.simps)
  from template_hole [OF this, of "text_company_label @ v"]
  show ?thesis
    using assms by (simp add: textContent_def section_other_field section_present del: template.simps)
qed

lemma text_budget_omitted:
  assumes "textContent date p = Inr doc" and "\<not> truthy (budget p)" and "v \<noteq> []"
  shows "\<exists>doc'. textContent date (p\<lparr>budget := JStr v\<rparr>) = Inr doc' \<and>
           cut_out (text_budget_label @ v) doc' doc"
proof -
  let ?front = "[Inr text_head, Inr date, Inr text_before_name, ToString (name p), Inr text_before_email, ToString (email p), Inr text_after_email, text_phone_line p, Inr text_gap_phone_company, text_company_line p, Inr text_gap_company_budget]"
  let ?rear = "[Inr text_gap_budget_projectType, text_projectType_line p, Inr text_before_message, ToString (message p), Inr text_tail]"
  have "template (?front @ Inr [] # ?rear) = Inr doc"
    using assms(1,2) by (simp add: textContent_def section_absent del: template.simps)
  from template_hole [OF this, of "text_budget_label @ v"]
  show ?thesis
    using assms by (simp add: textContent_def section_other_field section_present del: template.simps)
qed

lemma text_projectType_omitted:
  assumes "textContent date p = Inr doc" and "\<not> truthy (projectType p)" and "v \<noteq> []"
  shows "\<exists>doc'. textContent date (p\<lparr>projectType := JStr v\<rparr>) = Inr doc' \<and>
           cut_out (text_projectType_label @ v) doc' doc"
proof -
  let ?front = "[Inr text_head, Inr date, Inr text_before_name, ToString (name p), Inr text_before_email, ToString (email p), Inr text_after_email, text_phone_line p, Inr text_gap_phone_company, text_company_line p, Inr text_gap_company_budget, text_budget_line p, Inr text_gap_budget_projectType]"
  let ?rear = "[Inr text_before_message, ToString (message p), Inr text_tail]"
  have "template (?front @ Inr [] # ?rear) = Inr doc"
    using assms(1,2) by (simp add: textContent_def section_absent del: template.simps)
  from template_hole [OF this, of "text_projectType_label @ v"]
  show ?thesis
    using assms by (simp add: textContent_def section_other_field section_present del: template.simps)
qed


subsection \<open>Field and form validation\<close>

lemma isValidEmail_emailRegex: "isValidEmail s = regex_test emailRegex s"
  by (simp add: isValidEmail_def emailRegex_def)

lemma validateField_verdict:
  "fst (validateField lang f fb) \<longleftrightarrow>
     \<not> (field_required f \<and> trim (field_value f) = []) \<and>
     \<not> (field_type f = js ''email'' \<and> trim (field_value f) \<noteq> [] \<and>
        \<not> isValidEmail (trim (field_value f)))"
  by (simp add: validateField_def Let_def)

lemma validateField_field:
  "fst (snd (validateField lang f fb)) = fst (snd (validateField lang' f fb'))"
  by (simp add: validateField_def Let_def showFieldError_def)

lemma validateField_independent:
  "fst (validateField lang f fb) = fst (validateField lang' f fb')"
  by (simp add: validateField_verdict)

lemma classList_add_member: "x \<in> set (classList_add c cs) \<longleftrightarrow> x = c \<or> x \<in> set cs"
  by (auto simp add: classList_add_def)

lemma classList_remove_member: "x \<in> set (classList_remove c cs) \<longleftrightarrow> x \<noteq> c \<and> x \<in> set cs"
  by (auto simp add: classList_remove_def)

lemma validateField_classes:
  "js ''is-valid'' \<in> set (field_classList (fst (snd (validateField lang f fb)))) \<longleftrightarrow>
     fst (validateField lang f fb)"
  "js ''is-invalid'' \<in> set (field_classList (fst (snd (validateField lang f fb)))) \<longleftrightarrow>
     \<not> fst (validateField lang f fb)"
  by (simp_all add: validateField_def Let_def showFieldError_def classList_add_member
      classList_remove_member js_eq_iff)

lemma validate_each_result:
  "fst (validate_each lang fs fb ok) =
     (ok \<and> (\<forall>f \<in> set fs. field_required f \<longrightarrow> fst (validateField lang f fb0)))"
  "fst (snd (validate_each lang fs fb ok)) =
     map (\<lambda>f. if field_required f then fst (snd (validateField lang f fb0)) else f) fs"
proof (induction fs arbitrary: fb ok)
  case Nil
  { case 1 show ?case by simp }
  { case 2 show ?case by simp }
next
  case (Cons f fs)
  { case 1
    show ?case
      using Cons(1) validateField_independent [of lang f fb lang fb0]
      by (auto simp add: split_beta) }
  { case 2
    show ?case
      using Cons(2) validateField_field [of lang f fb lang fb0]
      by (simp add: split_beta) }
qed


lemma trim_examples:
  "trim (js ''  '') = []" "trim (js ''jane@x.com'') = js ''jane@x.com''"
  "trim (js ''Jane'') = js ''Jane''" "trim (js ''Hi'') = js ''Hi''" "trim (js ''on'') = js ''on''"
  "trim nbsp_email = js ''jane@x.com''"
  by (simp_all add: trim_def js_def is_js_space_def nbsp_email_def)

lemma isValidEmail_jane: "isValidEmail (js ''jane@x.com'')"
  using regex_jane by (simp add: isValidEmail_emailRegex)


lemma response_distinct:
  "missing_fields_response \<noteq> invalid_email_response"
  "honeypot_response \<noteq> invalid_email_response"
  "success_response i \<noteq> invalid_email_response"
  "failure_response ev e \<noteq> invalid_email_response"
  by (simp_all add: missing_fields_response_def honeypot_response_def invalid_email_response_def
      success_response_def failure_response_def json_response_def js_eq_iff)

lemma well_formed_email_passes_check:
  assumes "req_method req = js ''POST''"
    and "read_prop (req_body req) (js ''email'') = JStr e"
    and "regex_test emailRegex e"
  shows "fst (handler ev send req) \<noteq> invalid_email_response"
proof -
  obtain kvs where body: "req_body req = JObj kvs"
    using assms(2) by (cases "req_body req") simp_all
  let ?p = "projr (destructure (req_body req))"
  have "try_block ev send req = (Inr missing_fields_response, []) \<or>
        try_block ev send req = (Inr honeypot_response, []) \<or>
        try_block ev send req = dispatch ev send ?p"
    using assms(2,3) unfolding body try_block_def destructure_object by simp
  moreover have "(\<exists>err calls. dispatch ev send ?p = (Inl err, calls)) \<or>
      (\<exists>i calls. dispatch ev send ?p = (Inr (success_response i), calls))"
    by (rule dispatch_cases)
  ultimately show ?thesis
    using assms(1) by (auto simp add: handler_post response_distinct)
qed

lemma nbsp_rejected_by_regex: "\<not> regex_test emailRegex nbsp_email"
  by (simp add: emailRegex_def OneOrMore_def js_def nbsp_email_def not_space_or_at_def
      is_js_space_def is_at_def is_dot_def)


subsection \<open>Language switching\<close>

lemma js_append: "js (a @ b) = js a @ js b"
  by (simp add: js_def)

lemma dollar_collection: "length ms \<noteq> 1 \<Longrightarrow> dollar ms = Collection ms"
  by (cases ms rule: list.exhaust [case_product list.exhaust])
     (auto simp add: dollar_def split: list.splits)

lemma dollar_single: "dollar [e] = Single e"
  by (simp add: dollar_def)

lemma map_of_set_entry: "map_of (set_entry k v kvs) k' = (if k' = k then Some v else map_of kvs k')"
  by (induction kvs) auto

text \<open>The elements of a subtree, and its outline.\<close>

lemma elements_of_Element: "e \<in> set (elements_of n) \<Longrightarrow> \<exists>p cs. e = Element p cs"
  by (induction n) auto

lemma elements_of_child:
  "c \<in> set cs \<Longrightarrow> e \<in> set (elements_of c) \<Longrightarrow> e \<in> set (elements_of (Element p cs))"
  by auto

lemma is_text_elements: "is_text c \<longleftrightarrow> elements_of c = []"
  by (cases c) simp_all

lemma leaf_Element: "leaf (Element p cs) \<longleftrightarrow> concat (map elements_of cs) = []"
  by (simp add: list_all_iff is_text_elements)

lemma outline_Text: "outline h (Text s) = []"
  by (simp add: outline_def)

lemma outline_empty: "outline h n = [] \<longleftrightarrow> elements_of n = []"
  by (simp add: outline_def)

lemma outlines_empty:
  "concat (map (outline h) cs) = [] \<longleftrightarrow> concat (map elements_of cs) = []"
  by (simp add: outline_empty)

lemma outlines_concat:
  "concat (map (outline h) cs) =
     map (\<lambda>e. (h (props_of e), leaf e)) (concat (map elements_of cs))"
  by (induction cs) (simp_all add: outline_def)

lemma outline_Element:
  "outline h (Element p cs) =
     (h p, concat (map (outline h) cs) = []) # concat (map (outline h) cs)"
proof -
  have l: "leaf (Element p cs) = (concat (map (outline h) cs) = [])"
    by (simp only: leaf_Element outlines_empty)
  have c: "map (\<lambda>e. (h (props_of e), leaf e)) (concat (map elements_of cs)) =
      concat (map (outline h) cs)"
    by (simp only: outlines_concat)
  have "outline h (Element p cs) =
      (h p, leaf (Element p cs)) #
        map (\<lambda>e. (h (props_of e), leaf e)) (concat (map elements_of cs))"
    by (simp add: outline_def del: leaf.simps)
  then show ?thesis by (simp only: l c)
qed

lemma outlines_cong:
  "(\<And>c. c \<in> set cs \<Longrightarrow> outline h (f c) = outline k c) \<Longrightarrow>
   concat (map (outline h) (map f cs)) = concat (map (outline k) cs)"
  by (induction cs) simp_all

lemma outline_leaf:
  "leaf (Element p cs) \<Longrightarrow> outline h (Element p cs) = [(h p, True)]"
proof -
  assume "leaf (Element p cs)"
  then have e: "concat (map (outline h) cs) = []"
    by (simp only: leaf_Element outlines_empty)
  show ?thesis by (simp only: outline_Element e) simp
qed

lemma outline_set_textContent:
  "leaf (Element p cs) \<Longrightarrow> outline h (set_textContent v (Element p cs)) = outline h (Element p cs)"
proof -
  assume l: "leaf (Element p cs)"
  have "leaf (Element p (if v = [] then [] else [Text v]))" by simp
  then have "outline h (Element p (if v = [] then [] else [Text v])) = [(h p, True)]"
    by (rule outline_leaf)
  moreover have "outline h (Element p cs) = [(h p, True)]"
    using l by (rule outline_leaf)
  ultimately show ?thesis by (simp only: set_textContent.simps)
qed

lemma outline_setAttribute:
  "h (set_attribute k v p) = h p \<Longrightarrow>
   outline h (setAttribute k v (Element p cs)) = outline h (Element p cs)"
  by (simp add: outline_Element)

lemma outline_translate_node:
  assumes "\<And>e. e \<in> set (elements_of n) \<Longrightarrow> getAttribute e A \<noteq> None \<Longrightarrow> leaf e"
    and "\<And>p v. h (p\<lparr>el_placeholder := v\<rparr>) = h p"
  shows "outline h (translate_node A n) = outline h n"
  using assms(1)
proof (induction n)
  case (Text s)
  show ?case by simp
next
  case (Element p cs)
  have kids: "concat (map (outline h) (map (translate_node A) cs)) = concat (map (outline h) cs)"
  proof (rule outlines_cong)
    fix c assume c: "c \<in> set cs"
    show "outline h (translate_node A c) = outline h c"
    proof (rule Element.IH [OF c])
      fix e assume "e \<in> set (elements_of c)" "getAttribute e A \<noteq> None"
      then show "leaf e"
        using Element.prems [of e] c by auto
    qed
  qed
  show ?case
  proof (cases "map_of (el_attributes p) A")
    case None
    then show ?thesis
      using kids by (simp add: outline_Element)
  next
    case (Some t)
    then have leaf: "leaf (Element p cs)"
      using Element.prems [of "Element p cs"] by (simp add: getAttribute_def)
    show ?thesis
    proof (cases "t \<noteq> [] \<and> \<not> is_form_text (Element p cs)")
      case True
      then have tr: "translate_node A (Element p cs) = set_textContent t (Element p cs)"
        using Some by simp
      show ?thesis
        by (simp only: tr outline_set_textContent [OF leaf])
    next
      case False
      then show ?thesis
        using Some kids assms(2) by (auto simp add: outline_Element)
    qed
  qed
qed

lemma outline_update_first:
  "(\<And>e. e \<in> set (elements_of n) \<Longrightarrow> P e \<Longrightarrow> outline h (f e) = outline h e) \<Longrightarrow>
   outline h (update_first P f n) = outline h n"
  "(\<And>e c. c \<in> set cs \<Longrightarrow> e \<in> set (elements_of c) \<Longrightarrow> P e \<Longrightarrow> outline h (f e) = outline h e) \<Longrightarrow>
   concat (map (outline h) (update_first_in P f cs)) = concat (map (outline h) cs)"
proof (induction P f n and P f cs rule: update_first_update_first_in.induct)
  case (1 P f s)
  show ?case by simp
next
  case (2 P f p cs)
  show ?case
  proof (cases "P (Element p cs)")
    case True
    then show ?thesis using "2.prems" [of "Element p cs"] by simp
  next
    case False
    have "concat (map (outline h) (update_first_in P f cs)) = concat (map (outline h) cs)"
    proof (rule "2.IH" [OF False])
      fix e c assume "c \<in> set cs" "e \<in> set (elements_of c)" "P e"
      then show "outline h (f e) = outline h e"
        using "2.prems" [of e] by auto
    qed
    then show ?thesis using False by (simp add: outline_Element)
  qed
next
  case (3 P f)
  show ?case by simp
next
  case (4 P f c cs)
  show ?case
  proof (cases "list_ex P (elements_of c)")
    case True
    have "outline h (update_first P f c) = outline h c"
    proof (rule "4.IH"(1) [OF True])
      fix e assume "e \<in> set (elements_of c)" "P e"
      then show "outline h (f e) = outline h e"
        using "4.prems" [of c e] by simp
    qed
    then show ?thesis using True by simp
  next
    case False
    have "concat (map (outline h) (update_first_in P f cs)) = concat (map (outline h) cs)"
    proof (rule "4.IH"(2) [OF False])
      fix e c' assume "c' \<in> set cs" "e \<in> set (elements_of c')" "P e"
      then show "outline h (f e) = outline h e"
        using "4.prems" [of c' e] by simp
    qed
    then show ?thesis using False by simp
  qed
qed

lemma outline_map_node:
  assumes "\<And>p. h (g p) = h p"
  shows "outline h (map_node g n) = outline h n"
proof (induction n)
  case (Text s)
  show ?case by simp
next
  case (Element p cs)
  have "concat (map (outline h) (map (map_node g) cs)) = concat (map (outline h) cs)"
    by (rule outlines_cong) (rule Element.IH)
  then show ?case using assms by (simp add: outline_Element)
qed

text \<open>What the elements show after each step.\<close>

lemma is_form_text_Element:
  "is_form_text (Element p cs) \<longleftrightarrow> el_tagName p = js ''INPUT'' \<or> el_tagName p = js ''TEXTAREA''"
  by (simp add: is_form_text_def tagName_def)

lemma shows_text_Text: "shows_text A (Text s)"
  by (simp add: shows_text_def)

lemma shows_text_Element:
  "shows_text A (Element p cs) \<longleftrightarrow>
     (\<forall>t. map_of (el_attributes p) A = Some t \<and> t \<noteq> [] \<longrightarrow>
        (if is_form_text (Element p cs) then el_placeholder p = t else cs = [Text t])) \<and>
     (\<forall>c\<in>set cs. shows_text A c)"
  unfolding shows_text_def is_form_text_Element by auto

lemma elements_of_trans:
  "e \<in> set (elements_of n) \<Longrightarrow> x \<in> set (elements_of e) \<Longrightarrow> x \<in> set (elements_of n)"
  by (induction n) auto

lemma shows_text_member:
  "shows_text A n \<Longrightarrow> e \<in> set (elements_of n) \<Longrightarrow> shows_text A e"
  unfolding shows_text_def by (blast intro: elements_of_trans)

lemma shows_text_translate_node: "shows_text A (translate_node A n)"
proof (induction n)
  case (Text s)
  show ?case by (simp add: shows_text_Text)
next
  case (Element p cs)
  have kids: "\<forall>c\<in>set (map (translate_node A) cs). shows_text A c"
    using Element.IH by simp
  show ?case
  proof (cases "map_of (el_attributes p) A")
    case None
    then show ?thesis using kids by (simp add: shows_text_Element)
  next
    case (Some t)
    show ?thesis
    proof (cases "t \<noteq> [] \<and> \<not> is_form_text (Element p cs)")
      case True
      then show ?thesis
        using Some by (simp add: shows_text_Element shows_text_Text is_form_text_Element)
    next
      case False
      then show ?thesis
        using Some kids by (auto simp add: shows_text_Element is_form_text_Element)
    qed
  qed
qed

lemma find_append_cases:
  "find P (xs @ ys) = (case find P xs of Some x \<Rightarrow> Some x | None \<Rightarrow> find P ys)"
  by (induction xs) simp_all

lemma find_None_list_ex: "find P xs = None \<longleftrightarrow> \<not> list_ex P xs"
  by (auto simp add: find_None_iff list_ex_iff)

lemma find_conj:
  "find P xs = Some e \<Longrightarrow> Q e \<Longrightarrow> find (\<lambda>x. P x \<and> Q x) xs = Some e"
  by (induction xs) (auto split: if_splits)

lemma update_first_in_texts:
  "concat (map elements_of cs) = [] \<Longrightarrow> update_first_in P f cs = cs"
  by (induction cs) simp_all

lemma shows_text_update_first:
  "shows_text A n \<Longrightarrow> (\<And>e. find P (elements_of n) = Some e \<Longrightarrow> shows_text A (f e)) \<Longrightarrow>
   shows_text A (update_first P f n)"
  "\<forall>c\<in>set cs. shows_text A c \<Longrightarrow>
   (\<And>e. find P (concat (map elements_of cs)) = Some e \<Longrightarrow> shows_text A (f e)) \<Longrightarrow>
   \<forall>c\<in>set (update_first_in P f cs). shows_text A c"
proof (induction P f n and P f cs rule: update_first_update_first_in.induct)
  case (1 P f s)
  show ?case by (simp add: shows_text_Text)
next
  case (2 P f p cs)
  show ?case
  proof (cases "P (Element p cs)")
    case True
    then show ?thesis using "2.prems"(2) [of "Element p cs"] by simp
  next
    case False
    have kids: "\<forall>c\<in>set (update_first_in P f cs). shows_text A c"
    proof (rule "2.IH" [OF False])
      show "\<forall>c\<in>set cs. shows_text A c"
        using "2.prems"(1) by (simp add: shows_text_Element)
    next
      fix e assume "find P (concat (map elements_of cs)) = Some e"
      then show "shows_text A (f e)"
        using "2.prems"(2) [of e] False by simp
    qed
    have own: "update_first_in P f cs = [Text t]"
      if "map_of (el_attributes p) A = Some t" "t \<noteq> []" "\<not> is_form_text (Element p cs)" for t
    proof -
      have "cs = [Text t]"
        using "2.prems"(1) that by (simp add: shows_text_Element)
      then show ?thesis by simp
    qed
    have "shows_text A (Element p (update_first_in P f cs))"
      unfolding shows_text_Element [of A p "update_first_in P f cs"]
      using kids own "2.prems"(1)
      by (auto simp add: shows_text_Element is_form_text_Element)
    then show ?thesis using False by simp
  qed
next
  case (3 P f)
  show ?case by simp
next
  case (4 P f c cs)
  show ?case
  proof (cases "list_ex P (elements_of c)")
    case True
    have "shows_text A (update_first P f c)"
    proof (rule "4.IH"(1) [OF True])
      show "shows_text A c" using "4.prems"(1) by simp
    next
      fix e assume "find P (elements_of c) = Some e"
      then show "shows_text A (f e)"
        using "4.prems"(2) [of e] by (simp add: find_append_cases)
    qed
    then show ?thesis using True "4.prems"(1) by simp
  next
    case False
    then have none: "find P (elements_of c) = None"
      by (simp add: find_None_list_ex)
    have "\<forall>c\<in>set (update_first_in P f cs). shows_text A c"
    proof (rule "4.IH"(2) [OF False])
      show "\<forall>c\<in>set cs. shows_text A c" using "4.prems"(1) by simp
    next
      fix e assume "find P (concat (map elements_of cs)) = Some e"
      then show "shows_text A (f e)"
        using "4.prems"(2) [of e] none by (simp add: find_append_cases)
    qed
    then show ?thesis using False "4.prems"(1) by simp
  qed
qed

lemma elements_of_map_node: "elements_of (map_node g n) = map (map_node g) (elements_of n)"
proof (induction n)
  case (Text s)
  show ?case by simp
next
  case (Element p cs)
  have "concat (map elements_of (map (map_node g) cs)) =
      map (map_node g) (concat (map elements_of cs))"
    using Element.IH by (induction cs) simp_all
  then show ?case by simp
qed

text \<open>
  The steps of \<^verbatim>\<open>switchLanguage\<close> keep the outline of a document in which the elements
  that carry the translation, and the titles, are leaves.
\<close>

lemma translation_leaves_outline:
  "translation_leaves A n \<longleftrightarrow>
     (\<forall>x\<in>set (outline (\<lambda>p. (map_of (el_attributes p) A, el_tagName p)) n).
        fst (fst x) \<noteq> None \<or> snd (fst x) = js ''TITLE'' \<longrightarrow> snd x)"
  by (auto simp add: translation_leaves_def outline_def getAttribute_def tagName_def)

lemma translation_leaves_cong:
  "outline (\<lambda>p. (map_of (el_attributes p) A, el_tagName p)) m =
     outline (\<lambda>p. (map_of (el_attributes p) A, el_tagName p)) n \<Longrightarrow>
   translation_leaves A n \<Longrightarrow> translation_leaves A m"
  by (simp only: translation_leaves_outline)

lemma count_outline:
  "length (filter (\<lambda>e. Q (h (props_of e))) (elements_of n)) =
     length (filter (\<lambda>x. Q (fst x)) (outline h n))"
  by (simp add: outline_def filter_map comp_def)

lemma outline_translate_all:
  assumes leaves: "translation_leaves A n"
    and ph: "\<And>p v. h (p\<lparr>el_placeholder := v\<rparr>) = h p"
    and ct: "\<And>p v. h (set_attribute (js ''content'') v p) = h p"
  shows "outline h (translate_all A n) = outline h n"
proof -
  let ?k = "\<lambda>p. (map_of (el_attributes p) A, el_tagName p)"
  let ?n1 = "translate_node A n"
  have carriers: "leaf e" if "e \<in> set (elements_of n)" "getAttribute e A \<noteq> None" for e
    using leaves that by (simp add: translation_leaves_def)
  have o1: "outline h ?n1 = outline h n"
    by (rule outline_translate_node) (simp_all add: carriers ph)
  have "outline ?k ?n1 = outline ?k n"
    by (rule outline_translate_node) (simp_all add: carriers)
  then have l1: "translation_leaves A ?n1"
    using leaves by (rule translation_leaves_cong)
  have o2: "outline h (set_document_title v ?n1) = outline h ?n1" for v
    unfolding set_document_title_def
  proof (rule outline_update_first(1))
    fix e assume e: "e \<in> set (elements_of ?n1)" "tagName e = js ''TITLE''"
    then have "leaf e" using l1 by (simp add: translation_leaves_def)
    moreover obtain p cs where "e = Element p cs"
      using elements_of_Element [OF e(1)] by blast
    ultimately show "outline h (set_textContent v e) = outline h e"
      by (simp only: outline_set_textContent)
  qed
  define n2 where "n2 =
     (case find (\<lambda>e. tagName e = js ''TITLE'' \<and> getAttribute e A \<noteq> None) (elements_of ?n1) of
        None \<Rightarrow> ?n1
      | Some t \<Rightarrow> set_document_title (case getAttribute t A of Some v \<Rightarrow> v | None \<Rightarrow> []) ?n1)"
  have o12: "outline h n2 = outline h n"
    using o1 o2 by (simp add: n2_def split: option.split)
  have o3: "outline h (set_meta_description A n2) = outline h n2"
    unfolding set_meta_description_def
  proof (rule outline_update_first(1))
    fix e assume e: "e \<in> set (elements_of n2)"
    obtain p cs where "e = Element p cs"
      using elements_of_Element [OF e] by blast
    then show "outline h (setAttribute (js ''content'')
        (case getAttribute e A of Some v \<Rightarrow> v | None \<Rightarrow> []) e) = outline h e"
      using ct by (simp only: outline_setAttribute)
  qed
  have "translate_all A n = set_meta_description A n2"
    by (simp only: translate_all_def n2_def Let_def)
  then show ?thesis using o3 o12 by simp
qed

lemma data_attr_not_content: "js ''data-'' @ l \<noteq> js ''content''"
  by (simp add: js_def)

lemma placeholder_attr_not_content: "js ''data-placeholder-'' @ l \<noteq> js ''content''"
  by (simp add: js_def)

lemma title_not_form_text:
  "tagName e = js ''TITLE'' \<Longrightarrow> \<not> is_form_text e"
  by (simp add: is_form_text_def js_eq_iff)

lemma shows_text_translate_all:
  assumes "A \<noteq> js ''content''"
  shows "shows_text A (translate_all A n)"
proof -
  let ?n1 = "translate_node A n"
  let ?T = "\<lambda>e. tagName e = js ''TITLE''"
  have s1: "shows_text A ?n1" by (rule shows_text_translate_node)
  define n2 where "n2 =
     (case find (\<lambda>e. tagName e = js ''TITLE'' \<and> getAttribute e A \<noteq> None) (elements_of ?n1) of
        None \<Rightarrow> ?n1
      | Some t \<Rightarrow> set_document_title (case getAttribute t A of Some v \<Rightarrow> v | None \<Rightarrow> []) ?n1)"
  have s2: "shows_text A n2"
  proof (cases "find (\<lambda>e. ?T e \<and> getAttribute e A \<noteq> None) (elements_of ?n1)")
    case None
    then show ?thesis using s1 by (simp add: n2_def)
  next
    case (Some tt)
    let ?v = "case getAttribute tt A of Some v \<Rightarrow> v | None \<Rightarrow> []"
    have "shows_text A (update_first ?T (set_textContent ?v) ?n1)"
      using s1
    proof (rule shows_text_update_first(1))
      fix e assume f: "find ?T (elements_of ?n1) = Some e"
      then have e: "e \<in> set (elements_of ?n1)" "?T e"
        by (auto simp add: find_Some_iff)
      obtain p cs where pcs: "e = Element p cs"
        using elements_of_Element [OF e(1)] by blast
      have nf: "\<not> is_form_text (Element p cs)"
        using e(2) pcs by (simp add: title_not_form_text)
      have "?v = t" if "map_of (el_attributes p) A = Some t" for t
      proof -
        have "getAttribute e A \<noteq> None" using that pcs by (simp add: getAttribute_def)
        with f have "find (\<lambda>e. ?T e \<and> getAttribute e A \<noteq> None) (elements_of ?n1) = Some e"
          by (rule find_conj)
        with Some have "tt = e" by simp
        then show ?thesis using that pcs by (simp add: getAttribute_def)
      qed
      then show "shows_text A (set_textContent ?v e)"
        using nf unfolding pcs set_textContent.simps shows_text_Element is_form_text_Element
        by (auto simp add: shows_text_Text)
    qed
    then show ?thesis using Some by (simp add: n2_def set_document_title_def)
  qed
  have "shows_text A (set_meta_description A n2)"
    unfolding set_meta_description_def
    using s2
  proof (rule shows_text_update_first(1))
    fix e assume "find (is_meta_description A) (elements_of n2) = Some e"
    then have e: "e \<in> set (elements_of n2)"
      by (auto simp add: find_Some_iff)
    obtain p cs where pcs: "e = Element p cs"
      using elements_of_Element [OF e] by blast
    have "shows_text A (Element p cs)"
      using s2 e pcs by (auto dest: shows_text_member)
    then have "shows_text A (Element (set_attribute (js ''content'') v p) cs)" for v
      using assms
      by (simp add: shows_text_Element is_form_text_Element set_attribute_def map_of_set_entry)
    then show "shows_text A (setAttribute (js ''content'')
        (case getAttribute e A of Some v \<Rightarrow> v | None \<Rightarrow> []) e)"
      by (simp add: pcs)
  qed
  moreover have "translate_all A n = set_meta_description A n2"
    by (simp only: translate_all_def n2_def Let_def)
  ultimately show ?thesis by simp
qed

lemma elements_of_map_node_Element:
  assumes "Element p' cs' \<in> set (elements_of (map_node g n))"
  obtains p cs where "Element p cs \<in> set (elements_of n)" "p' = g p" "cs' = map (map_node g) cs"
proof -
  from assms obtain e where e: "e \<in> set (elements_of n)" "map_node g e = Element p' cs'"
    by (auto simp add: elements_of_map_node)
  obtain p cs where "e = Element p cs"
    using elements_of_Element [OF e(1)] by blast
  with e that show ?thesis by auto
qed

lemma update_toggle_keeps:
  "el_attributes (update_toggle cur p) = el_attributes p"
  "el_tagName (update_toggle cur p) = el_tagName p"
  "el_placeholder (update_toggle cur p) = el_placeholder p"
  by (simp_all add: update_toggle_def)

lemma update_placeholder_keeps:
  "el_attributes (update_placeholder PA p) = el_attributes p"
  "el_tagName (update_placeholder PA p) = el_tagName p"
  "el_classList (update_placeholder PA p) = el_classList p"
  by (simp_all add: update_placeholder_def split: option.split)

lemma shows_text_toggles:
  assumes "shows_text A n"
  shows "shows_text A (map_node (update_toggle cur) n)"
  unfolding shows_text_def
proof (intro allI impI, elim conjE)
  fix p' cs' t
  assume m: "Element p' cs' \<in> set (elements_of (map_node (update_toggle cur) n))"
    and t: "map_of (el_attributes p') A = Some t" "t \<noteq> []"
  from m obtain p cs where pcs: "Element p cs \<in> set (elements_of n)"
    "p' = update_toggle cur p" "cs' = map (map_node (update_toggle cur)) cs"
    by (rule elements_of_map_node_Element)
  have "if is_form_text (Element p cs) then el_placeholder p = t else cs = [Text t]"
    using assms pcs(1) t unfolding shows_text_def pcs(2) update_toggle_keeps by blast
  then show "if is_form_text (Element p' cs') then el_placeholder p' = t else cs' = [Text t]"
    unfolding is_form_text_Element pcs(2,3) update_toggle_keeps
    by (auto split: if_splits)
qed

lemma shows_translation:
  assumes "shows_text A n"
    and "Element p' cs' \<in> set (elements_of (map_node (update_placeholder PA) n))"
    and "map_of (el_attributes p') A = Some t" "t \<noteq> []"
  shows "if is_form_text (Element p' cs')
         then el_placeholder p' =
                (case map_of (el_attributes p') PA of
                   Some q \<Rightarrow> if q \<noteq> [] then q else t
                 | None \<Rightarrow> t)
         else cs' = [Text t]"
proof -
  from assms(2) obtain p cs where pcs: "Element p cs \<in> set (elements_of n)"
    "p' = update_placeholder PA p" "cs' = map (map_node (update_placeholder PA)) cs"
    by (rule elements_of_map_node_Element)
  have "if is_form_text (Element p cs) then el_placeholder p = t else cs = [Text t]"
    using assms(1,3,4) pcs(1) unfolding shows_text_def pcs(2) update_placeholder_keeps by blast
  then show ?thesis
    unfolding is_form_text_Element pcs(2,3) update_placeholder_keeps
    by (auto simp add: update_placeholder_def split: if_splits option.splits)
qed

text \<open>The steps leave an element where there was one.\<close>

lemma is_text_steps:
  "is_text (setAttribute k v n) = is_text n"
  "is_text (set_textContent v n) = is_text n"
  "is_text (translate_node A n) = is_text n"
  "is_text (map_node g n) = is_text n"
  by (cases n; simp split: option.split)+

lemma is_text_update_first:
  "(\<And>e. is_text (f e) = is_text e) \<Longrightarrow> is_text (update_first P f n) = is_text n"
  by (cases n) simp_all

lemma is_text_translate_all: "is_text (translate_all A n) = is_text n"
  by (simp add: translate_all_def Let_def set_meta_description_def set_document_title_def
      is_text_update_first is_text_steps split: option.split)

lemma is_text_switched: "is_text (switched lang n) = is_text n"
  by (simp add: switched_def is_text_translate_all is_text_steps)

lemma documentElement_with:
  "\<not> is_text n \<Longrightarrow> documentElement (with_documentElement n pg) = n"
  by (cases n) (simp_all add: documentElement_def)

lemma with_documentElement_fields:
  "currentLang (with_documentElement n pg) = currentLang pg"
  "localStorage (with_documentElement n pg) = localStorage pg"
  "url_lang (with_documentElement n pg) = url_lang pg"
  by (cases n; simp)+

lemma with_documentElement_twice:
  "\<not> is_text n \<Longrightarrow> with_documentElement n (with_documentElement m pg) = with_documentElement n pg"
  by (cases n; cases m) simp_all

lemma is_text_documentElement: "\<not> is_text (documentElement pg)"
  by (simp add: documentElement_def)

text \<open>Attribute names.\<close>

lemma data_attr_not_lang: "js ''data-'' @ l \<noteq> js ''lang''"
  by (simp add: js_def)

lemma data_attr_data_lang: "js ''data-'' @ l = js ''data-lang'' \<longleftrightarrow> l = js ''lang''"
proof -
  have "js ''data-lang'' = js ''data-'' @ js ''lang''"
    by (simp add: js_append [symmetric])
  then show ?thesis by simp
qed

lemma placeholder_attr_not_lang:
  "js ''data-placeholder-'' @ l \<noteq> js ''lang''" "js ''data-placeholder-'' @ l \<noteq> js ''data-lang''"
  by (simp_all add: js_def)

lemma outline_root_attribute:
  "(\<And>p. h (set_attribute k v p) = h p) \<Longrightarrow> outline h (setAttribute k v n) = outline h n"
  by (cases n) (simp_all add: outline_Element)

lemma update_toggle_class:
  "js ''lang-toggle'' \<in> set (el_classList (update_toggle cur p)) \<longleftrightarrow>
     js ''lang-toggle'' \<in> set (el_classList p)"
  by (simp add: update_toggle_def classList_add_member classList_remove_member js_eq_iff)

lemma outline_steps:
  assumes leaves: "translation_leaves A r"
    and ph: "\<And>p v. h (p\<lparr>el_placeholder := v\<rparr>) = h p"
    and ct: "\<And>p v. h (set_attribute (js ''content'') v p) = h p"
    and tg: "\<And>p. h (update_toggle cur p) = h p"
  shows "outline h (map_node (update_placeholder PA) (map_node (update_toggle cur) (translate_all A r))) =
     outline h r"
proof -
  have "h (update_placeholder PA p) = h p" for p
    using ph by (simp add: update_placeholder_def split: option.split)
  then have "outline h (map_node (update_placeholder PA) (map_node (update_toggle cur) (translate_all A r))) =
      outline h (map_node (update_toggle cur) (translate_all A r))"
    by (rule outline_map_node)
  also have "\<dots> = outline h (translate_all A r)"
    using tg by (rule outline_map_node)
  also have "\<dots> = outline h r"
    using leaves ph ct by (rule outline_translate_all)
  finally show ?thesis .
qed

lemma outline_toggles_translated:
  assumes leaves: "translation_leaves A r"
    and ph: "\<And>p v. h (p\<lparr>el_placeholder := v\<rparr>) = h p"
    and ct: "\<And>p v. h (set_attribute (js ''content'') v p) = h p"
    and tg: "\<And>p. h (update_toggle cur p) = h p"
  shows "outline h (map_node (update_toggle cur) (translate_all A r)) = outline h r"
proof -
  have "outline h (map_node (update_toggle cur) (translate_all A r)) = outline h (translate_all A r)"
    using tg by (rule outline_map_node)
  also have "\<dots> = outline h r"
    using leaves ph ct by (rule outline_translate_all)
  finally show ?thesis .
qed

text \<open>
  What the selectors and the conclusion look at in an element: its tag name, the two
  attributes of the language, and whether it is a toggle.
\<close>

lemma sight_kept:
  fixes A PA defines "h \<equiv> \<lambda>p. (el_tagName p, map_of (el_attributes p) A, map_of (el_attributes p) PA,
      js ''lang-toggle'' \<in> set (el_classList p))"
  shows "h (p\<lparr>el_placeholder := v\<rparr>) = h p"
    and "k \<noteq> A \<Longrightarrow> k \<noteq> PA \<Longrightarrow> h (set_attribute k v p) = h p"
    and "h (update_toggle cur p) = h p"
  by (simp_all add: h_def set_attribute_def map_of_set_entry update_toggle_class
      update_toggle_keeps)

lemma count_cong:
  assumes "outline h m = outline h n" and "\<And>e. P e = Q (h (props_of e))"
  shows "length (filter P (elements_of m)) = length (filter P (elements_of n))"
proof -
  have "length (filter P (elements_of m)) = length (filter (\<lambda>x. Q (fst x)) (outline h m))"
    unfolding assms(2) by (rule count_outline)
  also have "\<dots> = length (filter (\<lambda>x. Q (fst x)) (outline h n))"
    by (simp only: assms(1))
  also have "\<dots> = length (filter P (elements_of n))"
    unfolding assms(2) by (rule count_outline [symmetric])
  finally show ?thesis .
qed

lemma outline_nth:
  assumes "outline h m = outline h n"
  shows "length (elements_of m) = length (elements_of n)"
    and "i < length (elements_of n) \<Longrightarrow>
         h (props_of (elements_of m ! i)) = h (props_of (elements_of n ! i))"
proof -
  show len: "length (elements_of m) = length (elements_of n)"
    using assms unfolding outline_def by (rule map_eq_imp_length_eq)
  assume i: "i < length (elements_of n)"
  have "fst (outline h m ! i) = fst (outline h n ! i)"
    by (simp only: assms)
  then show "h (props_of (elements_of m ! i)) = h (props_of (elements_of n ! i))"
    using i len by (simp add: outline_def)
qed

text \<open>\<^verbatim>\<open>switchLanguage\<close> on a page where every \<^verbatim>\<open>$(selector)\<close> is a collection.\<close>

lemma updateTranslatableElements_collection:
  "documentElement pg = r \<Longrightarrow>
   length (filter (\<lambda>e. getAttribute e (js ''data-'' @ lang) \<noteq> None) (elements_of r)) \<noteq> 1 \<Longrightarrow>
   updateTranslatableElements lang pg =
     (None, with_documentElement (translate_all (js ''data-'' @ lang) r) pg)"
  by (simp add: updateTranslatableElements_def Let_def all_elements_def dollar_collection)

lemma updateLanguageToggles_collection:
  "documentElement pg = r \<Longrightarrow>
   length (filter (\<lambda>e. js ''lang-toggle'' \<in> set (classList e)) (elements_of r)) \<noteq> 1 \<Longrightarrow>
   updateLanguageToggles pg =
     (None, with_documentElement (map_node (update_toggle (currentLang pg)) r) pg)"
  by (simp add: updateLanguageToggles_def all_elements_def dollar_collection)

lemma updateFormPlaceholders_collection:
  "documentElement pg = r \<Longrightarrow>
   length (filter (\<lambda>e. getAttribute e (js ''data-placeholder-'' @ lang) \<noteq> None) (elements_of r)) \<noteq> 1 \<Longrightarrow>
   updateFormPlaceholders lang pg =
     (None, with_documentElement (map_node (update_placeholder (js ''data-placeholder-'' @ lang)) r) pg)"
  by (simp add: updateFormPlaceholders_def Let_def all_elements_def dollar_collection)

lemma documentElement_stored:
  "documentElement (pg\<lparr>localStorage := s, url_lang := u\<rparr>) = documentElement pg"
  by (simp add: documentElement_def)

lemma translation_leaves_root_attribute:
  assumes "translation_leaves A n" and "k \<noteq> A"
  shows "translation_leaves A (setAttribute k v n)"
proof -
  have "outline (\<lambda>p. (map_of (el_attributes p) A, el_tagName p)) (setAttribute k v n) =
      outline (\<lambda>p. (map_of (el_attributes p) A, el_tagName p)) n"
    by (rule outline_root_attribute) (simp add: set_attribute_def map_of_set_entry assms(2) [symmetric])
  then show ?thesis using assms(1) by (rule translation_leaves_cong)
qed

lemma translation_leaves_root:
  assumes "translation_leaves (js ''data-'' @ lang) html" and "lang \<noteq> js ''lang''"
  shows "translation_leaves (js ''data-'' @ lang)
     (setAttribute (js ''data-lang'') lang (setAttribute (js ''lang'') lang html))"
proof -
  have "js ''lang'' \<noteq> js ''data-'' @ lang"
    using data_attr_not_lang [of lang] by simp
  with assms(1) have "translation_leaves (js ''data-'' @ lang) (setAttribute (js ''lang'') lang html)"
    by (rule translation_leaves_root_attribute)
  moreover have "js ''data-lang'' \<noteq> js ''data-'' @ lang"
    using data_attr_data_lang [of lang] assms(2) by auto
  ultimately show ?thesis
    by (rule translation_leaves_root_attribute)
qed

lemma outline_switched:
  assumes leaves: "translation_leaves (js ''data-'' @ lang) html" and lang: "lang \<noteq> js ''lang''"
    and ph: "\<And>p v. h (p\<lparr>el_placeholder := v\<rparr>) = h p"
    and ct: "\<And>p v. h (set_attribute (js ''content'') v p) = h p"
    and tg: "\<And>p. h (update_toggle lang p) = h p"
    and lg: "\<And>p v. h (set_attribute (js ''lang'') v p) = h p"
    and dl: "\<And>p v. h (set_attribute (js ''data-lang'') v p) = h p"
  shows "outline h (switched lang html) = outline h html"
proof -
  let ?r0 = "setAttribute (js ''data-lang'') lang (setAttribute (js ''lang'') lang html)"
  have "translation_leaves (js ''data-'' @ lang) ?r0"
    using leaves lang by (rule translation_leaves_root)
  then have "outline h (switched lang html) = outline h ?r0"
    unfolding switched_def using ph ct tg by (rule outline_steps)
  also have "\<dots> = outline h (setAttribute (js ''lang'') lang html)"
    by (rule outline_root_attribute) (rule dl)
  also have "\<dots> = outline h html"
    by (rule outline_root_attribute) (rule lg)
  finally show ?thesis .
qed

lemma switchLanguage_completes:
  assumes nsm: "no_single_match lang pg" and leaves: "leaf_translations lang pg"
    and lang: "lang \<noteq> js ''lang''"
  shows "\<exists>pg'. switchLanguage lang pg = (None, pg') \<and>
     documentElement pg' = switched lang (documentElement pg) \<and>
     currentLang pg' = lang \<and>
     localStorage pg' = set_entry (js ''digilima_lang'') lang (localStorage pg) \<and>
     url_lang pg' = (if lang = js ''en'' then None else Some lang)"
proof -
  let ?A = "js ''data-'' @ lang"
  let ?PA = "js ''data-placeholder-'' @ lang"
  let ?h = "\<lambda>p. (el_tagName p, map_of (el_attributes p) ?A, map_of (el_attributes p) ?PA,
      js ''lang-toggle'' \<in> set (el_classList p))"
  define r0 where "r0 = setAttribute (js ''data-lang'') lang
      (setAttribute (js ''lang'') lang (documentElement pg))"
  define r1 where "r1 = translate_all ?A r0"
  define r2 where "r2 = map_node (update_toggle lang) r1"
  define r3 where "r3 = map_node (update_placeholder ?PA) r2"
  define pg1 where "pg1 = pg\<lparr>currentLang := lang,
      html_props := set_attribute (js ''data-lang'') lang
                      (set_attribute (js ''lang'') lang (html_props pg))\<rparr>"
  have d1: "documentElement pg1 = r0"
    by (simp add: documentElement_def r0_def pg1_def)
  have f1: "currentLang pg1 = lang" "localStorage pg1 = localStorage pg"
    by (simp_all add: pg1_def)
  have nt: "\<not> is_text r1" "\<not> is_text r2" "\<not> is_text r3"
    by (simp_all add: r0_def r1_def r2_def r3_def is_text_steps is_text_translate_all
        is_text_documentElement)
  have l: "translation_leaves ?A (documentElement pg)"
    using leaves by (simp only: leaf_translations_def)
  have l0: "translation_leaves ?A r0"
    unfolding r0_def using l lang by (rule translation_leaves_root)
  have names: "js ''content'' \<noteq> ?A" "js ''content'' \<noteq> ?PA" "js ''lang'' \<noteq> ?A" "js ''lang'' \<noteq> ?PA"
    "js ''data-lang'' \<noteq> ?A" "js ''data-lang'' \<noteq> ?PA"
    using data_attr_not_content [of lang] placeholder_attr_not_content [of lang]
      data_attr_not_lang [of lang] placeholder_attr_not_lang [of lang]
      data_attr_data_lang [of lang] lang
    by auto
  have o0: "outline ?h r0 = outline ?h (documentElement pg)"
  proof -
    have "outline ?h r0 = outline ?h (setAttribute (js ''lang'') lang (documentElement pg))"
      unfolding r0_def
      by (rule outline_root_attribute) (rule sight_kept(2) [OF names(5,6)])
    also have "\<dots> = outline ?h (documentElement pg)"
      by (rule outline_root_attribute) (rule sight_kept(2) [OF names(3,4)])
    finally show ?thesis .
  qed
  have o1: "outline ?h r1 = outline ?h r0"
    unfolding r1_def using l0
    by (rule outline_translate_all) (rule sight_kept(1), rule sight_kept(2) [OF names(1,2)])
  have o2: "outline ?h r2 = outline ?h r1"
    unfolding r2_def by (rule outline_map_node) (rule sight_kept(3))
  have c1: "length (filter (\<lambda>e. getAttribute e ?A \<noteq> None) (elements_of r0)) \<noteq> 1"
  proof -
    have "length (filter (\<lambda>e. getAttribute e ?A \<noteq> None) (elements_of r0)) =
        length (filter (\<lambda>e. getAttribute e ?A \<noteq> None) (elements_of (documentElement pg)))"
      using o0 by (rule count_cong [where Q = "\<lambda>x. fst (snd x) \<noteq> None"])
        (simp add: getAttribute_def)
    then show ?thesis using nsm by (simp only: no_single_match_def all_elements_def) simp
  qed
  have c2: "length (filter (\<lambda>e. js ''lang-toggle'' \<in> set (classList e)) (elements_of r1)) \<noteq> 1"
  proof -
    have "outline ?h r1 = outline ?h (documentElement pg)"
      using o1 o0 by simp
    then have "length (filter (\<lambda>e. js ''lang-toggle'' \<in> set (classList e)) (elements_of r1)) =
        length (filter (\<lambda>e. js ''lang-toggle'' \<in> set (classList e)) (elements_of (documentElement pg)))"
      by (rule count_cong [where Q = "\<lambda>x. snd (snd (snd x))"]) (simp add: classList_def)
    then show ?thesis using nsm by (simp only: no_single_match_def all_elements_def) simp
  qed
  have c3: "length (filter (\<lambda>e. getAttribute e ?PA \<noteq> None) (elements_of r2)) \<noteq> 1"
  proof -
    have "outline ?h r2 = outline ?h (documentElement pg)"
      using o2 o1 o0 by simp
    then have "length (filter (\<lambda>e. getAttribute e ?PA \<noteq> None) (elements_of r2)) =
        length (filter (\<lambda>e. getAttribute e ?PA \<noteq> None) (elements_of (documentElement pg)))"
      by (rule count_cong [where Q = "\<lambda>x. fst (snd (snd x)) \<noteq> None"])
        (simp add: getAttribute_def)
    then show ?thesis using nsm by (simp only: no_single_match_def all_elements_def) simp
  qed
  have s1: "updateTranslatableElements lang pg1 = (None, with_documentElement r1 pg1)"
    unfolding r1_def using d1 c1 by (rule updateTranslatableElements_collection)
  have d2: "documentElement (with_documentElement r1 pg1) = r1"
    using nt(1) by (rule documentElement_with)
  have "updateLanguageToggles (with_documentElement r1 pg1) =
      (None, with_documentElement (map_node (update_toggle (currentLang (with_documentElement r1 pg1))) r1)
         (with_documentElement r1 pg1))"
    using d2 c2 by (rule updateLanguageToggles_collection)
  then have s2: "updateLanguageToggles (with_documentElement r1 pg1) =
      (None, with_documentElement r2 pg1)"
    by (simp only: with_documentElement_fields f1 r2_def [symmetric]
        with_documentElement_twice [OF nt(2)])
  have d3: "documentElement (with_documentElement r2 pg1) = r2"
    using nt(2) by (rule documentElement_with)
  have "updateFormPlaceholders lang (with_documentElement r2 pg1) =
      (None, with_documentElement (map_node (update_placeholder ?PA) r2) (with_documentElement r2 pg1))"
    using d3 c3 by (rule updateFormPlaceholders_collection)
  then have s3: "updateFormPlaceholders lang (with_documentElement r2 pg1) =
      (None, with_documentElement r3 pg1)"
    by (simp only: r3_def [symmetric] with_documentElement_twice [OF nt(3)])
  let ?pg' = "(with_documentElement r3 pg1)
      \<lparr>localStorage := set_entry (js ''digilima_lang'') lang (localStorage (with_documentElement r3 pg1)),
       url_lang := (if lang = js ''en'' then None else Some lang)\<rparr>"
  have "switchLanguage lang pg = (None, ?pg')"
    by (simp only: switchLanguage_def Let_def pg1_def [symmetric] s1 s2 s3 prod.case option.case)
  moreover have "documentElement ?pg' = switched lang (documentElement pg)"
    by (simp only: documentElement_stored documentElement_with [OF nt(3)])
      (simp only: r3_def r2_def r1_def r0_def switched_def)
  moreover have "currentLang ?pg' = lang"
    by (simp add: with_documentElement_fields f1)
  moreover have "localStorage ?pg' = set_entry (js ''digilima_lang'') lang (localStorage pg)"
    by (simp add: with_documentElement_fields f1)
  moreover have "url_lang ?pg' = (if lang = js ''en'' then None else Some lang)"
    by simp
  ultimately show ?thesis by blast
qed

text \<open>What the elements show once the language is switched.\<close>

lemma switched_shows:
  assumes "Element p cs \<in> set (elements_of (switched lang html))"
    and "map_of (el_attributes p) (js ''data-'' @ lang) = Some t" and "t \<noteq> []"
  shows "if is_form_text (Element p cs)
         then el_placeholder p =
                (case map_of (el_attributes p) (js ''data-placeholder-'' @ lang) of
                   Some q \<Rightarrow> if q \<noteq> [] then q else t
                 | None \<Rightarrow> t)
         else cs = [Text t]"
proof -
  let ?r0 = "setAttribute (js ''data-lang'') lang (setAttribute (js ''lang'') lang html)"
  have "shows_text (js ''data-'' @ lang) (translate_all (js ''data-'' @ lang) ?r0)"
    using data_attr_not_content by (rule shows_text_translate_all)
  then have "shows_text (js ''data-'' @ lang)
      (map_node (update_toggle lang) (translate_all (js ''data-'' @ lang) ?r0))"
    by (rule shows_text_toggles)
  then show ?thesis
    using assms unfolding switched_def by (rule shows_translation)
qed

lemma switched_elements:
  assumes leaves: "translation_leaves (js ''data-'' @ lang) html" and lang: "lang \<noteq> js ''lang''"
  shows "length (elements_of (switched lang html)) = length (elements_of html)"
    and "map (\<lambda>e. (tagName e, getAttribute e (js ''data-'' @ lang))) (elements_of (switched lang html)) =
         map (\<lambda>e. (tagName e, getAttribute e (js ''data-'' @ lang))) (elements_of html)"
    and "i < length (elements_of html) \<Longrightarrow>
         getAttribute (elements_of html ! i) (js ''data-'' @ lang) = Some t \<Longrightarrow> t \<noteq> [] \<Longrightarrow>
         (if is_form_text (elements_of html ! i)
          then placeholder (elements_of (switched lang html) ! i) =
                 (case getAttribute (elements_of html ! i) (js ''data-placeholder-'' @ lang) of
                    Some q \<Rightarrow> if q \<noteq> [] then q else t
                  | None \<Rightarrow> t)
          else node_textContent (elements_of (switched lang html) ! i) = t)"
proof -
  let ?A = "js ''data-'' @ lang"
  let ?PA = "js ''data-placeholder-'' @ lang"
  let ?h = "\<lambda>p. (el_tagName p, map_of (el_attributes p) ?A, map_of (el_attributes p) ?PA,
      js ''lang-toggle'' \<in> set (el_classList p))"
  have names: "js ''content'' \<noteq> ?A" "js ''content'' \<noteq> ?PA" "js ''lang'' \<noteq> ?A" "js ''lang'' \<noteq> ?PA"
    "js ''data-lang'' \<noteq> ?A" "js ''data-lang'' \<noteq> ?PA"
    using data_attr_not_content [of lang] placeholder_attr_not_content [of lang]
      data_attr_not_lang [of lang] placeholder_attr_not_lang [of lang]
      data_attr_data_lang [of lang] lang
    by auto
  have o: "outline ?h (switched lang html) = outline ?h html"
    using leaves lang
    by (rule outline_switched)
      (rule sight_kept(1), rule sight_kept(2) [OF names(1,2)], rule sight_kept(3),
       rule sight_kept(2) [OF names(3,4)], rule sight_kept(2) [OF names(5,6)])
  show len: "length (elements_of (switched lang html)) = length (elements_of html)"
    using o by (rule outline_nth(1))
  have "map (\<lambda>x. (fst (fst x), fst (snd (fst x)))) (outline ?h (switched lang html)) =
      map (\<lambda>x. (fst (fst x), fst (snd (fst x)))) (outline ?h html)"
    by (simp only: o)
  then show "map (\<lambda>e. (tagName e, getAttribute e ?A)) (elements_of (switched lang html)) =
      map (\<lambda>e. (tagName e, getAttribute e ?A)) (elements_of html)"
    by (simp add: outline_def comp_def tagName_def getAttribute_def)
  assume i: "i < length (elements_of html)"
    and t: "getAttribute (elements_of html ! i) ?A = Some t" "t \<noteq> []"
  let ?e = "elements_of html ! i"
  let ?e' = "elements_of (switched lang html) ! i"
  have same: "?h (props_of ?e') = ?h (props_of ?e)"
    using o i by (rule outline_nth(2))
  have mem: "?e' \<in> set (elements_of (switched lang html))"
    using i len by simp
  then obtain p cs where pcs: "?e' = Element p cs"
    using elements_of_Element by blast
  have "map_of (el_attributes p) ?A = Some t"
    using same t(1) pcs by (simp add: getAttribute_def)
  with mem have "if is_form_text (Element p cs)
         then el_placeholder p =
                (case map_of (el_attributes p) ?PA of
                   Some q \<Rightarrow> if q \<noteq> [] then q else t
                 | None \<Rightarrow> t)
         else cs = [Text t]"
    unfolding pcs using t(2) by (rule switched_shows)
  moreover have "is_form_text (Element p cs) = is_form_text ?e"
    using same pcs by (simp add: is_form_text_def tagName_def)
  moreover have "map_of (el_attributes p) ?PA = getAttribute ?e ?PA"
    using same pcs by (simp add: getAttribute_def)
  ultimately show "if is_form_text ?e
          then placeholder ?e' =
                 (case getAttribute ?e ?PA of
                    Some q \<Rightarrow> if q \<noteq> [] then q else t
                  | None \<Rightarrow> t)
          else node_textContent ?e' = t"
    unfolding pcs by (auto simp add: placeholder_def split: if_splits)
qed

text \<open>The root element keeps the language that \<^verbatim>\<open>switchLanguage\<close> wrote into it.\<close>

lemma getAttribute_update_first:
  "(\<And>e. getAttribute (f e) k = getAttribute e k) \<Longrightarrow>
   getAttribute (update_first P f n) k = getAttribute n k"
  by (cases n) (simp_all add: getAttribute_def)

lemma getAttribute_steps:
  "getAttribute (translate_node A n) k = getAttribute n k"
  "getAttribute (set_textContent v n) k = getAttribute n k"
  "getAttribute (map_node (update_toggle cur) n) k = getAttribute n k"
  "getAttribute (map_node (update_placeholder PA) n) k = getAttribute n k"
  by (cases n; simp add: getAttribute_def update_toggle_keeps update_placeholder_keeps
        split: option.split)+

lemma getAttribute_setAttribute:
  "getAttribute (setAttribute k v (Element p cs)) k' =
     (if k' = k then Some v else getAttribute (Element p cs) k')"
  by (simp add: getAttribute_def set_attribute_def map_of_set_entry)

lemma getAttribute_setAttribute_other:
  "k' \<noteq> k \<Longrightarrow> getAttribute (setAttribute k v n) k' = getAttribute n k'"
  by (cases n) (simp_all add: getAttribute_def set_attribute_def map_of_set_entry)

lemma getAttribute_translate_all:
  assumes "k \<noteq> js ''content''"
  shows "getAttribute (translate_all A n) k = getAttribute n k"
proof -
  have "getAttribute (set_meta_description A m) k = getAttribute m k" for m
    unfolding set_meta_description_def
    by (rule getAttribute_update_first) (rule getAttribute_setAttribute_other [OF assms])
  moreover have "getAttribute (set_document_title v m) k = getAttribute m k" for v m
    unfolding set_document_title_def
    by (rule getAttribute_update_first) (rule getAttribute_steps(2))
  ultimately show ?thesis
    by (simp add: translate_all_def Let_def getAttribute_steps(1) split: option.split)
qed

lemma switched_root_language:
  "getAttribute (switched lang (documentElement pg)) (js ''data-lang'') = Some lang"
proof -
  have ne: "js ''data-lang'' \<noteq> js ''content''" by (simp add: js_eq_iff)
  have "getAttribute (setAttribute (js ''data-lang'') lang
      (setAttribute (js ''lang'') lang (documentElement pg))) (js ''data-lang'') = Some lang"
    by (simp add: documentElement_def getAttribute_def set_attribute_def map_of_set_entry)
  then show ?thesis
    by (simp only: switched_def getAttribute_steps getAttribute_translate_all [OF ne])
qed

lemma Nil_eq_js: "[] = js a \<longleftrightarrow> a = []"
  by (auto simp add: js_def)

lemma site_language_simps:
  "is_site_language (js ''el'')" "is_site_language (js ''en'')"
  "is_site_language x \<longleftrightarrow> x = js ''en'' \<or> x = js ''el''"
  by (auto simp add: is_site_language_def)

lemma initLanguageFromURL_stored:
  assumes "map_of (localStorage q) (js ''digilima_lang'') = Some (js ''el'')"
    and "url_lang q \<noteq> Some (js ''en'')"
  shows "initLanguageFromURL q = switchLanguage (js ''el'') q"
proof (cases "url_lang q")
  case None
  then show ?thesis
    using assms(1) by (simp add: initLanguageFromURL_def site_language_simps(1) js_eq_Nil)
next
  case (Some l)
  show ?thesis
  proof (cases "l \<noteq> [] \<and> is_site_language l")
    case True
    then have "l = js ''el''"
      using assms(2) Some by (auto simp add: site_language_simps(3))
    then show ?thesis
      using Some True by (simp add: initLanguageFromURL_def)
  next
    case False
    then show ?thesis
      using Some assms(1)
      by (auto simp add: initLanguageFromURL_def site_language_simps(1) js_eq_Nil)
  qed
qed

lemma initLanguageFromURL_param:
  assumes "url_lang q = Some l" and "is_site_language l"
  shows "initLanguageFromURL q = switchLanguage l q"
  using assms
  by (auto simp add: initLanguageFromURL_def site_language_simps js_eq_Nil Nil_eq_js)

text \<open>A page load after which the language functions threw nothing.\<close>

lemma init_language_switches:
  assumes "initLanguageFromURL q = switchLanguage l q" and nsm: "no_single_match l q"
    and leaves: "leaf_translations l q" and l: "l \<noteq> []" "l \<noteq> js ''lang''"
  shows "\<exists>q'. init_language q = (None, q') \<and> currentLang q' = l"
proof -
  let ?A = "js ''data-'' @ l"
  let ?PA = "js ''data-placeholder-'' @ l"
  let ?h = "\<lambda>p. (el_tagName p, map_of (el_attributes p) ?A, map_of (el_attributes p) ?PA,
      js ''lang-toggle'' \<in> set (el_classList p))"
  obtain q1 where q1: "switchLanguage l q = (None, q1)"
    "documentElement q1 = switched l (documentElement q)"
    using switchLanguage_completes [OF nsm leaves l(2)] by blast
  have cur: "(case getAttribute (documentElement q1) (js ''data-lang'') of
                Some x \<Rightarrow> if x \<noteq> [] then x else js ''en''
              | None \<Rightarrow> js ''en'') = l"
    using l(1) by (simp add: q1(2) switched_root_language)
  let ?q2 = "q1\<lparr>currentLang := l\<rparr>"
  have d2: "documentElement ?q2 = switched l (documentElement q)"
    using q1(2) by (simp add: documentElement_def)
  have names: "js ''content'' \<noteq> ?A" "js ''content'' \<noteq> ?PA" "js ''lang'' \<noteq> ?A" "js ''lang'' \<noteq> ?PA"
    "js ''data-lang'' \<noteq> ?A" "js ''data-lang'' \<noteq> ?PA"
    using data_attr_not_content [of l] placeholder_attr_not_content [of l]
      data_attr_not_lang [of l] placeholder_attr_not_lang [of l]
      data_attr_data_lang [of l] l(2)
    by auto
  have "translation_leaves ?A (documentElement q)"
    using leaves by (simp only: leaf_translations_def)
  then have "outline ?h (switched l (documentElement q)) = outline ?h (documentElement q)"
    using l(2)
    by (rule outline_switched)
      (rule sight_kept(1), rule sight_kept(2) [OF names(1,2)], rule sight_kept(3),
       rule sight_kept(2) [OF names(3,4)], rule sight_kept(2) [OF names(5,6)])
  then have "length (filter (\<lambda>e. js ''lang-toggle'' \<in> set (classList e))
        (elements_of (switched l (documentElement q)))) =
      length (filter (\<lambda>e. js ''lang-toggle'' \<in> set (classList e)) (elements_of (documentElement q)))"
    by (rule count_cong [where Q = "\<lambda>x. snd (snd (snd x))"]) (simp add: classList_def)
  then have n: "length (filter (\<lambda>e. js ''lang-toggle'' \<in> set (classList e))
        (elements_of (switched l (documentElement q)))) \<noteq> 1"
    using nsm by (simp only: no_single_match_def all_elements_def) simp
  have "updateLanguageToggles ?q2 =
      (None, with_documentElement
               (map_node (update_toggle (currentLang ?q2)) (switched l (documentElement q))) ?q2)"
    using d2 n by (rule updateLanguageToggles_collection)
  then have "initLanguageSwitcher q1 =
      (None, with_documentElement
               (map_node (update_toggle (currentLang ?q2)) (switched l (documentElement q))) ?q2)"
    unfolding initLanguageSwitcher_def cur by simp
  moreover have "init_language q = initLanguageSwitcher q1"
    by (simp add: init_language_def assms(1) q1(1))
  ultimately show ?thesis
    by (simp add: with_documentElement_fields)
qed

text \<open>The example pages.\<close>

lemmas example_page_defs =
  home_page_def single_page_def nested_page_def heading_def welcome_text_def toggle_en_def
  toggle_el_def english_root_def tag_def documentElement_def all_elements_def

lemma example_pages_match:
  "no_single_match (js ''el'') home_page"
  "leaf_translations (js ''el'') home_page"
  "no_single_match (js ''en'') (home_page\<lparr>localStorage := [(js ''digilima_lang'', js ''el'')],
       url_lang := Some (js ''en'')\<rparr>)"
  "leaf_translations (js ''en'') (home_page\<lparr>localStorage := [(js ''digilima_lang'', js ''el'')],
       url_lang := Some (js ''en'')\<rparr>)"
  by (simp_all add: no_single_match_def leaf_translations_def translation_leaves_def
      example_page_defs getAttribute_def classList_def tagName_def
      js_append [symmetric] js_eq_iff)

lemmas language_step_defs =
  switchLanguage_def Let_def updateTranslatableElements_def updateLanguageToggles_def
  updateFormPlaceholders_def dollar_def translate_all_def set_document_title_def
  set_meta_description_def is_meta_description_def is_form_text_def set_attribute_def
  getAttribute_def classList_def tagName_def update_toggle_def update_placeholder_def
  classList_add_def classList_remove_def

text \<open>
  On a page where exactly one element carries \<^verbatim>\<open>data-el\<close>, \<^verbatim>\<open>$('[data-el]')\<close> is that
  element and not a collection: \<^verbatim>\<open>elements.forEach\<close> throws, nothing is translated and
  nothing is stored. (\<^verbatim>\<open>addEventListeners\<close> tells the two cases apart; the update
  functions do not.)
\<close>

lemma single_match_throws:
  "fst (switchLanguage (js ''el'') single_page) = Some TypeError \<and>
   localStorage (snd (switchLanguage (js ''el'') single_page)) = [] \<and>
   map node_textContent (all_elements (snd (switchLanguage (js ''el'') single_page))) =
     [js ''HelloENEL'', js ''HelloENEL'', js ''Hello'', js ''EN'', js ''EL'']"
  by (simp add: language_step_defs example_page_defs js_append [symmetric] js_eq_iff)

text \<open>
  On a page where one of the two toggles is inside an element that carries \<^verbatim>\<open>data-el\<close>,
  each selector matches two elements or none. Writing the translation removes the toggle
  inside, \<^verbatim>\<open>$('.lang-toggle')\<close> is then the one toggle left, and \<^verbatim>\<open>langToggles.forEach\<close>
  throws: the page is translated, and nothing is stored.
\<close>

lemma nested_toggle_throws:
  "no_single_match (js ''el'') nested_page \<and>
   fst (switchLanguage (js ''el'') nested_page) = Some TypeError \<and>
   localStorage (snd (switchLanguage (js ''el'') nested_page)) = [] \<and>
   map tagName (all_elements nested_page) =
     [js ''HTML'', js ''BODY'', js ''H1'', js ''DIV'', js ''A'', js ''A''] \<and>
   map tagName (all_elements (snd (switchLanguage (js ''el'') nested_page))) =
     [js ''HTML'', js ''BODY'', js ''H1'', js ''DIV'', js ''A'']"
  by (simp add: no_single_match_def language_step_defs example_page_defs
      js_append [symmetric] js_eq_iff greek_hello_def)

lemma untranslated_text:
  "getAttribute (all_elements home_page ! 3) (js ''data-el'') = Some [] \<and>
   node_textContent (elements_of (switched (js ''el'') (documentElement home_page)) ! 3) =
     js ''Welcome''"
  by (simp add: switched_def language_step_defs example_page_defs
      js_append [symmetric] js_eq_iff greek_hello_def)


section \<open>The claims about the Submission Handler\<close>

text \<open>
  A consent value that is not the boolean \<^verbatim>\<open>true\<close> but is truthy passes the first check
  (\<^verbatim>\<open>!consent\<close>): with the string \<^verbatim>\<open>"yes"\<close> the submission is accepted and both
  emails are sent. A body that is \<^verbatim>\<open>null\<close> makes the destructuring throw, which the
  handler answers with 500.
\<close>

theorem consent_not_true_accepted:
  "read_prop consent_yes_body (js ''consent'') \<noteq> JBool True \<and>
   res_status (fst (handler example_env accepting_provider (post consent_yes_body))) = 200 \<and>
   length (snd (handler example_env accepting_provider (post consent_yes_body))) = 2 \<and>
   res_status (fst (handler example_env accepting_provider (post JNull))) = 500"
proof -
  have "read_prop consent_yes_body (js ''consent'') \<noteq> JBool True"
    by (simp add: consent_yes_body_def js_eq_iff)
  moreover have "\<exists>i calls. handler example_env accepting_provider (post consent_yes_body) =
      (success_response i, calls) \<and> length calls = 2"
  proof -
    have "\<exists>subject html plain reply_html reply_plain d i.
        accepting_provider [] (notification (jane_payload\<lparr>consent := JStr (js ''yes'')\<rparr>) subject html plain) = Inr d \<and>
        get_prop d (js ''id'') = Inr i \<and>
        handler example_env accepting_provider (post consent_yes_body) =
          (success_response i,
           [notification (jane_payload\<lparr>consent := JStr (js ''yes'')\<rparr>) subject html plain,
            autoReply (jane_payload\<lparr>consent := JStr (js ''yes'')\<rparr>) reply_html reply_plain])"
      by (rule accepted_run [where n = "js ''Jane''" and e = "js ''jane@x.com''" and m = "js ''Hi''"])
         (simp_all add: post_simps example_payloads jane_payload_def js_eq_Nil regex_jane
            accepting_provider_def get_prop_def)
    then show ?thesis by fastforce
  qed
  moreover have "res_status (fst (handler example_env accepting_provider (post JNull))) = 500"
    by (simp add: handler_post post_simps try_block_def destructure_def status_simps)
  ultimately show ?thesis by (auto simp add: status_simps)
qed

text \<open>
  Claim C1, as amended: for every POST request whose body is not undefined or null and in
  which \<^verbatim>\<open>name\<close>, \<^verbatim>\<open>email\<close>, \<^verbatim>\<open>message\<close> or \<^verbatim>\<open>consent\<close> is missing or falsy
  (undefined, null, false, 0, the empty string), the handler responds with status 400
  and makes no call to the email provider. A missing field reads as undefined.
\<close>

theorem falsy_required_field_rejected:
  assumes "req_method req = js ''POST''"
    and "req_body req \<noteq> JUndefined" and "req_body req \<noteq> JNull"
    and "\<not> truthy (read_prop (req_body req) (js ''name'')) \<or>
         \<not> truthy (read_prop (req_body req) (js ''email'')) \<or>
         \<not> truthy (read_prop (req_body req) (js ''message'')) \<or>
         \<not> truthy (read_prop (req_body req) (js ''consent''))"
  shows "res_status (fst (handler ev send req)) = 400 \<and> snd (handler ev send req) = []"
proof -
  obtain p where p: "destructure (req_body req) = Inr p"
    "name p = read_prop (req_body req) (js ''name'')"
    "email p = read_prop (req_body req) (js ''email'')"
    "message p = read_prop (req_body req) (js ''message'')"
    "consent p = read_prop (req_body req) (js ''consent'')"
    using assms(2,3) by (simp add: destructure_def)
  have "try_block ev send req = (Inr missing_fields_response, [])"
    using assms(4) p by (auto simp add: try_block_def)
  then show ?thesis
    using assms(1) by (simp add: handler_post status_simps)
qed

theorem falsy_required_field_rejected_witness:
  "read_prop no_message_body (js ''message'') = JUndefined \<and>
   res_status (fst (handler example_env accepting_provider (post no_message_body))) = 400 \<and>
   snd (handler example_env accepting_provider (post no_message_body)) = []"
  using falsy_required_field_rejected [of "post no_message_body" example_env accepting_provider]
  by (simp add: post_simps no_message_body_def js_eq_iff)

text \<open>
  The five conditions on name, email, message, consent and website do not bound the optional
  fields. A budget that is the number 5000 is truthy and has no \<^verbatim>\<open>includes\<close> method, so
  building the notification throws before the first call: the handler answers 500 and
  sends nothing.
\<close>

theorem numeric_budget_not_accepted:
  "read_prop numeric_budget_body (js ''name'') = JStr (js ''Jane'') \<and> js ''Jane'' \<noteq> [] \<and>
   read_prop numeric_budget_body (js ''email'') = JStr (js ''jane@x.com'') \<and>
   regex_test emailRegex (js ''jane@x.com'') \<and>
   read_prop numeric_budget_body (js ''message'') = JStr (js ''Hi'') \<and> js ''Hi'' \<noteq> [] \<and>
   read_prop numeric_budget_body (js ''consent'') = JBool True \<and>
   read_prop numeric_budget_body (js ''website'') = JStr [] \<and>
   res_status (fst (handler example_env accepting_provider (post numeric_budget_body))) = 500 \<and>
   snd (handler example_env accepting_provider (post numeric_budget_body)) = []"
proof -
  let ?p = "jane_payload\<lparr>budget := JNum 5000\<rparr>"
  have d: "destructure numeric_budget_body = Inr ?p"
    by (simp add: destructure_def numeric_budget_body_def jane_payload_def js_eq_iff)
  have "html_budget_section ?p = Inl TypeError"
    by (simp add: html_budget_section_def budget_priority_def)
  then have "htmlContent (currentDate example_env) ?p = Inl TypeError"
    by (simp add: htmlContent_def jane_payload_def html_phone_section_def html_company_section_def)
  then have "dispatch example_env accepting_provider ?p = (Inl TypeError, [])"
    by (simp add: dispatch_def)
  moreover have "try_block example_env accepting_provider (post numeric_budget_body) =
      dispatch example_env accepting_provider ?p"
    by (rule try_block_accepted [where address = "js ''jane@x.com''"])
       (simp_all add: post_simps d jane_payload_def js_eq_Nil regex_jane)
  ultimately have "handler example_env accepting_provider (post numeric_budget_body) =
      (failure_response example_env TypeError, [])"
    by (simp add: handler_post post_simps)
  then show ?thesis
    by (simp add: status_simps numeric_budget_body_def js_eq_iff js_eq_Nil regex_jane)
qed

text \<open>
  Claim C2, as amended: for every valid payload (a non-empty name, an email that matches the
  pattern, a non-empty message, consent true, an empty or absent website) whose optional
  fields \<^verbatim>\<open>phone\<close>, \<^verbatim>\<open>company\<close>, \<^verbatim>\<open>budget\<close> and \<^verbatim>\<open>projectType\<close> are each absent, null or text,
  and a provider that answers each call with an object holding a non-empty
  \<^verbatim>\<open>id\<close>, the handler makes exactly two calls: the notification, addressed to
  \<^verbatim>\<open>hello@digilima.com\<close> with the submitter's email as \<^verbatim>\<open>replyTo\<close>, then the auto-reply,
  addressed to the submitter's email. It responds with status 200 and a body with
  \<^verbatim>\<open>success: true\<close> and, as \<^verbatim>\<open>emailId\<close>, the non-empty \<^verbatim>\<open>id\<close> of the provider's answer
  to the notification.
\<close>

theorem valid_submission_accepted:
  assumes "req_method req = js ''POST''"
    and "destructure (req_body req) = Inr p"
    and "name p = JStr n" and "n \<noteq> []"
    and "email p = JStr e" and "regex_test emailRegex e"
    and "message p = JStr m" and "m \<noteq> []"
    and "consent p = JBool True" and "\<not> truthy (website p)"
    and "optional_text (phone p)" and "optional_text (company p)"
    and "optional_text (budget p)" and "optional_text (projectType p)"
    and "\<And>earlier msg. \<exists>d i. send earlier msg = Inr d \<and> get_prop d (js ''id'') = Inr (JStr i) \<and> i \<noteq> []"
  shows "\<exists>first second d i body.
           handler ev send req = (success_response (JStr i), [first, second]) \<and>
           msg_to first = [JStr (js ''hello@digilima.com'')] \<and>
           msg_replyTo first = Some (JStr e) \<and>
           msg_to second = [JStr e] \<and>
           send [] first = Inr d \<and> get_prop d (js ''id'') = Inr (JStr i) \<and> i \<noteq> [] \<and>
           res_status (success_response (JStr i)) = 200 \<and>
           res_body (success_response (JStr i)) = Some body \<and>
           read_prop body (js ''success'') = JBool True \<and>
           read_prop body (js ''emailId'') = JStr i"
proof -
  have prov: "\<And>earlier msg. \<exists>d i. send earlier msg = Inr d \<and> get_prop d (js ''id'') = Inr i"
    using assms(15) by blast
  have "\<exists>subject html plain reply_html reply_plain d v.
           send [] (notification p subject html plain) = Inr d \<and>
           get_prop d (js ''id'') = Inr v \<and>
           handler ev send req =
             (success_response v,
              [notification p subject html plain, autoReply p reply_html reply_plain])"
  proof (rule accepted_run [where n = n and e = e and m = m])
    show "truthy (consent p)" "\<not> truthy (website p)"
      using assms(9,10) by simp_all
    show "\<exists>d i. send earlier msg = Inr d \<and> get_prop d (js ''id'') = Inr i" for earlier msg
      using prov by blast
  qed (use assms in simp_all)
  then obtain subject html plain reply_html reply_plain d v where run:
    "send [] (notification p subject html plain) = Inr d"
    "get_prop d (js ''id'') = Inr v"
    "handler ev send req =
       (success_response v,
        [notification p subject html plain, autoReply p reply_html reply_plain])"
    by blast
  obtain d' i where i: "send [] (notification p subject html plain) = Inr d'"
    "get_prop d' (js ''id'') = Inr (JStr i)" "i \<noteq> []"
    using assms(15) by blast
  with run have v: "v = JStr i" by simp
  let ?first = "notification p subject html plain"
  let ?second = "autoReply p reply_html reply_plain"
  let ?body = "JObj [(js ''success'', JBool True),
        (js ''message'',
         JStr (js ''Thank you! Your message has been sent successfully. We'll get back to you within 24 hours.'')),
        (js ''emailId'', JStr i)]"
  have "handler ev send req = (success_response (JStr i), [?first, ?second])"
    using run(3) v by simp
  moreover have "msg_to ?first = [JStr (js ''hello@digilima.com'')]"
    "msg_replyTo ?first = Some (JStr e)" "msg_to ?second = [JStr e]"
    by (simp_all add: notification_def autoReply_def assms(5))
  moreover have "send [] ?first = Inr d" "get_prop d (js ''id'') = Inr (JStr i)"
    using run(1,2) v by simp_all
  moreover have "res_status (success_response (JStr i)) = 200" by (simp add: status_simps)
  moreover have "res_body (success_response (JStr i)) = Some ?body"
    by (simp add: success_response_def json_response_def)
  moreover have "read_prop ?body (js ''success'') = JBool True"
    "read_prop ?body (js ''emailId'') = JStr i"
    by (simp_all add: js_eq_iff)
  ultimately show ?thesis using i(3) by blast
qed

theorem valid_submission_accepted_witness:
  "\<exists>first second.
     handler example_env accepting_provider (post jane_body) =
       (success_response (JStr (js ''re_123'')), [first, second]) \<and>
     msg_to first = [JStr (js ''hello@digilima.com'')] \<and>
     msg_replyTo first = Some (JStr (js ''jane@x.com'')) \<and>
     msg_to second = [JStr (js ''jane@x.com'')]"
proof -
  have "\<exists>first second d i body.
           handler example_env accepting_provider (post jane_body) =
             (success_response (JStr i), [first, second]) \<and>
           msg_to first = [JStr (js ''hello@digilima.com'')] \<and>
           msg_replyTo first = Some (JStr (js ''jane@x.com'')) \<and>
           msg_to second = [JStr (js ''jane@x.com'')] \<and>
           accepting_provider [] first = Inr d \<and> get_prop d (js ''id'') = Inr (JStr i) \<and> i \<noteq> [] \<and>
           res_status (success_response (JStr i)) = 200 \<and>
           res_body (success_response (JStr i)) = Some body \<and>
           read_prop body (js ''success'') = JBool True \<and>
           read_prop body (js ''emailId'') = JStr i"
    by (rule valid_submission_accepted [where p = jane_payload and n = "js ''Jane''" and m = "js ''Hi''"])
       (simp_all add: post_simps example_payloads jane_payload_def js_eq_Nil regex_jane
          accepting_provider_def get_prop_def)
  then obtain first second d i where r:
    "handler example_env accepting_provider (post jane_body) =
       (success_response (JStr i), [first, second])"
    "msg_to first = [JStr (js ''hello@digilima.com'')]"
    "msg_replyTo first = Some (JStr (js ''jane@x.com''))"
    "msg_to second = [JStr (js ''jane@x.com'')]"
    "accepting_provider [] first = Inr d" "get_prop d (js ''id'') = Inr (JStr i)"
    by blast
  from r(5,6) have "i = js ''re_123''"
    by (auto simp add: accepting_provider_def get_prop_def)
  with r show ?thesis by blast
qed

text \<open>
  Claim C3: when the handler has made both calls, the notification was accepted by
  the provider and the auto-reply call threw, the response is the 500 response for
  the thrown error: there is no partial success, although the notification went out.
\<close>

theorem reply_failure_is_total_failure:
  assumes "snd (handler ev send req) = [first, second]"
    and "send [] first = Inr d"
    and "send [first] second = Inl err"
  shows "fst (handler ev send req) = failure_response ev err \<and>
         res_status (fst (handler ev send req)) = 500"
proof -
  have post: "req_method req = js ''POST''"
    using assms(1) by (auto simp add: handler_def split: if_splits)
  obtain r calls where tb: "try_block ev send req = (r, calls)"
    by (cases "try_block ev send req")
  with post assms(1) have calls: "calls = [first, second]"
    by (cases r) (simp_all add: handler_post)
  then obtain p where "dispatch ev send p = (r, [first, second])"
    using try_block_calls [OF tb] by auto
  then have "r = Inl err"
    using dispatch_second_thrown assms(3) by blast
  with tb post show ?thesis by (simp add: handler_post status_simps)
qed

theorem reply_failure_is_total_failure_witness:
  "\<exists>first second d.
     snd (handler example_env first_only_provider (post jane_body)) = [first, second] \<and>
     first_only_provider [] first = Inr d \<and>
     first_only_provider [first] second = Inl (ProviderError (js ''rate limit exceeded'')) \<and>
     res_status (fst (handler example_env first_only_provider (post jane_body))) = 500"
proof -
  have "\<exists>first second d.
      first_only_provider [] first = Inr d \<and>
      first_only_provider [first] second = Inl (ProviderError (js ''rate limit exceeded'')) \<and>
      handler example_env first_only_provider (post jane_body) =
        (failure_response example_env (ProviderError (js ''rate limit exceeded'')), [first, second])"
    by (rule reply_thrown_run [where p = jane_payload and n = "js ''Jane''"
          and e = "js ''jane@x.com''" and m = "js ''Hi''"])
       (simp_all add: post_simps example_payloads jane_payload_def js_eq_Nil regex_jane
          first_only_provider_def)
  then obtain first second d where r:
    "first_only_provider [] first = Inr d"
    "first_only_provider [first] second = Inl (ProviderError (js ''rate limit exceeded''))"
    "snd (handler example_env first_only_provider (post jane_body)) = [first, second]"
    by auto
  from reply_failure_is_total_failure [OF r(3) r(1) r(2)] r show ?thesis by blast
qed

text \<open>
  Claim C4: for every POST request whose \<^verbatim>\<open>website\<close> field is a non-empty string, the
  handler responds with status 400, whatever the other fields are.
\<close>

theorem honeypot_rejected:
  assumes "req_method req = js ''POST''"
    and "read_prop (req_body req) (js ''website'') = JStr w" and "w \<noteq> []"
  shows "res_status (fst (handler ev send req)) = 400"
proof -
  obtain kvs where body: "req_body req = JObj kvs"
    using assms(2) by (cases "req_body req") simp_all
  have "try_block ev send req = (Inr missing_fields_response, []) \<or>
        try_block ev send req = (Inr honeypot_response, [])"
    using assms(2,3) unfolding body try_block_def destructure_object by simp
  then show ?thesis
    using assms(1) by (auto simp add: handler_post status_simps)
qed

theorem honeypot_rejected_witness:
  "read_prop honeypot_body (js ''website'') = JStr (js ''http://spam.example'') \<and>
   res_status (fst (handler example_env accepting_provider (post honeypot_body))) = 400"
  using honeypot_rejected [of "post honeypot_body" "js ''http://spam.example''" example_env accepting_provider]
  by (simp add: post_simps honeypot_body_def js_eq_iff js_eq_Nil)

text \<open>
  Claim C5: for every POST request whose \<^verbatim>\<open>email\<close> is a string that does not have the
  shape \<^verbatim>\<open>local@domain.tld\<close>, the handler responds with status 400 (with the required
  fields and consent present and the honeypot empty, through the email check).
\<close>

theorem malformed_email_rejected:
  assumes "req_method req = js ''POST''"
    and "read_prop (req_body req) (js ''email'') = JStr e"
    and "\<not> email_shape e"
  shows "res_status (fst (handler ev send req)) = 400"
proof -
  obtain kvs where body: "req_body req = JObj kvs"
    using assms(2) by (cases "req_body req") simp_all
  have "\<not> regex_test emailRegex e"
    using assms(3) by (simp add: emailRegex_shape)
  then have "try_block ev send req = (Inr missing_fields_response, []) \<or>
        try_block ev send req = (Inr honeypot_response, []) \<or>
        try_block ev send req = (Inr invalid_email_response, [])"
    using assms(2) unfolding body try_block_def destructure_object by simp
  then show ?thesis
    using assms(1) by (auto simp add: handler_post status_simps)
qed

theorem malformed_email_rejected_witness:
  "\<not> email_shape (js ''jane@x'') \<and>
   handler example_env accepting_provider (post bad_email_body) = (invalid_email_response, []) \<and>
   res_status (fst (handler example_env accepting_provider (post bad_email_body))) = 400"
proof -
  have shape: "\<not> email_shape (js ''jane@x'')"
    using regex_jane_x by (simp add: emailRegex_shape)
  have "res_status (fst (handler example_env accepting_provider (post bad_email_body))) = 400"
    by (rule malformed_email_rejected [where e = "js ''jane@x''"])
       (simp_all add: post_simps shape bad_email_body_def js_eq_iff)
  moreover have "handler example_env accepting_provider (post bad_email_body) = (invalid_email_response, [])"
    by (simp add: handler_post post_simps try_block_def destructure_def bad_email_body_def
        js_eq_iff js_eq_Nil regex_jane_x)
  ultimately show ?thesis using shape by simp
qed

text \<open>
  Claim C6: whenever the handler responds with status 400, it has made no call to the
  email provider.
\<close>

theorem rejected_no_email:
  "res_status (fst (handler ev send req)) = 400 \<Longrightarrow> snd (handler ev send req) = []"
proof -
  assume st: "res_status (fst (handler ev send req)) = 400"
  show ?thesis
  proof (cases "req_method req = js ''POST''")
    case False
    then show ?thesis by (simp add: handler_def)
  next
    case True
    obtain r calls where tb: "try_block ev send req = (r, calls)" by (cases "try_block ev send req")
    show ?thesis
    proof (cases r)
      case (Inl e)
      with st True tb show ?thesis by (simp add: handler_post status_simps)
    next
      case (Inr res)
      with st True tb have "res_status res = 400" by (simp add: handler_post)
      with tb Inr have "calls = []" using try_block_rejects_without_calls by blast
      with True tb Inr show ?thesis by (simp add: handler_post)
    qed
  qed
qed

theorem rejected_no_email_witness:
  "res_status (fst (handler example_env accepting_provider (post honeypot_body))) = 400 \<and>
   snd (handler example_env accepting_provider (post honeypot_body)) = []"
proof -
  have st: "res_status (fst (handler example_env accepting_provider (post honeypot_body))) = 400"
    by (simp add: handler_post post_simps try_block_def destructure_def honeypot_body_def
        js_eq_iff js_eq_Nil status_simps)
  from rejected_no_email [OF st] st show ?thesis by simp
qed

text \<open>
  Claim C7: in the notification of an accepted payload, an optional field that is absent
  (or falsy) leaves nothing of its section. For \<^verbatim>\<open>phone\<close>, \<^verbatim>\<open>company\<close>, \<^verbatim>\<open>budget\<close> and
  \<^verbatim>\<open>projectType\<close> alike, the HTML document and the plain-text document without the
  field are the documents with the field (any non-empty text \<open>v\<close>), with the whole section --
  label, markup and value -- cut out; no label with an empty value remains.
\<close>

theorem optional_sections_omitted:
  assumes "htmlContent date p = Inr html" and "textContent date p = Inr plain" and "v \<noteq> []"
  shows
    "(\<not> truthy (phone p) \<longrightarrow>
        (\<exists>html'. htmlContent date (p\<lparr>phone := JStr v\<rparr>) = Inr html' \<and>
           cut_out (html_phone_open @ v @ html_phone_mid @ v @ html_phone_close) html' html) \<and>
        (\<exists>plain'. textContent date (p\<lparr>phone := JStr v\<rparr>) = Inr plain' \<and>
           cut_out (text_phone_label @ v) plain' plain)) \<and>
     (\<not> truthy (company p) \<longrightarrow>
        (\<exists>html'. htmlContent date (p\<lparr>company := JStr v\<rparr>) = Inr html' \<and>
           cut_out (html_company_open @ v @ html_company_close) html' html) \<and>
        (\<exists>plain'. textContent date (p\<lparr>company := JStr v\<rparr>) = Inr plain' \<and>
           cut_out (text_company_label @ v) plain' plain)) \<and>
     (\<not> truthy (budget p) \<longrightarrow>
        (\<exists>html' marker. budget_priority (JStr v) = Inr marker \<and>
           htmlContent date (p\<lparr>budget := JStr v\<rparr>) = Inr html' \<and>
           cut_out (html_budget_open @ marker @ html_budget_mid @ v @ html_budget_close) html' html) \<and>
        (\<exists>plain'. textContent date (p\<lparr>budget := JStr v\<rparr>) = Inr plain' \<and>
           cut_out (text_budget_label @ v) plain' plain)) \<and>
     (\<not> truthy (projectType p) \<longrightarrow>
        (\<exists>html'. htmlContent date (p\<lparr>projectType := JStr v\<rparr>) = Inr html' \<and>
           cut_out (html_projectType_open @ v @ html_projectType_close) html' html) \<and>
        (\<exists>plain'. textContent date (p\<lparr>projectType := JStr v\<rparr>) = Inr plain' \<and>
           cut_out (text_projectType_label @ v) plain' plain))"
proof -
  obtain marker where marker: "budget_priority (JStr v) = Inr marker"
    using budget_priority_text by blast
  have "\<not> truthy (budget p) \<Longrightarrow>
      \<exists>html' marker. budget_priority (JStr v) = Inr marker \<and>
           htmlContent date (p\<lparr>budget := JStr v\<rparr>) = Inr html' \<and>
           cut_out (html_budget_open @ marker @ html_budget_mid @ v @ html_budget_close) html' html"
    using html_budget_omitted [OF assms(1) _ assms(3) marker] marker by blast
  then show ?thesis
    using html_phone_omitted [OF assms(1) _ assms(3)] text_phone_omitted [OF assms(2) _ assms(3)]
      html_company_omitted [OF assms(1) _ assms(3)] text_company_omitted [OF assms(2) _ assms(3)]
      text_budget_omitted [OF assms(2) _ assms(3)]
      html_projectType_omitted [OF assms(1) _ assms(3)]
      text_projectType_omitted [OF assms(2) _ assms(3)]
    by blast
qed

theorem optional_sections_omitted_witness:
  "\<not> truthy (phone jane_payload) \<and>
   (\<exists>html html'.
      htmlContent (js ''1 January 2025'') jane_payload = Inr html \<and>
      htmlContent (js ''1 January 2025'') (jane_payload\<lparr>phone := JStr (js ''99 123 456'')\<rparr>) = Inr html' \<and>
      cut_out (html_phone_open @ js ''99 123 456'' @ html_phone_mid @ js ''99 123 456'' @ html_phone_close)
        html' html) \<and>
   (\<exists>plain plain'.
      textContent (js ''1 January 2025'') jane_payload = Inr plain \<and>
      textContent (js ''1 January 2025'') (jane_payload\<lparr>phone := JStr (js ''99 123 456'')\<rparr>) = Inr plain' \<and>
      cut_out (text_phone_label @ js ''99 123 456'') plain' plain)"
proof -
  have "\<exists>html plain subject reply_html reply_plain.
           htmlContent (js ''1 January 2025'') jane_payload = Inr html \<and>
           textContent (js ''1 January 2025'') jane_payload = Inr plain \<and>
           notification_subject jane_payload = Inr subject \<and>
           autoReplyHtml jane_payload = Inr reply_html \<and> autoReplyText jane_payload = Inr reply_plain"
    by (rule text_submission_renders) (simp_all add: jane_payload_def)
  then obtain html plain where r:
    "htmlContent (js ''1 January 2025'') jane_payload = Inr html"
    "textContent (js ''1 January 2025'') jane_payload = Inr plain"
    by blast
  have absent: "\<not> truthy (phone jane_payload)" by (simp add: jane_payload_def)
  have v: "js ''99 123 456'' \<noteq> []" by (simp add: js_eq_Nil)
  from optional_sections_omitted [OF r v] absent r show ?thesis by blast
qed


section \<open>The claims about the Client Form Controller\<close>

text \<open>
  Claim C9: \<^verbatim>\<open>validateForm\<close> returns true if and only if every required field passes
  \<^verbatim>\<open>validateField\<close>, and it runs \<^verbatim>\<open>validateField\<close> on every required field without
  stopping at a failure: each required field of the form leaves as \<^verbatim>\<open>validateField\<close>
  leaves it, with the class \<^verbatim>\<open>is-valid\<close> when it passed and \<^verbatim>\<open>is-invalid\<close> when it did
  not.
\<close>

theorem validateForm_checks_every_required_field:
  "(fst (validateForm lang fm) \<longleftrightarrow>
      (\<forall>f \<in> set (form_fields fm).
         field_required f \<longrightarrow> fst (validateField lang f (form_feedback fm)))) \<and>
   form_fields (snd (validateForm lang fm)) =
     map (\<lambda>f. if field_required f then fst (snd (validateField lang f (form_feedback fm))) else f)
       (form_fields fm) \<and>
   (\<forall>f \<in> set (form_fields fm).
      field_required f \<longrightarrow>
        (js ''is-valid'' \<in> set (field_classList (fst (snd (validateField lang f (form_feedback fm)))))
           \<longleftrightarrow> fst (validateField lang f (form_feedback fm))) \<and>
        (js ''is-invalid'' \<in> set (field_classList (fst (snd (validateField lang f (form_feedback fm)))))
           \<longleftrightarrow> \<not> fst (validateField lang f (form_feedback fm))))"
proof -
  have "fst (validateForm lang fm) =
      fst (validate_each lang (form_fields fm) (form_feedback fm) True)"
    by (simp add: validateForm_def split_beta)
  moreover have "form_fields (snd (validateForm lang fm)) =
      fst (snd (validate_each lang (form_fields fm) (form_feedback fm) True))"
    by (simp add: validateForm_def split_beta)
  ultimately show ?thesis
    using validate_each_result [of lang "form_fields fm" "form_feedback fm" True "form_feedback fm"]
      validateField_classes
    by simp
qed

theorem validateForm_checks_every_required_field_witness:
  "\<not> fst (validateForm (js ''en'') blank_name_form) \<and>
   map field_classList (form_fields (snd (validateForm (js ''en'') blank_name_form))) =
     [[js ''form-control'', js ''is-invalid''], [js ''form-control'', js ''is-valid'']]"
proof -
  have a: "\<not> fst (validateField (js ''en'') (control (js ''name'') (js ''text'') (js ''  '') True par) fb)" for fb par
    by (simp add: validateField_verdict control_def trim_examples)
  have b: "fst (validateField (js ''en'') (control (js ''email'') (js ''email'') (js ''jane@x.com'') True par) fb)" for fb par
    by (simp add: validateField_verdict control_def trim_examples isValidEmail_jane js_eq_Nil)
  have c: "field_classList (fst (snd (validateField (js ''en'') (control (js ''name'') (js ''text'') (js ''  '') True par) fb)))
      = [js ''form-control'', js ''is-invalid'']" for fb par
    by (simp add: validateField_def Let_def showFieldError_def control_def trim_examples
        classList_add_def classList_remove_def js_eq_iff)
  have d: "field_classList (fst (snd (validateField (js ''en'') (control (js ''email'') (js ''email'') (js ''jane@x.com'') True par) fb)))
      = [js ''form-control'', js ''is-valid'']" for fb par
    by (simp add: validateField_def Let_def showFieldError_def control_def trim_examples
        classList_add_def classList_remove_def js_eq_iff isValidEmail_jane js_eq_Nil)
  have req: "field_required (control nm ty v True par)" for nm ty v par
    by (simp add: control_def)
  from validateForm_checks_every_required_field [of "js ''en''" blank_name_form]
  show ?thesis
    by (simp add: blank_name_form_def a b c d req js_eq_iff)
qed


text \<open>
  The controller validates the trimmed value of the email field and submits the
  value as it stands. \<^verbatim>\<open>trim\<close> strips the no-break space U+00A0, which \<^verbatim>\<open>\s\<close> matches:
  a form whose email is \<^verbatim>\<open>jane@x.com\<close> after a no-break space passes \<^verbatim>\<open>validateForm\<close>,
  is posted, and is rejected by the handler's email check with status 400.
\<close>

theorem client_valid_server_rejected:
  "fst (validateForm (js ''en'') nbsp_form) \<and>
   handleFormSubmit_body (js ''en'') nbsp_form = Some nbsp_body \<and>
   handler example_env accepting_provider (post nbsp_body) = (invalid_email_response, []) \<and>
   res_status invalid_email_response = 400"
proof -
  have fields: "\<forall>f \<in> set (form_fields nbsp_form).
      field_required f \<longrightarrow> fst (validateField (js ''en'') f Map.empty)"
    by (simp add: nbsp_form_def control_def validateField_verdict trim_examples
        isValidEmail_jane js_eq_iff js_eq_Nil)
  have valid: "fst (validateForm (js ''en'') nbsp_form)"
    using fields validate_each_result(1) [of "js ''en''" "form_fields nbsp_form" Map.empty True Map.empty]
    by (simp add: validateForm_def split_beta nbsp_form_def)
  have data: "submissionData (form_fields nbsp_form) = nbsp_body"
    by (simp add: submissionData_def formData_get_def submits_def nbsp_form_def control_def
        nbsp_body_def js_eq_iff)
  have honeypot: "\<not> truthy (formData_get (form_fields nbsp_form) (js ''website''))"
    by (simp add: formData_get_def submits_def nbsp_form_def control_def js_eq_iff)
  have body: "handleFormSubmit_body (js ''en'') nbsp_form = Some nbsp_body"
    using valid honeypot data by (simp add: handleFormSubmit_body_def)
  have "handler example_env accepting_provider (post nbsp_body) = (invalid_email_response, [])"
    by (simp add: handler_post post_simps try_block_def destructure_def nbsp_body_def
        js_eq_iff js_eq_Nil nbsp_rejected_by_regex)
       (simp add: nbsp_email_def)
  with valid body show ?thesis by (simp add: status_simps)
qed


text \<open>
  Claim C8, as amended: \<^verbatim>\<open>isValidEmail\<close> and the handler's email check decide alike on
  every string; so when an email field passes \<^verbatim>\<open>validateField\<close> and its value has no
  white space at either end (the value validated is the value submitted), a POST with
  that value as \<^verbatim>\<open>email\<close> is never answered with the invalid-email response.
\<close>

theorem email_checks_agree:
  "(isValidEmail s \<longleftrightarrow> regex_test emailRegex s) \<and>
   (field_type f = js ''email'' \<and> field_value f \<noteq> [] \<and>
    trim (field_value f) = field_value f \<and> fst (validateField lang f fb) \<and>
    req_method req = js ''POST'' \<and>
    read_prop (req_body req) (js ''email'') = JStr (field_value f)
    \<longrightarrow> fst (handler ev send req) \<noteq> invalid_email_response)"
proof (intro conjI impI)
  show "isValidEmail s \<longleftrightarrow> regex_test emailRegex s"
    by (rule isValidEmail_emailRegex)
next
  assume a: "field_type f = js ''email'' \<and> field_value f \<noteq> [] \<and>
    trim (field_value f) = field_value f \<and> fst (validateField lang f fb) \<and>
    req_method req = js ''POST'' \<and>
    read_prop (req_body req) (js ''email'') = JStr (field_value f)"
  then have "isValidEmail (field_value f)"
    by (auto simp add: validateField_verdict)
  then have "regex_test emailRegex (field_value f)"
    by (simp add: isValidEmail_emailRegex)
  with a show "fst (handler ev send req) \<noteq> invalid_email_response"
    using well_formed_email_passes_check by blast
qed

theorem email_checks_agree_witness:
  "isValidEmail (js ''jane@x.com'') \<and> regex_test emailRegex (js ''jane@x.com'') \<and>
   fst (validateField (js ''en'') (control (js ''email'') (js ''email'') (js ''jane@x.com'') True 1) Map.empty) \<and>
   fst (handler example_env accepting_provider (post jane_body)) \<noteq> invalid_email_response"
  using email_checks_agree [of "js ''jane@x.com''"
      "control (js ''email'') (js ''email'') (js ''jane@x.com'') True 1" "js ''en''" Map.empty
      "post jane_body" example_env accepting_provider]
  by (simp add: control_def trim_examples validateField_verdict isValidEmail_jane regex_jane
      post_simps jane_body_def js_eq_iff js_eq_Nil)


section \<open>The claim about the language switch\<close>

text \<open>
  Three things \<^verbatim>\<open>switchLanguage\<close> and the page load do otherwise than "every element is
  updated, the choice is stored and the stored preference is applied". An element whose
  \<^verbatim>\<open>data-el\<close> is empty keeps its text (the guard \<^verbatim>\<open>if (translation)\<close>). A \<^verbatim>\<open>lang\<close>
  parameter of the address comes before the stored preference: with \<^verbatim>\<open>el\<close> stored and
  \<^verbatim>\<open>?lang=en\<close> in the address, the page loads in English. And on a page where one of the
  two toggles is inside an element that carries \<^verbatim>\<open>data-el\<close>, writing the translation
  removes that toggle, \<^verbatim>\<open>$('.lang-toggle')\<close> is the single toggle left,
  \<^verbatim>\<open>langToggles.forEach\<close> throws, and the choice is not stored.
\<close>

theorem language_switch_exceptions:
  "(\<exists>pg'. switchLanguage (js ''el'') home_page = (None, pg') \<and>
      getAttribute (all_elements home_page ! 3) (js ''data-el'') = Some [] \<and>
      node_textContent (all_elements pg' ! 3) = js ''Welcome'' \<and> js ''Welcome'' \<noteq> []) \<and>
   (\<exists>q'. init_language
            (home_page\<lparr>localStorage := [(js ''digilima_lang'', js ''el'')],
                        url_lang := Some (js ''en'')\<rparr>) = (None, q') \<and>
      currentLang q' = js ''en'' \<and> js ''en'' \<noteq> js ''el'') \<and>
   (no_single_match (js ''el'') nested_page \<and>
    fst (switchLanguage (js ''el'') nested_page) = Some TypeError \<and>
    map_of (localStorage (snd (switchLanguage (js ''el'') nested_page))) (js ''digilima_lang'') = None)"
proof -
  have lang: "js ''el'' \<noteq> js ''lang''" "js ''en'' \<noteq> js ''lang''" "js ''en'' \<noteq> []"
    by (simp_all add: js_eq_iff js_eq_Nil)
  obtain pg' where pg': "switchLanguage (js ''el'') home_page = (None, pg')"
    "documentElement pg' = switched (js ''el'') (documentElement home_page)"
    using switchLanguage_completes [OF example_pages_match(1,2) lang(1)] by blast
  have first: "\<exists>pg'. switchLanguage (js ''el'') home_page = (None, pg') \<and>
      getAttribute (all_elements home_page ! 3) (js ''data-el'') = Some [] \<and>
      node_textContent (all_elements pg' ! 3) = js ''Welcome'' \<and> js ''Welcome'' \<noteq> []"
    using pg' untranslated_text by (simp add: all_elements_def js_eq_Nil)
  let ?q = "home_page\<lparr>localStorage := [(js ''digilima_lang'', js ''el'')],
                        url_lang := Some (js ''en'')\<rparr>"
  have "initLanguageFromURL ?q = switchLanguage (js ''en'') ?q"
    by (rule initLanguageFromURL_param) (simp_all add: site_language_simps(2))
  then have second: "\<exists>q'. init_language ?q = (None, q') \<and> currentLang q' = js ''en''"
    using example_pages_match(3,4) lang(3,2) by (rule init_language_switches)
  have third: "no_single_match (js ''el'') nested_page \<and>
    fst (switchLanguage (js ''el'') nested_page) = Some TypeError \<and>
    map_of (localStorage (snd (switchLanguage (js ''el'') nested_page))) (js ''digilima_lang'') = None"
    using nested_toggle_throws by simp
  from first second third show ?thesis by (simp add: js_eq_iff)
qed

text \<open>
  Claim C10, as amended: on a page where none of the three selectors matches exactly one
  element, and where no element that carries \<^verbatim>\<open>data-el\<close> and no title element contains
  another element, switching the language to \<^verbatim>\<open>el\<close> completes; the page keeps its
  elements, and every element that carries a non-empty \<^verbatim>\<open>data-el\<close> attribute then shows
  that attribute's text -- as its text content, or, for an \<^verbatim>\<open>INPUT\<close> or \<^verbatim>\<open>TEXTAREA\<close>, as
  its placeholder, unless a non-empty \<^verbatim>\<open>data-placeholder-el\<close> gives the placeholder; the
  choice is stored under \<^verbatim>\<open>digilima_lang\<close>; and the next page load with that storage (on
  such a page, and with no \<^verbatim>\<open>lang=en\<close> in the address) makes \<^verbatim>\<open>el\<close> the current language.
\<close>

theorem switchLanguage_el:
  assumes "no_single_match (js ''el'') pg" and "leaf_translations (js ''el'') pg"
  shows "\<exists>pg'. switchLanguage (js ''el'') pg = (None, pg') \<and>
     currentLang pg' = js ''el'' \<and>
     map_of (localStorage pg') (js ''digilima_lang'') = Some (js ''el'') \<and>
     map (\<lambda>e. (tagName e, getAttribute e (js ''data-el''))) (all_elements pg') =
       map (\<lambda>e. (tagName e, getAttribute e (js ''data-el''))) (all_elements pg) \<and>
     (\<forall>i<length (all_elements pg). \<forall>t.
        getAttribute (all_elements pg ! i) (js ''data-el'') = Some t \<and> t \<noteq> [] \<longrightarrow>
          (if is_form_text (all_elements pg ! i)
           then placeholder (all_elements pg' ! i) =
                  (case getAttribute (all_elements pg ! i) (js ''data-placeholder-el'') of
                     Some q \<Rightarrow> if q \<noteq> [] then q else t
                   | None \<Rightarrow> t)
           else node_textContent (all_elements pg' ! i) = t)) \<and>
     (\<forall>q. localStorage q = localStorage pg' \<and> url_lang q \<noteq> Some (js ''en'') \<and>
          no_single_match (js ''el'') q \<and> leaf_translations (js ''el'') q \<longrightarrow>
          (\<exists>q'. init_language q = (None, q') \<and> currentLang q' = js ''el''))"
proof -
  let ?l = "js ''el''"
  have lang: "?l \<noteq> js ''lang''" "?l \<noteq> []"
    by (simp_all add: js_eq_iff js_eq_Nil)
  have attrs: "js ''data-'' @ ?l = js ''data-el''"
    "js ''data-placeholder-'' @ ?l = js ''data-placeholder-el''"
    by (simp_all add: js_append [symmetric])
  have leaves: "translation_leaves (js ''data-'' @ ?l) (documentElement pg)"
    using assms(2) by (simp only: leaf_translations_def)
  obtain pg' where pg': "switchLanguage ?l pg = (None, pg')"
    "documentElement pg' = switched ?l (documentElement pg)"
    "currentLang pg' = ?l"
    "localStorage pg' = set_entry (js ''digilima_lang'') ?l (localStorage pg)"
    using switchLanguage_completes [OF assms lang(1)] by blast
  have stored: "map_of (localStorage pg') (js ''digilima_lang'') = Some ?l"
    by (simp add: pg'(4) map_of_set_entry)
  have same: "map (\<lambda>e. (tagName e, getAttribute e (js ''data-el''))) (all_elements pg') =
      map (\<lambda>e. (tagName e, getAttribute e (js ''data-el''))) (all_elements pg)"
    using switched_elements(2) [OF leaves lang(1)]
    by (simp only: all_elements_def pg'(2) attrs)
  have els: "if is_form_text (all_elements pg ! i)
           then placeholder (all_elements pg' ! i) =
                  (case getAttribute (all_elements pg ! i) (js ''data-placeholder-el'') of
                     Some q \<Rightarrow> if q \<noteq> [] then q else t
                   | None \<Rightarrow> t)
           else node_textContent (all_elements pg' ! i) = t"
    if "i < length (all_elements pg)" "getAttribute (all_elements pg ! i) (js ''data-el'') = Some t"
      "t \<noteq> []" for i t
    using switched_elements(3) [OF leaves lang(1), of i t] that
    by (simp only: all_elements_def pg'(2) attrs) simp
  have next_load: "\<exists>q'. init_language q = (None, q') \<and> currentLang q' = ?l"
    if "localStorage q = localStorage pg'" "url_lang q \<noteq> Some (js ''en'')"
      "no_single_match ?l q" "leaf_translations ?l q" for q
  proof -
    have "map_of (localStorage q) (js ''digilima_lang'') = Some ?l"
      using that(1) stored by simp
    then have "initLanguageFromURL q = switchLanguage ?l q"
      using that(2) by (rule initLanguageFromURL_stored)
    then show ?thesis
      using that(3,4) lang(2,1) by (rule init_language_switches)
  qed
  show ?thesis
    using pg'(1,3) stored same els next_load by blast
qed

theorem switchLanguage_el_witness:
  "no_single_match (js ''el'') home_page \<and> leaf_translations (js ''el'') home_page \<and>
   (\<exists>pg'. switchLanguage (js ''el'') home_page = (None, pg') \<and>
      currentLang pg' = js ''el'' \<and>
      map_of (localStorage pg') (js ''digilima_lang'') = Some (js ''el'') \<and>
      node_textContent (all_elements pg' ! 2) = greek_hello)"
proof -
  obtain pg' where pg':
    "switchLanguage (js ''el'') home_page = (None, pg')"
    "currentLang pg' = js ''el''"
    "map_of (localStorage pg') (js ''digilima_lang'') = Some (js ''el'')"
    "\<forall>i<length (all_elements home_page). \<forall>t.
        getAttribute (all_elements home_page ! i) (js ''data-el'') = Some t \<and> t \<noteq> [] \<longrightarrow>
          (if is_form_text (all_elements home_page ! i)
           then placeholder (all_elements pg' ! i) =
                  (case getAttribute (all_elements home_page ! i) (js ''data-placeholder-el'') of
                     Some q \<Rightarrow> if q \<noteq> [] then q else t
                   | None \<Rightarrow> t)
           else node_textContent (all_elements pg' ! i) = t)"
    using switchLanguage_el [OF example_pages_match(1,2)] by blast
  have h: "2 < length (all_elements home_page)"
    "getAttribute (all_elements home_page ! 2) (js ''data-el'') = Some greek_hello \<and> greek_hello \<noteq> []"
    "\<not> is_form_text (all_elements home_page ! 2)"
    by (simp_all add: example_page_defs getAttribute_def tagName_def greek_hello_def
        is_form_text_def js_eq_iff)
  have "node_textContent (all_elements pg' ! 2) = greek_hello"
    using pg'(4) [rule_format, OF h(1,2)] h(3) by simp
  with pg' example_pages_match(1,2) show ?thesis by blast
qed


end
